theory Spec2Isabelle
  imports Main "HOL-Library.Word"
begin

unbundle bit_operations_syntax

section \<open>Form checker of WasmEdge (lib/validator/formchecker.cpp)\<close>

text \<open>
  A shallow embedding of \<^verbatim>\<open>FormChecker\<close>. Every member function becomes a function on
  an explicit checker state. A function that can fail returns an \<open>Expect\<close> value next to
  the state it leaves behind (the C++ code mutates the checker before it returns an error).
  The outermost \<open>option\<close> is \<open>None\<close> where the C++ program has no defined result: an
  out-of-range vector access, \<^verbatim>\<open>back()\<close> of an empty vector, \<^verbatim>\<open>assumingUnreachable()\<close>,
  or a recursion of \<^verbatim>\<open>matchType\<close> that never ends.
\<close>

subsection \<open>Value types\<close>

type_synonym uint32 = "32 word"

text \<open>An \<^verbatim>\<open>int32_t\<close> is a 32-bit word read by \<open>sint\<close>.\<close>

type_synonym int32 = "32 word"

text \<open>
  Modelled from the spec: the declaration of \<^verbatim>\<open>ValType\<close> (common/types.h) is not part of
  the sources. The spec describes a tagged union of the four numeric kinds, the vector kind
  and a reference type carrying nullability and a heap type; a heap type is an abstract code
  or a concrete type index. \<open>Ref h\<close> is \<^verbatim>\<open>ValType(TypeCode::Ref, ...)\<close> (non-nullable),
  \<open>RefNull h\<close> is \<^verbatim>\<open>ValType(TypeCode::RefNull, ...)\<close> (nullable).
\<close>

datatype HeapType = FuncRef | ExternRef | TypeIndex uint32

datatype ValType = I32 | I64 | F32 | F64 | V128 | Ref HeapType | RefNull HeapType

text \<open>\<^verbatim>\<open>VType\<close> is \<^verbatim>\<open>std::optional<ValType>\<close>; \<^verbatim>\<open>unreachableVType()\<close> is the empty optional.\<close>

type_synonym VType = "ValType option"

definition unreachableVType :: VType where
  "unreachableVType = None"

definition isRefType :: "ValType \<Rightarrow> bool" where
  "isRefType V = (case V of Ref _ \<Rightarrow> True | RefNull _ \<Rightarrow> True | _ \<Rightarrow> False)"

definition isNullableRefType :: "ValType \<Rightarrow> bool" where
  "isNullableRefType V = (case V of RefNull _ \<Rightarrow> True | _ \<Rightarrow> False)"

text \<open>The heap type of a reference type (\<^verbatim>\<open>getHeapTypeCode\<close> with \<^verbatim>\<open>getTypeIndex\<close>).\<close>

definition getHeapType :: "ValType \<Rightarrow> HeapType option" where
  "getHeapType V = (case V of Ref h \<Rightarrow> Some h | RefNull h \<Rightarrow> Some h | _ \<Rightarrow> None)"

definition isTypeIndex :: "HeapType \<Rightarrow> bool" where
  "isTypeIndex h = (case h of TypeIndex _ \<Rightarrow> True | _ \<Rightarrow> False)"

text \<open>Equality of the heap type codes alone: two type indices have the same code.\<close>

definition sameHeapTypeCode :: "HeapType \<Rightarrow> HeapType \<Rightarrow> bool" where
  "sameHeapTypeCode h g =
     (case (h, g) of
        (FuncRef, FuncRef) \<Rightarrow> True
      | (ExternRef, ExternRef) \<Rightarrow> True
      | (TypeIndex _, TypeIndex _) \<Rightarrow> True
      | _ \<Rightarrow> False)"

text \<open>
  Modelled from the spec: \<^verbatim>\<open>isDefaultable\<close>, \<^verbatim>\<open>isNumType\<close> and \<^verbatim>\<open>isFuncRefType\<close> are
  declared with \<^verbatim>\<open>ValType\<close>. The glossary says that all numeric, vector and nullable
  reference types are defaultable and non-nullable references are not.
\<close>

definition isDefaultable :: "ValType \<Rightarrow> bool" where
  "isDefaultable V = (case V of Ref _ \<Rightarrow> False | _ \<Rightarrow> True)"

definition isNumTypeV :: "ValType \<Rightarrow> bool" where
  "isNumTypeV V = (case V of I32 \<Rightarrow> True | I64 \<Rightarrow> True | F32 \<Rightarrow> True | F64 \<Rightarrow> True | _ \<Rightarrow> False)"

definition isFuncRefType :: "ValType \<Rightarrow> bool" where
  "isFuncRefType V =
     (case getHeapType V of None \<Rightarrow> False | Some h \<Rightarrow> h = FuncRef \<or> isTypeIndex h)"

text \<open>
  Modelled from the spec: the static helpers \<^verbatim>\<open>isNumType(VType)\<close> and \<^verbatim>\<open>isRefType(VType)\<close>
  of the header; the spec lets \<open>Unknown\<close> pass both tests.
\<close>

definition isNumType :: "VType \<Rightarrow> bool" where
  "isNumType V = (case V of None \<Rightarrow> True | Some T \<Rightarrow> isNumTypeV T)"

definition isRefTypeV :: "VType \<Rightarrow> bool" where
  "isRefTypeV V = (case V of None \<Rightarrow> True | Some T \<Rightarrow> isRefType T)"

definition VTypeToAST :: "VType \<Rightarrow> ValType" where
  "VTypeToAST V = (case V of None \<Rightarrow> I32 | Some T \<Rightarrow> T)"

subsection \<open>Errors\<close>

datatype ErrCode =
    InvalidFuncTypeIdx | InvalidFuncIdx | InvalidTableIdx | InvalidMemoryIdx
  | InvalidGlobalIdx | InvalidLocalIdx | InvalidLabelIdx | InvalidDataIdx
  | InvalidElemIdx | InvalidLaneIdx | InvalidRefIdx | InvalidAlignment
  | InvalidResultArity | InvalidBrRefType | InvalidUninitLocal | ImmutableGlobal
  | TypeCheckFailed

datatype 'a Expect = Ok 'a | Unexpect ErrCode

subsection \<open>Type matching\<close>

type_synonym FuncType = "ValType list \<times> ValType list"

text \<open>
  \<^verbatim>\<open>matchType\<close> and \<^verbatim>\<open>matchTypes\<close> call each other through the type table, and nothing in
  the code bounds that recursion (the comment in the source relies on the validation of the
  type section). They are therefore one partial function: \<open>Inl (Exp, Got)\<close> is a call of
  \<^verbatim>\<open>matchType\<close>, \<open>Inr (Exp, Got)\<close> is the loop of \<^verbatim>\<open>matchTypes\<close> over two spans of the
  same size, and \<open>None\<close> is a call that does not return (or reads \<^verbatim>\<open>Types\<close> out of range).
\<close>

partial_function (option) matchBoth ::
  "FuncType list \<Rightarrow> (ValType \<times> ValType) + (ValType list \<times> ValType list) \<Rightarrow> bool option" where
  "matchBoth Ts c =
     (case c of
        Inl (Exp, Got) \<Rightarrow>
          if \<not> isRefType Exp \<and> \<not> isRefType Got \<and> Exp = Got then Some True
          else
            (case (Exp, getHeapType Exp, Got, getHeapType Got) of
               (_, Some he, _, Some hg) \<Rightarrow>
                 if \<not> isNullableRefType Exp \<and> isNullableRefType Got then Some False
                 else if sameHeapTypeCode he hg \<and> \<not> isTypeIndex he then Some True
                 else if he = FuncRef \<and> isTypeIndex hg then Some True
                 else
                   (case (he, hg) of
                      (TypeIndex i, TypeIndex j) \<Rightarrow>
                        if unat i < length Ts \<and> unat j < length Ts then
                          Option.bind
                            (if length (fst (Ts ! unat i)) \<noteq> length (fst (Ts ! unat j))
                             then Some False
                             else matchBoth Ts (Inr (fst (Ts ! unat i), fst (Ts ! unat j))))
                            (\<lambda>P. if P then
                                   (if length (snd (Ts ! unat i)) \<noteq> length (snd (Ts ! unat j))
                                    then Some False
                                    else matchBoth Ts (Inr (snd (Ts ! unat i), snd (Ts ! unat j))))
                                 else Some False)
                        else None
                    | _ \<Rightarrow> Some False)
             | _ \<Rightarrow> Some False)
      | Inr (Exps, Gots) \<Rightarrow>
          (case (Exps, Gots) of
             (E # Es, G # Gs) \<Rightarrow>
               Option.bind (matchBoth Ts (Inl (E, G)))
                 (\<lambda>M. if M then matchBoth Ts (Inr (Es, Gs)) else Some False)
           | _ \<Rightarrow> Some True))"

definition matchType :: "FuncType list \<Rightarrow> ValType \<Rightarrow> ValType \<Rightarrow> bool option" where
  "matchType Ts Exp Got = matchBoth Ts (Inl (Exp, Got))"

definition matchTypes :: "FuncType list \<Rightarrow> ValType list \<Rightarrow> ValType list \<Rightarrow> bool option" where
  "matchTypes Ts Exp Got =
     (if length Exp \<noteq> length Got then Some False else matchBoth Ts (Inr (Exp, Got)))"

subsection \<open>Opcodes and instructions\<close>

text \<open>
  Modelled from the spec: the enumeration \<^verbatim>\<open>OpCode\<close> and the class \<^verbatim>\<open>AST::Instruction\<close>
  are declared outside the sources. The opcodes that \<^verbatim>\<open>checkInstr\<close> treats with a rule of
  their own are constructors named as in the source (\<open>If_op\<close> is \<^verbatim>\<open>OpCode::If\<close>). The
  opcodes whose case only calls \<^verbatim>\<open>checkAlignAndTrans\<close>, \<^verbatim>\<open>checkLaneAndTrans\<close> or
  \<^verbatim>\<open>StackTrans\<close> with constants carry their source name as a string; the constants of
  each case label are in the tables \<open>alignOps\<close>, \<open>laneOps\<close> and \<open>transOps\<close> below.
\<close>

datatype ControlOp =
    Unreachable | Nop | If_op | Block | Loop | Else | End | Br | Br_if | Br_table
  | Br_on_null | Br_on_non_null | Return | Call | Call_indirect | Return_call
  | Return_call_indirect | Call_ref | Return_call_ref

datatype RefVarOp =
    Ref__null | Ref__is_null | Ref__func | Ref__as_non_null | Drop | Select | Select_t
  | Local__get | Local__set | Local__tee | Global__set | Global__get

datatype TableMemOp =
    Table__get | Table__set | Table__grow | Table__size | Table__fill | Table__init
  | Table__copy | Elem__drop | Memory__size | Memory__grow | Memory__init | Memory__copy
  | Memory__fill | Data__drop

datatype OpCode =
    Control ControlOp | RefVar RefVarOp | TableMem TableMemOp
  | I8x16__shuffle | Atomic__fence
  | AlignOp string | LaneOp string | TransOp string

datatype BlockType = EmptyBT | ValTypeBT ValType | TypeIndexBT uint32

record JumpDescriptor =
  TargetIndex :: uint32
  StackEraseBegin :: uint32
  StackEraseEnd :: uint32
  PCOffset :: int32

text \<open>One field for each accessor of \<^verbatim>\<open>AST::Instruction\<close> that the checker calls.\<close>

record Instruction =
  getOpCode :: OpCode
  getOffset :: uint32
  getBlockType :: BlockType
  getJumpEnd :: uint32
  getJumpElse :: uint32
  getJump :: JumpDescriptor
  getLabelList :: "JumpDescriptor list"
  getTargetIndex :: uint32
  getSourceIndex :: uint32
  getValType :: ValType
  getValTypeList :: "ValType list"
  getStackOffset :: uint32
  getMemoryAlign :: uint32
  getMemoryLane :: "8 word"
  getNum :: "128 word"

subsection \<open>The checker state\<close>

text \<open>
  A pointer to an instruction is its address counted in instructions (an \<open>int\<close>), so that
  the difference of two pointers is the difference of the two numbers.
  Modelled from the spec: \<^verbatim>\<open>pushCtrl\<close> is called without an opcode for the outer frame,
  and its default argument is in the header; the spec names that opcode \<open><outer>\<close>, which
  is \<open>None\<close> here.
\<close>

record CtrlFrame =
  StartTypes :: "ValType list"
  EndTypes :: "ValType list"
  Jump :: int
  Height :: nat
  InitedLocal :: nat
  Code :: "OpCode option"
  IsUnreachable :: bool

record LocalType =
  VType :: ValType
  IsInit :: bool

datatype ValMut = Const | Var

record FormChecker =
  Types :: "FuncType list"
  Funcs :: "uint32 list"
  Tables :: "ValType list"
  Mems :: uint32
  Globals :: "(ValType \<times> ValMut) list"
  Datas :: "uint32 list"
  Elems :: "ValType list"
  Refs :: "uint32 set"
  NumImportFuncs :: uint32
  NumImportGlobals :: uint32
  Locals :: "LocalType list"
  LocalInits :: "uint32 list"
  Returns :: "ValType list"
  ValStack :: "VType list"
  CtrlStack :: "CtrlFrame list"

type_synonym 'a Result = "('a Expect \<times> FormChecker) option"

subsection \<open>Module-level state\<close>

definition reset :: "bool \<Rightarrow> FormChecker \<Rightarrow> FormChecker" where
  "reset CleanGlobal s =
     (let s1 = s\<lparr>ValStack := [], CtrlStack := [], Locals := [], Returns := []\<rparr>
      in if CleanGlobal then
           s1\<lparr>Types := [], Funcs := [], Tables := [], Mems := 0, Globals := [], Datas := [],
              Elems := [], Refs := {}, NumImportFuncs := 0, NumImportGlobals := 0\<rparr>
         else s1)"

text \<open>\<^verbatim>\<open>validate(const ValType &)\<close>: a type index must be in range.\<close>

definition validateValType :: "FormChecker \<Rightarrow> ValType \<Rightarrow> unit Expect" where
  "validateValType s VT =
     (case getHeapType VT of
        Some (TypeIndex i) \<Rightarrow>
          if unat i \<ge> length (Types s) then Unexpect InvalidFuncTypeIdx else Ok ()
      | _ \<Rightarrow> Ok ())"

definition addType :: "FuncType \<Rightarrow> FormChecker \<Rightarrow> FormChecker" where
  "addType FuncT s = s\<lparr>Types := Types s @ [(fst FuncT, snd FuncT)]\<rparr>"

definition addFunc :: "uint32 \<Rightarrow> bool \<Rightarrow> FormChecker \<Rightarrow> FormChecker" where
  "addFunc TypeIdx IsImport s =
     (let s1 = (if length (Types s) > unat TypeIdx then s\<lparr>Funcs := Funcs s @ [TypeIdx]\<rparr> else s)
      in if IsImport then s1\<lparr>NumImportFuncs := NumImportFuncs s1 + 1\<rparr> else s1)"

definition addTable :: "ValType \<Rightarrow> FormChecker \<Rightarrow> FormChecker" where
  "addTable RefT s = s\<lparr>Tables := Tables s @ [RefT]\<rparr>"

definition addMemory :: "FormChecker \<Rightarrow> FormChecker" where
  "addMemory s = s\<lparr>Mems := Mems s + 1\<rparr>"

definition addGlobal :: "ValType \<times> ValMut \<Rightarrow> bool \<Rightarrow> FormChecker \<Rightarrow> FormChecker" where
  "addGlobal Glob IsImport s =
     (let s1 = s\<lparr>Globals := Globals s @ [(fst Glob, snd Glob)]\<rparr>
      in if IsImport then s1\<lparr>NumImportGlobals := NumImportGlobals s1 + 1\<rparr> else s1)"

definition addData :: "FormChecker \<Rightarrow> FormChecker" where
  "addData s = s\<lparr>Datas := Datas s @ [word_of_nat (length (Datas s))]\<rparr>"

definition addElem :: "ValType \<Rightarrow> FormChecker \<Rightarrow> FormChecker" where
  "addElem RefT s = s\<lparr>Elems := Elems s @ [RefT]\<rparr>"

definition addRef :: "uint32 \<Rightarrow> FormChecker \<Rightarrow> FormChecker" where
  "addRef FuncIdx s = s\<lparr>Refs := insert FuncIdx (Refs s)\<rparr>"

definition addLocal :: "ValType \<Rightarrow> bool \<Rightarrow> FormChecker \<Rightarrow> FormChecker" where
  "addLocal V Initialized s =
     (if Initialized \<or> isDefaultable V then
        s\<lparr>Locals := Locals s @ [\<lparr>VType = V, IsInit = True\<rparr>],
          LocalInits := LocalInits s @ [word_of_nat (length (Locals s))]\<rparr>
      else s\<lparr>Locals := Locals s @ [\<lparr>VType = V, IsInit = False\<rparr>]\<rparr>)"

subsection \<open>Operand stack\<close>

text \<open>The top of a stack is the last element of the list, as \<^verbatim>\<open>back()\<close> of the vector.\<close>

definition pushType :: "VType \<Rightarrow> FormChecker \<Rightarrow> FormChecker" where
  "pushType V s = s\<lparr>ValStack := ValStack s @ [V]\<rparr>"

fun pushVTypes :: "VType list \<Rightarrow> FormChecker \<Rightarrow> FormChecker" where
  "pushVTypes [] s = s"
| "pushVTypes (Val # Input) s = pushVTypes Input (pushType Val s)"

fun pushTypes :: "ValType list \<Rightarrow> FormChecker \<Rightarrow> FormChecker" where
  "pushTypes [] s = s"
| "pushTypes (Val # Input) s = pushTypes Input (pushType (Some Val) s)"

text \<open>\<^verbatim>\<open>popType()\<close>, without an expected type.\<close>

definition popType0 :: "FormChecker \<Rightarrow> VType Result" where
  "popType0 s =
     (if CtrlStack s = [] then None
      else if length (ValStack s) = Height (last (CtrlStack s)) then
        (if IsUnreachable (last (CtrlStack s)) then Some (Ok unreachableVType, s)
         else Some (Unexpect TypeCheckFailed, s))
      else if ValStack s = [] then None
      else Some (Ok (last (ValStack s)), s\<lparr>ValStack := butlast (ValStack s)\<rparr>))"

text \<open>\<^verbatim>\<open>popType(ValType E)\<close>.\<close>

definition popType :: "ValType \<Rightarrow> FormChecker \<Rightarrow> VType Result" where
  "popType E s =
     (case popType0 s of
        None \<Rightarrow> None
      | Some (Unexpect e, s1) \<Rightarrow> Some (Unexpect e, s1)
      | Some (Ok Res, s1) \<Rightarrow>
          (case Res of
             None \<Rightarrow> Some (Ok (Some E), s1)
           | Some Got \<Rightarrow>
               (case matchType (Types s1) E Got of
                  None \<Rightarrow> None
                | Some False \<Rightarrow> Some (Unexpect TypeCheckFailed, s1)
                | Some True \<Rightarrow> Some (Ok Res, s1))))"

text \<open>The loop of \<^verbatim>\<open>popTypes\<close> runs from \<^verbatim>\<open>rbegin()\<close> to \<^verbatim>\<open>rend()\<close>; its argument here is
  the reversed span.\<close>

fun popTypesLoop :: "ValType list \<Rightarrow> FormChecker \<Rightarrow> unit Result" where
  "popTypesLoop [] s = Some (Ok (), s)"
| "popTypesLoop (Val # Rest) s =
     (case popType Val s of
        None \<Rightarrow> None
      | Some (Unexpect e, s1) \<Rightarrow> Some (Unexpect e, s1)
      | Some (Ok _, s1) \<Rightarrow> popTypesLoop Rest s1)"

definition popTypes :: "ValType list \<Rightarrow> FormChecker \<Rightarrow> unit Result" where
  "popTypes Input s = popTypesLoop (rev Input) s"

definition StackTrans :: "ValType list \<Rightarrow> ValType list \<Rightarrow> FormChecker \<Rightarrow> unit Result" where
  "StackTrans Take Put s =
     (case popTypes Take s of
        None \<Rightarrow> None
      | Some (Unexpect e, s1) \<Rightarrow> Some (Unexpect e, s1)
      | Some (Ok _, s1) \<Rightarrow> Some (Ok (), pushTypes Put s1))"

definition StackPopAny :: "FormChecker \<Rightarrow> unit Result" where
  "StackPopAny s =
     (case popType0 s of
        None \<Rightarrow> None
      | Some (Unexpect e, s1) \<Rightarrow> Some (Unexpect e, s1)
      | Some (Ok _, s1) \<Rightarrow> Some (Ok (), s1))"

subsection \<open>Control stack\<close>

definition pushCtrl ::
  "ValType list \<Rightarrow> ValType list \<Rightarrow> int \<Rightarrow> OpCode option \<Rightarrow> FormChecker \<Rightarrow> FormChecker" where
  "pushCtrl In Out J C s =
     pushTypes In
       (s\<lparr>CtrlStack := CtrlStack s @
            [\<lparr>StartTypes = In, EndTypes = Out, Jump = J, Height = length (ValStack s),
              InitedLocal = length (LocalInits s), Code = C, IsUnreachable = False\<rparr>]\<rparr>)"

text \<open>The loop of \<^verbatim>\<open>popCtrl\<close> over the tail of the local-init log.\<close>

fun resetInits :: "uint32 list \<Rightarrow> LocalType list \<Rightarrow> LocalType list option" where
  "resetInits [] Ls = Some Ls"
| "resetInits (I # Is) Ls =
     (if unat I < length Ls then resetInits Is (Ls[unat I := (Ls ! unat I)\<lparr>IsInit := False\<rparr>])
      else None)"

text \<open>The watermark is cast to \<^verbatim>\<open>uint32_t\<close> where the tail of the log is erased.\<close>

definition popCtrl :: "FormChecker \<Rightarrow> CtrlFrame Result" where
  "popCtrl s =
     (if CtrlStack s = [] then Some (Unexpect TypeCheckFailed, s)
      else
        (case popTypes (EndTypes (last (CtrlStack s))) s of
           None \<Rightarrow> None
         | Some (Unexpect e, s1) \<Rightarrow> Some (Unexpect e, s1)
         | Some (Ok _, s1) \<Rightarrow>
             if length (ValStack s1) \<noteq> Height (last (CtrlStack s1)) then
               Some (Unexpect TypeCheckFailed, s1)
             else
               (case resetInits (drop (InitedLocal (last (CtrlStack s1))) (LocalInits s1))
                       (Locals s1) of
                  None \<Rightarrow> None
                | Some Ls \<Rightarrow>
                    if unat (word_of_nat (InitedLocal (last (CtrlStack s1))) :: uint32)
                         > length (LocalInits s1)
                    then None
                    else
                      Some (Ok (last (CtrlStack s1)),
                            s1\<lparr>Locals := Ls,
                               LocalInits :=
                                 take (unat (word_of_nat (InitedLocal (last (CtrlStack s1)))
                                             :: uint32))
                                   (LocalInits s1),
                               CtrlStack := butlast (CtrlStack s1)\<rparr>))))"

definition getLabelTypes :: "CtrlFrame \<Rightarrow> ValType list" where
  "getLabelTypes F = (if Code F = Some (Control Loop) then StartTypes F else EndTypes F)"

function unreachable :: "FormChecker \<Rightarrow> unit Result" where
  "unreachable s =
     (if CtrlStack s = [] then None
      else if length (ValStack s) > Height (last (CtrlStack s)) then
        (case popType0 s of
           None \<Rightarrow> None
         | Some (Unexpect e, s1) \<Rightarrow> Some (Unexpect e, s1)
         | Some (Ok _, s1) \<Rightarrow> unreachable s1)
      else
        Some (Ok (),
              s\<lparr>CtrlStack :=
                  butlast (CtrlStack s) @ [(last (CtrlStack s))\<lparr>IsUnreachable := True\<rparr>]\<rparr>))"
  by pat_completeness auto
termination
  by (relation "measure (\<lambda>s. length (ValStack s))")
     (auto simp: popType0_def split: if_splits)

declare unreachable.simps [simp del]

subsection \<open>The helper lambdas of \<^verbatim>\<open>checkInstr\<close>\<close>

text \<open>
  \<^verbatim>\<open>checkInstr\<close> returns the instruction next to the state, since it writes the branch
  metadata and the stack offset into the instruction it checks. \<open>pc\<close> is the address of
  that instruction (\<^verbatim>\<open>&Instr\<close>).
\<close>

type_synonym InstrResult = "(unit Expect \<times> Instruction \<times> FormChecker) option"

definition keep :: "Instruction \<Rightarrow> unit Result \<Rightarrow> InstrResult" where
  "keep Instr r = (case r of None \<Rightarrow> None | Some (e, s1) \<Rightarrow> Some (e, Instr, s1))"

definition checkBlockType ::
  "FormChecker \<Rightarrow> BlockType \<Rightarrow> (ValType list \<times> ValType list) Expect" where
  "checkBlockType s BType =
     (case BType of
        EmptyBT \<Rightarrow> Ok ([], [])
      | ValTypeBT VT \<Rightarrow>
          (case validateValType s VT of Unexpect e \<Rightarrow> Unexpect e | Ok _ \<Rightarrow> Ok ([], [VT]))
      | TypeIndexBT TypeIdx \<Rightarrow>
          if unat TypeIdx \<ge> length (Types s) then Unexpect InvalidFuncTypeIdx
          else Ok (fst (Types s ! unat TypeIdx), snd (Types s ! unat TypeIdx)))"

definition checkCtrlStackDepth :: "FormChecker \<Rightarrow> uint32 \<Rightarrow> uint32 Expect" where
  "checkCtrlStackDepth s N =
     (if unat N \<ge> length (CtrlStack s) then Unexpect InvalidLabelIdx
      else Ok (word_of_nat (length (CtrlStack s)) - 1 - N))"

text \<open>\<^verbatim>\<open>CtrlStack[D]\<close>.\<close>

definition ctrlAt :: "FormChecker \<Rightarrow> uint32 \<Rightarrow> CtrlFrame option" where
  "ctrlAt s D = (if unat D < length (CtrlStack s) then Some (CtrlStack s ! unat D) else None)"

definition checkMemAndTrans ::
  "Instruction \<Rightarrow> ValType list \<Rightarrow> ValType list \<Rightarrow> FormChecker \<Rightarrow> unit Result" where
  "checkMemAndTrans Instr Take Put s =
     (if getTargetIndex Instr \<ge> Mems s then Some (Unexpect InvalidMemoryIdx, s)
      else StackTrans Take Put s)"

definition checkLaneAndTrans ::
  "Instruction \<Rightarrow> nat \<Rightarrow> ValType list \<Rightarrow> ValType list \<Rightarrow> FormChecker \<Rightarrow> unit Result" where
  "checkLaneAndTrans Instr N Take Put s =
     (if unat (getMemoryLane Instr) \<ge> N then Some (Unexpect InvalidLaneIdx, s)
      else StackTrans Take Put s)"

text \<open>
  \<^verbatim>\<open>1UL << align\<close> is evaluated only for \<^verbatim>\<open>align <= 31\<close>, where it is \<open>2 ^ align\<close> in
  every width of \<^verbatim>\<open>unsigned long\<close>; \<^verbatim>\<open>N >> 3\<close> is \<open>N div 8\<close>.
\<close>

definition checkAlignAndTrans ::
  "Instruction \<Rightarrow> nat \<Rightarrow> ValType list \<Rightarrow> ValType list \<Rightarrow> bool \<Rightarrow> FormChecker \<Rightarrow> unit Result"
  where
  "checkAlignAndTrans Instr N Take Put CheckLane s =
     (if getTargetIndex Instr \<ge> Mems s then Some (Unexpect InvalidMemoryIdx, s)
      else if getMemoryAlign Instr > 31 \<or> 2 ^ unat (getMemoryAlign Instr) > N div 8 then
        Some (Unexpect InvalidAlignment, s)
      else if CheckLane then checkLaneAndTrans Instr (128 div N) Take Put s
      else StackTrans Take Put s)"

definition checkTypesMatching ::
  "FormChecker \<Rightarrow> ValType list \<Rightarrow> ValType list \<Rightarrow> unit Expect option" where
  "checkTypesMatching s Exp Got =
     (case matchTypes (Types s) Exp Got of
        None \<Rightarrow> None
      | Some False \<Rightarrow> Some (Unexpect TypeCheckFailed)
      | Some True \<Rightarrow> Some (Ok ()))"

text \<open>The three writes to a jump descriptor shared by all branch instructions.\<close>

definition writeJump :: "int \<Rightarrow> CtrlFrame \<Rightarrow> nat \<Rightarrow> FormChecker \<Rightarrow> JumpDescriptor \<Rightarrow> JumpDescriptor"
  where
  "writeJump pc L ArityN s J =
     (let Remain = (word_of_nat (length (ValStack s)) - word_of_nat (Height L) :: uint32);
          Arity = (word_of_nat ArityN :: uint32)
      in J\<lparr>StackEraseBegin := Remain + Arity, StackEraseEnd := Arity,
           PCOffset := word_of_int (Jump L - pc)\<rparr>)"

subsection \<open>Control instructions\<close>

definition checkBlock :: "int \<Rightarrow> Instruction \<Rightarrow> FormChecker \<Rightarrow> InstrResult" where
  "checkBlock pc Instr s =
     (case checkBlockType s (getBlockType Instr) of
        Unexpect e \<Rightarrow> Some (Unexpect e, Instr, s)
      | Ok (T1, T2) \<Rightarrow>
          (case (if getOpCode Instr = Control If_op then popType I32 s
                 else Some (Ok None, s)) of
             None \<Rightarrow> None
           | Some (Unexpect e, s1) \<Rightarrow> Some (Unexpect e, Instr, s1)
           | Some (Ok _, s1) \<Rightarrow>
               (case popTypes T1 s1 of
                  None \<Rightarrow> None
                | Some (Unexpect e, s2) \<Rightarrow> Some (Unexpect e, Instr, s2)
                | Some (Ok _, s2) \<Rightarrow>
                    (let From = (if getOpCode Instr = Control Loop then pc
                                 else pc + int (unat (getJumpEnd Instr)));
                         s3 = pushCtrl T1 T2 From (Some (getOpCode Instr)) s2
                     in if getOpCode Instr = Control If_op
                           \<and> getJumpElse Instr = getJumpEnd Instr then
                          (case checkTypesMatching s3 T2 T1 of
                             None \<Rightarrow> None
                           | Some (Unexpect e) \<Rightarrow> Some (Unexpect e, Instr, s3)
                           | Some (Ok _) \<Rightarrow> Some (Ok (), Instr, s3))
                        else Some (Ok (), Instr, s3)))))"

definition checkElse :: "Instruction \<Rightarrow> FormChecker \<Rightarrow> InstrResult" where
  "checkElse Instr s =
     (case popCtrl s of
        None \<Rightarrow> None
      | Some (Unexpect e, s1) \<Rightarrow> Some (Unexpect e, Instr, s1)
      | Some (Ok Res, s1) \<Rightarrow>
          Some (Ok (), Instr,
                pushCtrl (StartTypes Res) (EndTypes Res) (Jump Res) (Some (getOpCode Instr)) s1))"

definition checkEnd :: "Instruction \<Rightarrow> FormChecker \<Rightarrow> InstrResult" where
  "checkEnd Instr s =
     (case popCtrl s of
        None \<Rightarrow> None
      | Some (Unexpect e, s1) \<Rightarrow> Some (Unexpect e, Instr, s1)
      | Some (Ok Res, s1) \<Rightarrow> Some (Ok (), Instr, pushTypes (EndTypes Res) s1))"

definition checkBr :: "int \<Rightarrow> Instruction \<Rightarrow> FormChecker \<Rightarrow> InstrResult" where
  "checkBr pc Instr s =
     (case checkCtrlStackDepth s (TargetIndex (getJump Instr)) of
        Unexpect e \<Rightarrow> Some (Unexpect e, Instr, s)
      | Ok D \<Rightarrow>
          (case ctrlAt s D of
             None \<Rightarrow> None
           | Some L \<Rightarrow>
               (let NTypes = getLabelTypes L in
                case popTypes NTypes s of
                  None \<Rightarrow> None
                | Some (Unexpect e, s1) \<Rightarrow> Some (Unexpect e, Instr, s1)
                | Some (Ok _, s1) \<Rightarrow>
                    (case ctrlAt s1 D of
                       None \<Rightarrow> None
                     | Some L1 \<Rightarrow>
                         keep (Instr\<lparr>getJump :=
                                      writeJump pc L1 (length NTypes) s1 (getJump Instr)\<rparr>)
                           (unreachable s1)))))"

definition checkBr_if :: "int \<Rightarrow> Instruction \<Rightarrow> FormChecker \<Rightarrow> InstrResult" where
  "checkBr_if pc Instr s =
     (case checkCtrlStackDepth s (TargetIndex (getJump Instr)) of
        Unexpect e \<Rightarrow> Some (Unexpect e, Instr, s)
      | Ok D \<Rightarrow>
          (case popType I32 s of
             None \<Rightarrow> None
           | Some (Unexpect e, s0) \<Rightarrow> Some (Unexpect e, Instr, s0)
           | Some (Ok _, s0) \<Rightarrow>
               (case ctrlAt s0 D of
                  None \<Rightarrow> None
                | Some L \<Rightarrow>
                    (let NTypes = getLabelTypes L in
                     case popTypes NTypes s0 of
                       None \<Rightarrow> None
                     | Some (Unexpect e, s1) \<Rightarrow> Some (Unexpect e, Instr, s1)
                     | Some (Ok _, s1) \<Rightarrow>
                         (case ctrlAt s1 D of
                            None \<Rightarrow> None
                          | Some L1 \<Rightarrow>
                              Some (Ok (),
                                    Instr\<lparr>getJump :=
                                            writeJump pc L1 (length NTypes) s1 (getJump Instr)\<rparr>,
                                    pushTypes NTypes s1))))))"

text \<open>
  The inner loop of \<^verbatim>\<open>br_table\<close> pops the label types from the last to the first and
  fills \<^verbatim>\<open>TypeBuf\<close>; its argument is the reversed span, its result the buffer in the
  order of the span.
\<close>

fun popTypesBuf :: "ValType list \<Rightarrow> FormChecker \<Rightarrow> (VType list) Result" where
  "popTypesBuf [] s = Some (Ok [], s)"
| "popTypesBuf (T # Rest) s =
     (case popType T s of
        None \<Rightarrow> None
      | Some (Unexpect e, s1) \<Rightarrow> Some (Unexpect e, s1)
      | Some (Ok Res, s1) \<Rightarrow>
          (if CtrlStack s1 = [] then None
           else
             (let B = (if IsUnreachable (last (CtrlStack s1)) then unreachableVType else Res)
              in case popTypesBuf Rest s1 of
                   None \<Rightarrow> None
                 | Some (Unexpect e, s2) \<Rightarrow> Some (Unexpect e, s2)
                 | Some (Ok Buf, s2) \<Rightarrow> Some (Ok (Buf @ [B]), s2))))"

text \<open>The loop over the labels before the default label; it returns the labels as written.\<close>

fun brTableLoop ::
  "int \<Rightarrow> ValType list \<Rightarrow> JumpDescriptor list \<Rightarrow> FormChecker \<Rightarrow>
   (unit Expect \<times> JumpDescriptor list \<times> FormChecker) option" where
  "brTableLoop pc MTypes [] s = Some (Ok (), [], s)"
| "brTableLoop pc MTypes (Lab # Labs) s =
     (case checkCtrlStackDepth s (TargetIndex Lab) of
        Unexpect e \<Rightarrow> Some (Unexpect e, Lab # Labs, s)
      | Ok N \<Rightarrow>
          (case ctrlAt s N of
             None \<Rightarrow> None
           | Some L \<Rightarrow>
               (let NTypes = getLabelTypes L in
                if length MTypes \<noteq> length NTypes then
                  (case checkTypesMatching s MTypes NTypes of
                     None \<Rightarrow> None
                   | Some r \<Rightarrow> Some (r, Lab # Labs, s))
                else
                  (case popTypesBuf (rev NTypes) s of
                     None \<Rightarrow> None
                   | Some (Unexpect e, s1) \<Rightarrow> Some (Unexpect e, Lab # Labs, s1)
                   | Some (Ok TypeBuf, s1) \<Rightarrow>
                       (case ctrlAt s1 N of
                          None \<Rightarrow> None
                        | Some L1 \<Rightarrow>
                            (case brTableLoop pc MTypes Labs (pushVTypes TypeBuf s1) of
                               None \<Rightarrow> None
                             | Some (r, Labs1, s2) \<Rightarrow>
                                 Some (r, writeJump pc L1 (length NTypes) s1 Lab # Labs1, s2)))))))"

text \<open>
  \<^verbatim>\<open>LabelTableSize\<close> is the size of the label list minus one; on an empty list the index
  of the default label is out of range.
\<close>

definition checkBr_table :: "int \<Rightarrow> Instruction \<Rightarrow> FormChecker \<Rightarrow> InstrResult" where
  "checkBr_table pc Instr s =
     (case popType I32 s of
        None \<Rightarrow> None
      | Some (Unexpect e, s0) \<Rightarrow> Some (Unexpect e, Instr, s0)
      | Some (Ok _, s0) \<Rightarrow>
          if getLabelList Instr = [] then None
          else
            (let Labs = butlast (getLabelList Instr); Def = last (getLabelList Instr) in
             case checkCtrlStackDepth s0 (TargetIndex Def) of
               Unexpect e \<Rightarrow> Some (Unexpect e, Instr, s0)
             | Ok M \<Rightarrow>
                 (case ctrlAt s0 M of
                    None \<Rightarrow> None
                  | Some LM \<Rightarrow>
                      (case brTableLoop pc (getLabelTypes LM) Labs s0 of
                         None \<Rightarrow> None
                       | Some (Unexpect e, Labs1, s1) \<Rightarrow>
                           Some (Unexpect e, Instr\<lparr>getLabelList := Labs1 @ [Def]\<rparr>, s1)
                       | Some (Ok _, Labs1, s1) \<Rightarrow>
                           (case ctrlAt s1 M of
                              None \<Rightarrow> None
                            | Some LM1 \<Rightarrow>
                                (let NTypes = getLabelTypes LM1 in
                                 case popTypes NTypes s1 of
                                   None \<Rightarrow> None
                                 | Some (Unexpect e, s2) \<Rightarrow>
                                     Some (Unexpect e, Instr\<lparr>getLabelList := Labs1 @ [Def]\<rparr>, s2)
                                 | Some (Ok _, s2) \<Rightarrow>
                                     (case ctrlAt s2 M of
                                        None \<Rightarrow> None
                                      | Some LM2 \<Rightarrow>
                                          keep (Instr\<lparr>getLabelList :=
                                                   Labs1 @ [writeJump pc LM2 (length NTypes) s2 Def]\<rparr>)
                                            (unreachable s2))))))))"

definition checkBr_on_null :: "int \<Rightarrow> Instruction \<Rightarrow> FormChecker \<Rightarrow> InstrResult" where
  "checkBr_on_null pc Instr s =
     (case checkCtrlStackDepth s (getTargetIndex Instr) of
        Unexpect e \<Rightarrow> Some (Unexpect e, Instr, s)
      | Ok D \<Rightarrow>
          (case ctrlAt s D of
             None \<Rightarrow> None
           | Some L \<Rightarrow>
               (let NTypes = getLabelTypes L in
                case popType0 s of
                  None \<Rightarrow> None
                | Some (Unexpect e, s0) \<Rightarrow> Some (Unexpect e, Instr, s0)
                | Some (Ok ResT, s0) \<Rightarrow>
                    (case ResT of
                       None \<Rightarrow> Some (Ok (), Instr, s0)
                     | Some T \<Rightarrow>
                         (case getHeapType T of
                            None \<Rightarrow> Some (Unexpect InvalidBrRefType, Instr, s0)
                          | Some h \<Rightarrow>
                              (case popTypes NTypes s0 of
                                 None \<Rightarrow> None
                               | Some (Unexpect e, s1) \<Rightarrow> Some (Unexpect e, Instr, s1)
                               | Some (Ok _, s1) \<Rightarrow>
                                   (case ctrlAt s1 D of
                                      None \<Rightarrow> None
                                    | Some L1 \<Rightarrow>
                                        Some (Ok (),
                                              Instr\<lparr>getJump :=
                                                writeJump pc L1 (length NTypes) s1 (getJump Instr)\<rparr>,
                                              pushType (Some (Ref h)) (pushTypes NTypes s1)))))))))"

definition checkBr_on_non_null :: "int \<Rightarrow> Instruction \<Rightarrow> FormChecker \<Rightarrow> InstrResult" where
  "checkBr_on_non_null pc Instr s =
     (case checkCtrlStackDepth s (getTargetIndex Instr) of
        Unexpect e \<Rightarrow> Some (Unexpect e, Instr, s)
      | Ok D \<Rightarrow>
          (case ctrlAt s D of
             None \<Rightarrow> None
           | Some L \<Rightarrow>
               if getLabelTypes L = [] then Some (Unexpect InvalidBrRefType, Instr, s)
               else
                 (let RType = last (getLabelTypes L); NTypes = butlast (getLabelTypes L) in
                  case (if isNullableRefType RType then None else getHeapType RType) of
                    None \<Rightarrow> Some (Unexpect InvalidBrRefType, Instr, s)
                  | Some h \<Rightarrow>
                      (case popType (RefNull h) s of
                         None \<Rightarrow> None
                       | Some (Unexpect e, s0) \<Rightarrow> Some (Unexpect InvalidBrRefType, Instr, s0)
                       | Some (Ok _, s0) \<Rightarrow>
                           (case popTypes NTypes s0 of
                              None \<Rightarrow> None
                            | Some (Unexpect e, s1) \<Rightarrow>
                                Some (Unexpect InvalidBrRefType, Instr, s1)
                            | Some (Ok _, s1) \<Rightarrow>
                                (case ctrlAt s1 D of
                                   None \<Rightarrow> None
                                 | Some L1 \<Rightarrow>
                                     Some (Ok (),
                                           Instr\<lparr>getJump :=
                                             writeJump pc L1 (length NTypes + 1) s1 (getJump Instr)\<rparr>,
                                           pushTypes NTypes s1)))))))"

text \<open>The type table entry of a function index, where both indices are in range.\<close>

definition funcTypeOf :: "FormChecker \<Rightarrow> uint32 \<Rightarrow> FuncType option" where
  "funcTypeOf s N =
     (if unat N < length (Funcs s) \<and> unat (Funcs s ! unat N) < length (Types s)
      then Some (Types s ! unat (Funcs s ! unat N)) else None)"

definition checkControl :: "ControlOp \<Rightarrow> int \<Rightarrow> Instruction \<Rightarrow> FormChecker \<Rightarrow> InstrResult" where
  "checkControl Op pc Instr s =
     (case Op of
        Unreachable \<Rightarrow> keep Instr (unreachable s)
      | Nop \<Rightarrow> Some (Ok (), Instr, s)
      | If_op \<Rightarrow> checkBlock pc Instr s
      | Block \<Rightarrow> checkBlock pc Instr s
      | Loop \<Rightarrow> checkBlock pc Instr s
      | Else \<Rightarrow> checkElse Instr s
      | End \<Rightarrow> checkEnd Instr s
      | Br \<Rightarrow> checkBr pc Instr s
      | Br_if \<Rightarrow> checkBr_if pc Instr s
      | Br_table \<Rightarrow> checkBr_table pc Instr s
      | Br_on_null \<Rightarrow> checkBr_on_null pc Instr s
      | Br_on_non_null \<Rightarrow> checkBr_on_non_null pc Instr s
      | Return \<Rightarrow>
          (case popTypes (Returns s) s of
             None \<Rightarrow> None
           | Some (Unexpect e, s1) \<Rightarrow> Some (Unexpect e, Instr, s1)
           | Some (Ok _, s1) \<Rightarrow> keep Instr (unreachable s1))
      | Call \<Rightarrow>
          (let N = getTargetIndex Instr in
           if unat N \<ge> length (Funcs s) then Some (Unexpect InvalidFuncIdx, Instr, s)
           else
             (case funcTypeOf s N of
                None \<Rightarrow> None
              | Some FT \<Rightarrow> keep Instr (StackTrans (fst FT) (snd FT) s)))
      | Call_indirect \<Rightarrow>
          (let N = getTargetIndex Instr; T = getSourceIndex Instr in
           if unat T \<ge> length (Tables s) then Some (Unexpect InvalidTableIdx, Instr, s)
           else if \<not> isFuncRefType (Tables s ! unat T) then
             Some (Unexpect InvalidTableIdx, Instr, s)
           else if unat N \<ge> length (Types s) then Some (Unexpect InvalidFuncTypeIdx, Instr, s)
           else
             (case popType I32 s of
                None \<Rightarrow> None
              | Some (Unexpect e, s1) \<Rightarrow> Some (Unexpect e, Instr, s1)
              | Some (Ok _, s1) \<Rightarrow>
                  keep Instr (StackTrans (fst (Types s ! unat N)) (snd (Types s ! unat N)) s1)))
      | Return_call \<Rightarrow>
          (let N = getTargetIndex Instr in
           if length (Funcs s) \<le> unat N then Some (Unexpect InvalidFuncIdx, Instr, s)
           else
             (case funcTypeOf s N of
                None \<Rightarrow> None
              | Some FT \<Rightarrow>
                  (case matchTypes (Types s) (Returns s) (snd FT) of
                     None \<Rightarrow> None
                   | Some False \<Rightarrow> Some (Unexpect TypeCheckFailed, Instr, s)
                   | Some True \<Rightarrow>
                       (case popTypes (fst FT) s of
                          None \<Rightarrow> None
                        | Some (Unexpect e, s1) \<Rightarrow> Some (Unexpect e, Instr, s1)
                        | Some (Ok _, s1) \<Rightarrow> keep Instr (unreachable s1)))))
      | Return_call_indirect \<Rightarrow>
          (let N = getTargetIndex Instr; T = getSourceIndex Instr in
           if length (Tables s) \<le> unat T then Some (Unexpect InvalidTableIdx, Instr, s)
           else if \<not> isFuncRefType (Tables s ! unat T) then
             Some (Unexpect InvalidTableIdx, Instr, s)
           else if length (Types s) \<le> unat N then Some (Unexpect InvalidFuncTypeIdx, Instr, s)
           else
             (case matchTypes (Types s) (Returns s) (snd (Types s ! unat N)) of
                None \<Rightarrow> None
              | Some False \<Rightarrow> Some (Unexpect TypeCheckFailed, Instr, s)
              | Some True \<Rightarrow>
                  (case popType I32 s of
                     None \<Rightarrow> None
                   | Some (Unexpect e, s1) \<Rightarrow> Some (Unexpect e, Instr, s1)
                   | Some (Ok _, s1) \<Rightarrow>
                       (case popTypes (fst (Types s ! unat N)) s1 of
                          None \<Rightarrow> None
                        | Some (Unexpect e, s2) \<Rightarrow> Some (Unexpect e, Instr, s2)
                        | Some (Ok _, s2) \<Rightarrow> keep Instr (unreachable s2)))))
      | Call_ref \<Rightarrow>
          (let TypeIdx = getTargetIndex Instr in
           if unat TypeIdx \<ge> length (Types s) then Some (Unexpect InvalidFuncTypeIdx, Instr, s)
           else
             keep Instr
               (StackTrans (fst (Types s ! unat TypeIdx) @ [RefNull (TypeIndex TypeIdx)])
                  (snd (Types s ! unat TypeIdx)) s))
      | Return_call_ref \<Rightarrow>
          (let TypeIdx = getTargetIndex Instr in
           if unat TypeIdx \<ge> length (Types s) then Some (Unexpect InvalidFuncIdx, Instr, s)
           else
             (case matchTypes (Types s) (Returns s) (snd (Types s ! unat TypeIdx)) of
                None \<Rightarrow> None
              | Some False \<Rightarrow> Some (Unexpect TypeCheckFailed, Instr, s)
              | Some True \<Rightarrow>
                  (case popTypes (fst (Types s ! unat TypeIdx) @ [RefNull (TypeIndex TypeIdx)]) s of
                     None \<Rightarrow> None
                   | Some (Unexpect e, s1) \<Rightarrow> Some (Unexpect e, Instr, s1)
                   | Some (Ok _, s1) \<Rightarrow> keep Instr (unreachable s1)))))"

subsection \<open>Reference, parametric and variable instructions\<close>

definition checkSelect :: "Instruction \<Rightarrow> FormChecker \<Rightarrow> InstrResult" where
  "checkSelect Instr s =
     (case popType I32 s of
        None \<Rightarrow> None
      | Some (Unexpect e, s0) \<Rightarrow> Some (Unexpect e, Instr, s0)
      | Some (Ok _, s0) \<Rightarrow>
          (case popType0 s0 of
             None \<Rightarrow> None
           | Some (Unexpect e, s1) \<Rightarrow> Some (Unexpect e, Instr, s1)
           | Some (Ok T1, s1) \<Rightarrow>
               (case popType0 s1 of
                  None \<Rightarrow> None
                | Some (Unexpect e, s2) \<Rightarrow> Some (Unexpect e, Instr, s2)
                | Some (Ok T2, s2) \<Rightarrow>
                    if \<not> isNumType T1 then Some (Unexpect TypeCheckFailed, Instr, s2)
                    else if \<not> isNumType T2 then Some (Unexpect TypeCheckFailed, Instr, s2)
                    else if T1 \<noteq> T2 \<and> T1 \<noteq> unreachableVType \<and> T2 \<noteq> unreachableVType then
                      Some (Unexpect TypeCheckFailed, Instr, s2)
                    else if T1 = unreachableVType then Some (Ok (), Instr, pushType T2 s2)
                    else Some (Ok (), Instr, pushType T1 s2))))"

text \<open>\<^verbatim>\<open>local.get\<close>, \<^verbatim>\<open>local.set\<close> and \<^verbatim>\<open>local.tee\<close> share one case.\<close>

definition checkLocal :: "RefVarOp \<Rightarrow> Instruction \<Rightarrow> FormChecker \<Rightarrow> InstrResult" where
  "checkLocal Op Instr s =
     (if unat (getTargetIndex Instr) \<ge> length (Locals s) then
        Some (Unexpect InvalidLocalIdx, Instr, s)
      else
        (let Idx = unat (getTargetIndex Instr);
             TExpect = Locals s ! Idx;
             Instr1 = Instr\<lparr>getStackOffset :=
                        word_of_nat (length (ValStack s) + (length (Locals s) - Idx))\<rparr>;
             s1 = (if \<not> IsInit TExpect then
                     s\<lparr>Locals := (Locals s)[Idx := TExpect\<lparr>IsInit := True\<rparr>],
                       LocalInits := LocalInits s @ [getTargetIndex Instr]\<rparr>
                   else s)
         in if Op = Local__get then
              (if \<not> IsInit TExpect then Some (Unexpect InvalidUninitLocal, Instr1, s)
               else keep Instr1 (StackTrans [] [VType TExpect] s))
            else if Op = Local__set then keep Instr1 (StackTrans [VType TExpect] [] s1)
            else if Op = Local__tee then
              keep Instr1 (StackTrans [VType TExpect] [VType TExpect] s1)
            else None))"

text \<open>\<^verbatim>\<open>global.set\<close> falls through to the case of \<^verbatim>\<open>global.get\<close>.\<close>

definition checkGlobal :: "RefVarOp \<Rightarrow> Instruction \<Rightarrow> FormChecker \<Rightarrow> InstrResult" where
  "checkGlobal Op Instr s =
     (if Op = Global__set \<and> unat (getTargetIndex Instr) < length (Globals s)
         \<and> snd (Globals s ! unat (getTargetIndex Instr)) \<noteq> Var then
        Some (Unexpect ImmutableGlobal, Instr, s)
      else if unat (getTargetIndex Instr) \<ge> length (Globals s) then
        Some (Unexpect InvalidGlobalIdx, Instr, s)
      else
        (let ExpT = fst (Globals s ! unat (getTargetIndex Instr)) in
         if Op = Global__set then keep Instr (StackTrans [ExpT] [] s)
         else keep Instr (StackTrans [] [ExpT] s)))"

definition checkRefVar :: "RefVarOp \<Rightarrow> Instruction \<Rightarrow> FormChecker \<Rightarrow> InstrResult" where
  "checkRefVar Op Instr s =
     (case Op of
        Ref__null \<Rightarrow>
          (case validateValType s (getValType Instr) of
             Unexpect e \<Rightarrow> Some (Unexpect e, Instr, s)
           | Ok _ \<Rightarrow> keep Instr (StackTrans [] [getValType Instr] s))
      | Ref__is_null \<Rightarrow>
          (case popType0 s of
             None \<Rightarrow> None
           | Some (Unexpect e, s1) \<Rightarrow> Some (Unexpect e, Instr, s1)
           | Some (Ok Res, s1) \<Rightarrow>
               if \<not> isRefTypeV Res then Some (Unexpect TypeCheckFailed, Instr, s1)
               else keep Instr (StackTrans [] [I32] s1))
      | Ref__func \<Rightarrow>
          (let FuncIdx = getTargetIndex Instr in
           if FuncIdx \<notin> Refs s then Some (Unexpect InvalidRefIdx, Instr, s)
           else if \<not> unat FuncIdx < length (Funcs s) then None
           else
             (let TypeIdx = Funcs s ! unat FuncIdx in
              if \<not> unat TypeIdx < length (Types s) then None
              else keep Instr (StackTrans [] [Ref (TypeIndex TypeIdx)] s)))
      | Ref__as_non_null \<Rightarrow>
          (case popType0 s of
             None \<Rightarrow> None
           | Some (Unexpect e, s1) \<Rightarrow> Some (Unexpect e, Instr, s1)
           | Some (Ok Res, s1) \<Rightarrow>
               (case Res of
                  None \<Rightarrow> Some (Ok (), Instr, pushType unreachableVType s1)
                | Some T \<Rightarrow>
                    (case getHeapType T of
                       None \<Rightarrow> Some (Unexpect TypeCheckFailed, Instr, s1)
                     | Some h \<Rightarrow> keep Instr (StackTrans [] [Ref h] s1))))
      | Drop \<Rightarrow> keep Instr (StackPopAny s)
      | Select \<Rightarrow> checkSelect Instr s
      | Select_t \<Rightarrow>
          (case getValTypeList Instr of
             [ExpT] \<Rightarrow>
               (case validateValType s ExpT of
                  Unexpect e \<Rightarrow> Some (Unexpect e, Instr, s)
                | Ok _ \<Rightarrow>
                    (case popTypes [ExpT, ExpT, I32] s of
                       None \<Rightarrow> None
                     | Some (Unexpect e, s1) \<Rightarrow> Some (Unexpect e, Instr, s1)
                     | Some (Ok _, s1) \<Rightarrow> Some (Ok (), Instr, pushType (Some ExpT) s1)))
           | _ \<Rightarrow> Some (Unexpect InvalidResultArity, Instr, s))
      | Local__get \<Rightarrow> checkLocal Op Instr s
      | Local__set \<Rightarrow> checkLocal Op Instr s
      | Local__tee \<Rightarrow> checkLocal Op Instr s
      | Global__set \<Rightarrow> checkGlobal Op Instr s
      | Global__get \<Rightarrow> checkGlobal Op Instr s)"

subsection \<open>Table and memory instructions\<close>

definition checkTable :: "TableMemOp \<Rightarrow> Instruction \<Rightarrow> FormChecker \<Rightarrow> InstrResult" where
  "checkTable Op Instr s =
     (if unat (getTargetIndex Instr) \<ge> length (Tables s) then
        Some (Unexpect InvalidTableIdx, Instr, s)
      else
        (let ExpT = Tables s ! unat (getTargetIndex Instr) in
         if Op = Table__get then keep Instr (StackTrans [I32] [ExpT] s)
         else if Op = Table__set then keep Instr (StackTrans [I32, ExpT] [] s)
         else if Op = Table__grow then keep Instr (StackTrans [ExpT, I32] [I32] s)
         else if Op = Table__size then keep Instr (StackTrans [] [I32] s)
         else if Op = Table__fill then keep Instr (StackTrans [I32, ExpT, I32] [] s)
         else if Op = Table__init then
           (if unat (getSourceIndex Instr) \<ge> length (Elems s) then
              Some (Unexpect InvalidElemIdx, Instr, s)
            else
              (case matchType (Types s) ExpT (Elems s ! unat (getSourceIndex Instr)) of
                 None \<Rightarrow> None
               | Some False \<Rightarrow> Some (Unexpect TypeCheckFailed, Instr, s)
               | Some True \<Rightarrow> keep Instr (StackTrans [I32, I32, I32] [] s)))
         else if Op = Table__copy then
           (if unat (getSourceIndex Instr) \<ge> length (Tables s) then
              Some (Unexpect InvalidTableIdx, Instr, s)
            else
              (case matchType (Types s) ExpT (Tables s ! unat (getSourceIndex Instr)) of
                 None \<Rightarrow> None
               | Some False \<Rightarrow> Some (Unexpect TypeCheckFailed, Instr, s)
               | Some True \<Rightarrow> keep Instr (StackTrans [I32, I32, I32] [] s)))
         else None))"

definition checkTableMem :: "TableMemOp \<Rightarrow> Instruction \<Rightarrow> FormChecker \<Rightarrow> InstrResult" where
  "checkTableMem Op Instr s =
     (case Op of
        Table__get \<Rightarrow> checkTable Op Instr s
      | Table__set \<Rightarrow> checkTable Op Instr s
      | Table__grow \<Rightarrow> checkTable Op Instr s
      | Table__size \<Rightarrow> checkTable Op Instr s
      | Table__fill \<Rightarrow> checkTable Op Instr s
      | Table__init \<Rightarrow> checkTable Op Instr s
      | Table__copy \<Rightarrow> checkTable Op Instr s
      | Elem__drop \<Rightarrow>
          if unat (getTargetIndex Instr) \<ge> length (Elems s) then
            Some (Unexpect InvalidElemIdx, Instr, s)
          else Some (Ok (), Instr, s)
      | Memory__size \<Rightarrow> keep Instr (checkMemAndTrans Instr [] [I32] s)
      | Memory__grow \<Rightarrow> keep Instr (checkMemAndTrans Instr [I32] [I32] s)
      | Memory__init \<Rightarrow>
          if getTargetIndex Instr \<ge> Mems s then Some (Unexpect InvalidMemoryIdx, Instr, s)
          else if unat (getSourceIndex Instr) \<ge> length (Datas s) then
            Some (Unexpect InvalidDataIdx, Instr, s)
          else keep Instr (StackTrans [I32, I32, I32] [] s)
      | Memory__copy \<Rightarrow>
          if getSourceIndex Instr \<ge> Mems s then Some (Unexpect InvalidMemoryIdx, Instr, s)
          else keep Instr (checkMemAndTrans Instr [I32, I32, I32] [] s)
      | Memory__fill \<Rightarrow> keep Instr (checkMemAndTrans Instr [I32, I32, I32] [] s)
      | Data__drop \<Rightarrow>
          if unat (getTargetIndex Instr) \<ge> length (Datas s) then
            Some (Unexpect InvalidDataIdx, Instr, s)
          else Some (Ok (), Instr, s))"

subsection \<open>Instructions with a constant signature\<close>

text \<open>
  Each entry is one case label of \<^verbatim>\<open>checkInstr\<close> with the constants of its call, in the
  order of the source: the access width \<open>N\<close>, the types taken and put, and whether the lane
  is checked for \<open>alignOps\<close> (\<^verbatim>\<open>checkAlignAndTrans\<close>); the number of lanes and the types
  for \<open>laneOps\<close> (\<^verbatim>\<open>checkLaneAndTrans\<close>); the types for \<open>transOps\<close> (\<^verbatim>\<open>StackTrans\<close>).
\<close>

definition alignOps :: "(string \<times> nat \<times> ValType list \<times> ValType list \<times> bool) list" where
  "alignOps =
    [(''I32__load'', 32, [I32], [I32], False),
     (''I64__load'', 64, [I32], [I64], False),
     (''F32__load'', 32, [I32], [F32], False),
     (''F64__load'', 64, [I32], [F64], False),
     (''I32__load8_s'', 8, [I32], [I32], False),
     (''I32__load8_u'', 8, [I32], [I32], False),
     (''I32__load16_s'', 16, [I32], [I32], False),
     (''I32__load16_u'', 16, [I32], [I32], False),
     (''I64__load8_s'', 8, [I32], [I64], False),
     (''I64__load8_u'', 8, [I32], [I64], False),
     (''I64__load16_s'', 16, [I32], [I64], False),
     (''I64__load16_u'', 16, [I32], [I64], False),
     (''I64__load32_s'', 32, [I32], [I64], False),
     (''I64__load32_u'', 32, [I32], [I64], False),
     (''I32__store'', 32, [I32, I32], [], False),
     (''I64__store'', 64, [I32, I64], [], False),
     (''F32__store'', 32, [I32, F32], [], False),
     (''F64__store'', 64, [I32, F64], [], False),
     (''I32__store8'', 8, [I32, I32], [], False),
     (''I32__store16'', 16, [I32, I32], [], False),
     (''I64__store8'', 8, [I32, I64], [], False),
     (''I64__store16'', 16, [I32, I64], [], False),
     (''I64__store32'', 32, [I32, I64], [], False),
     (''V128__load'', 128, [I32], [V128], False),
     (''V128__load8x8_s'', 64, [I32], [V128], False),
     (''V128__load8x8_u'', 64, [I32], [V128], False),
     (''V128__load16x4_s'', 64, [I32], [V128], False),
     (''V128__load16x4_u'', 64, [I32], [V128], False),
     (''V128__load32x2_s'', 64, [I32], [V128], False),
     (''V128__load32x2_u'', 64, [I32], [V128], False),
     (''V128__load64_splat'', 64, [I32], [V128], False),
     (''V128__load64_zero'', 64, [I32], [V128], False),
     (''V128__load8_splat'', 8, [I32], [V128], False),
     (''V128__load16_splat'', 16, [I32], [V128], False),
     (''V128__load32_splat'', 32, [I32], [V128], False),
     (''V128__load32_zero'', 32, [I32], [V128], False),
     (''V128__store'', 128, [I32, V128], [], False),
     (''V128__load8_lane'', 8, [I32, V128], [V128], True),
     (''V128__load16_lane'', 16, [I32, V128], [V128], True),
     (''V128__load32_lane'', 32, [I32, V128], [V128], True),
     (''V128__load64_lane'', 64, [I32, V128], [V128], True),
     (''V128__store8_lane'', 8, [I32, V128], [], True),
     (''V128__store16_lane'', 16, [I32, V128], [], True),
     (''V128__store32_lane'', 32, [I32, V128], [], True),
     (''V128__store64_lane'', 64, [I32, V128], [], True),
     (''Memory__atomic__notify'', 32, [I32, I32], [I32], False),
     (''Memory__atomic__wait32'', 32, [I32, I32, I64], [I32], False),
     (''Memory__atomic__wait64'', 64, [I32, I64, I64], [I32], False),
     (''I32__atomic__load'', 32, [I32], [I32], False),
     (''I64__atomic__load'', 64, [I32], [I64], False),
     (''I32__atomic__load8_u'', 8, [I32], [I32], False),
     (''I32__atomic__load16_u'', 16, [I32], [I32], False),
     (''I64__atomic__load8_u'', 8, [I32], [I64], False),
     (''I64__atomic__load16_u'', 16, [I32], [I64], False),
     (''I64__atomic__load32_u'', 32, [I32], [I64], False),
     (''I32__atomic__store'', 32, [I32, I32], [], False),
     (''I64__atomic__store'', 64, [I32, I64], [], False),
     (''I32__atomic__store8'', 8, [I32, I32], [], False),
     (''I32__atomic__store16'', 16, [I32, I32], [], False),
     (''I64__atomic__store8'', 8, [I32, I64], [], False),
     (''I64__atomic__store16'', 16, [I32, I64], [], False),
     (''I64__atomic__store32'', 32, [I32, I64], [], False),
     (''I32__atomic__rmw__add'', 32, [I32, I32], [I32], False),
     (''I64__atomic__rmw__add'', 64, [I32, I64], [I64], False),
     (''I32__atomic__rmw8__add_u'', 8, [I32, I32], [I32], False),
     (''I32__atomic__rmw16__add_u'', 16, [I32, I32], [I32], False),
     (''I64__atomic__rmw8__add_u'', 8, [I32, I64], [I64], False),
     (''I64__atomic__rmw16__add_u'', 16, [I32, I64], [I64], False),
     (''I64__atomic__rmw32__add_u'', 32, [I32, I64], [I64], False),
     (''I32__atomic__rmw__sub'', 32, [I32, I32], [I32], False),
     (''I64__atomic__rmw__sub'', 64, [I32, I64], [I64], False),
     (''I32__atomic__rmw8__sub_u'', 8, [I32, I32], [I32], False),
     (''I32__atomic__rmw16__sub_u'', 16, [I32, I32], [I32], False),
     (''I64__atomic__rmw8__sub_u'', 8, [I32, I64], [I64], False),
     (''I64__atomic__rmw16__sub_u'', 16, [I32, I64], [I64], False),
     (''I64__atomic__rmw32__sub_u'', 32, [I32, I64], [I64], False),
     (''I32__atomic__rmw__and'', 32, [I32, I32], [I32], False),
     (''I64__atomic__rmw__and'', 64, [I32, I64], [I64], False),
     (''I32__atomic__rmw8__and_u'', 8, [I32, I32], [I32], False),
     (''I32__atomic__rmw16__and_u'', 16, [I32, I32], [I32], False),
     (''I64__atomic__rmw8__and_u'', 8, [I32, I64], [I64], False),
     (''I64__atomic__rmw16__and_u'', 16, [I32, I64], [I64], False),
     (''I64__atomic__rmw32__and_u'', 32, [I32, I64], [I64], False),
     (''I32__atomic__rmw__or'', 32, [I32, I32], [I32], False),
     (''I64__atomic__rmw__or'', 64, [I32, I64], [I64], False),
     (''I32__atomic__rmw8__or_u'', 8, [I32, I32], [I32], False),
     (''I32__atomic__rmw16__or_u'', 16, [I32, I32], [I32], False),
     (''I64__atomic__rmw8__or_u'', 8, [I32, I64], [I64], False),
     (''I64__atomic__rmw16__or_u'', 16, [I32, I64], [I64], False),
     (''I64__atomic__rmw32__or_u'', 32, [I32, I64], [I64], False),
     (''I32__atomic__rmw__xor'', 32, [I32, I32], [I32], False),
     (''I64__atomic__rmw__xor'', 64, [I32, I64], [I64], False),
     (''I32__atomic__rmw8__xor_u'', 8, [I32, I32], [I32], False),
     (''I32__atomic__rmw16__xor_u'', 16, [I32, I32], [I32], False),
     (''I64__atomic__rmw8__xor_u'', 8, [I32, I64], [I64], False),
     (''I64__atomic__rmw16__xor_u'', 16, [I32, I64], [I64], False),
     (''I64__atomic__rmw32__xor_u'', 32, [I32, I64], [I64], False),
     (''I32__atomic__rmw__xchg'', 32, [I32, I32], [I32], False),
     (''I64__atomic__rmw__xchg'', 64, [I32, I64], [I64], False),
     (''I32__atomic__rmw8__xchg_u'', 8, [I32, I32], [I32], False),
     (''I32__atomic__rmw16__xchg_u'', 16, [I32, I32], [I32], False),
     (''I64__atomic__rmw8__xchg_u'', 8, [I32, I64], [I64], False),
     (''I64__atomic__rmw16__xchg_u'', 16, [I32, I64], [I64], False),
     (''I64__atomic__rmw32__xchg_u'', 32, [I32, I64], [I64], False),
     (''I32__atomic__rmw__cmpxchg'', 32, [I32, I32, I32], [I32], False),
     (''I64__atomic__rmw__cmpxchg'', 64, [I32, I64, I64], [I64], False),
     (''I32__atomic__rmw8__cmpxchg_u'', 8, [I32, I32, I32], [I32], False),
     (''I32__atomic__rmw16__cmpxchg_u'', 16, [I32, I32, I32], [I32], False),
     (''I64__atomic__rmw8__cmpxchg_u'', 8, [I32, I64, I64], [I64], False),
     (''I64__atomic__rmw16__cmpxchg_u'', 16, [I32, I64, I64], [I64], False),
     (''I64__atomic__rmw32__cmpxchg_u'', 32, [I32, I64, I64], [I64], False)]"

definition laneOps :: "(string \<times> nat \<times> ValType list \<times> ValType list) list" where
  "laneOps =
    [(''I8x16__extract_lane_s'', 16, [V128], [I32]),
     (''I8x16__extract_lane_u'', 16, [V128], [I32]),
     (''I8x16__replace_lane'', 16, [V128, I32], [V128]),
     (''I16x8__extract_lane_s'', 8, [V128], [I32]),
     (''I16x8__extract_lane_u'', 8, [V128], [I32]),
     (''I16x8__replace_lane'', 8, [V128, I32], [V128]),
     (''I32x4__extract_lane'', 4, [V128], [I32]),
     (''I32x4__replace_lane'', 4, [V128, I32], [V128]),
     (''I64x2__extract_lane'', 2, [V128], [I64]),
     (''I64x2__replace_lane'', 2, [V128, I64], [V128]),
     (''F32x4__extract_lane'', 4, [V128], [F32]),
     (''F32x4__replace_lane'', 4, [V128, F32], [V128]),
     (''F64x2__extract_lane'', 2, [V128], [F64]),
     (''F64x2__replace_lane'', 2, [V128, F64], [V128])]"

definition transOps :: "(string \<times> ValType list \<times> ValType list) list" where
  "transOps =
    [(''I32__const'', [], [I32]),
     (''I64__const'', [], [I64]),
     (''F32__const'', [], [F32]),
     (''F64__const'', [], [F64]),
     (''I32__eqz'', [I32], [I32]),
     (''I64__eqz'', [I64], [I32]),
     (''I32__clz'', [I32], [I32]),
     (''I32__ctz'', [I32], [I32]),
     (''I32__popcnt'', [I32], [I32]),
     (''I64__clz'', [I64], [I64]),
     (''I64__ctz'', [I64], [I64]),
     (''I64__popcnt'', [I64], [I64]),
     (''F32__abs'', [F32], [F32]),
     (''F32__neg'', [F32], [F32]),
     (''F32__ceil'', [F32], [F32]),
     (''F32__floor'', [F32], [F32]),
     (''F32__trunc'', [F32], [F32]),
     (''F32__nearest'', [F32], [F32]),
     (''F32__sqrt'', [F32], [F32]),
     (''F64__abs'', [F64], [F64]),
     (''F64__neg'', [F64], [F64]),
     (''F64__ceil'', [F64], [F64]),
     (''F64__floor'', [F64], [F64]),
     (''F64__trunc'', [F64], [F64]),
     (''F64__nearest'', [F64], [F64]),
     (''F64__sqrt'', [F64], [F64]),
     (''I32__wrap_i64'', [I64], [I32]),
     (''I32__trunc_f32_s'', [F32], [I32]),
     (''I32__trunc_f32_u'', [F32], [I32]),
     (''I32__trunc_f64_s'', [F64], [I32]),
     (''I32__trunc_f64_u'', [F64], [I32]),
     (''I64__extend_i32_s'', [I32], [I64]),
     (''I64__extend_i32_u'', [I32], [I64]),
     (''I64__trunc_f32_s'', [F32], [I64]),
     (''I64__trunc_f32_u'', [F32], [I64]),
     (''I64__trunc_f64_s'', [F64], [I64]),
     (''I64__trunc_f64_u'', [F64], [I64]),
     (''F32__convert_i32_s'', [I32], [F32]),
     (''F32__convert_i32_u'', [I32], [F32]),
     (''F32__convert_i64_s'', [I64], [F32]),
     (''F32__convert_i64_u'', [I64], [F32]),
     (''F32__demote_f64'', [F64], [F32]),
     (''F64__convert_i32_s'', [I32], [F64]),
     (''F64__convert_i32_u'', [I32], [F64]),
     (''F64__convert_i64_s'', [I64], [F64]),
     (''F64__convert_i64_u'', [I64], [F64]),
     (''F64__promote_f32'', [F32], [F64]),
     (''I32__reinterpret_f32'', [F32], [I32]),
     (''I64__reinterpret_f64'', [F64], [I64]),
     (''F32__reinterpret_i32'', [I32], [F32]),
     (''F64__reinterpret_i64'', [I64], [F64]),
     (''I32__extend8_s'', [I32], [I32]),
     (''I32__extend16_s'', [I32], [I32]),
     (''I64__extend8_s'', [I64], [I64]),
     (''I64__extend16_s'', [I64], [I64]),
     (''I64__extend32_s'', [I64], [I64]),
     (''I32__trunc_sat_f32_s'', [F32], [I32]),
     (''I32__trunc_sat_f32_u'', [F32], [I32]),
     (''I32__trunc_sat_f64_s'', [F64], [I32]),
     (''I32__trunc_sat_f64_u'', [F64], [I32]),
     (''I64__trunc_sat_f32_s'', [F32], [I64]),
     (''I64__trunc_sat_f32_u'', [F32], [I64]),
     (''I64__trunc_sat_f64_s'', [F64], [I64]),
     (''I64__trunc_sat_f64_u'', [F64], [I64]),
     (''I32__eq'', [I32, I32], [I32]),
     (''I32__ne'', [I32, I32], [I32]),
     (''I32__lt_s'', [I32, I32], [I32]),
     (''I32__lt_u'', [I32, I32], [I32]),
     (''I32__gt_s'', [I32, I32], [I32]),
     (''I32__gt_u'', [I32, I32], [I32]),
     (''I32__le_s'', [I32, I32], [I32]),
     (''I32__le_u'', [I32, I32], [I32]),
     (''I32__ge_s'', [I32, I32], [I32]),
     (''I32__ge_u'', [I32, I32], [I32]),
     (''I64__eq'', [I64, I64], [I32]),
     (''I64__ne'', [I64, I64], [I32]),
     (''I64__lt_s'', [I64, I64], [I32]),
     (''I64__lt_u'', [I64, I64], [I32]),
     (''I64__gt_s'', [I64, I64], [I32]),
     (''I64__gt_u'', [I64, I64], [I32]),
     (''I64__le_s'', [I64, I64], [I32]),
     (''I64__le_u'', [I64, I64], [I32]),
     (''I64__ge_s'', [I64, I64], [I32]),
     (''I64__ge_u'', [I64, I64], [I32]),
     (''F32__eq'', [F32, F32], [I32]),
     (''F32__ne'', [F32, F32], [I32]),
     (''F32__lt'', [F32, F32], [I32]),
     (''F32__gt'', [F32, F32], [I32]),
     (''F32__le'', [F32, F32], [I32]),
     (''F32__ge'', [F32, F32], [I32]),
     (''F64__eq'', [F64, F64], [I32]),
     (''F64__ne'', [F64, F64], [I32]),
     (''F64__lt'', [F64, F64], [I32]),
     (''F64__gt'', [F64, F64], [I32]),
     (''F64__le'', [F64, F64], [I32]),
     (''F64__ge'', [F64, F64], [I32]),
     (''I32__add'', [I32, I32], [I32]),
     (''I32__sub'', [I32, I32], [I32]),
     (''I32__mul'', [I32, I32], [I32]),
     (''I32__div_s'', [I32, I32], [I32]),
     (''I32__div_u'', [I32, I32], [I32]),
     (''I32__rem_s'', [I32, I32], [I32]),
     (''I32__rem_u'', [I32, I32], [I32]),
     (''I32__and'', [I32, I32], [I32]),
     (''I32__or'', [I32, I32], [I32]),
     (''I32__xor'', [I32, I32], [I32]),
     (''I32__shl'', [I32, I32], [I32]),
     (''I32__shr_s'', [I32, I32], [I32]),
     (''I32__shr_u'', [I32, I32], [I32]),
     (''I32__rotl'', [I32, I32], [I32]),
     (''I32__rotr'', [I32, I32], [I32]),
     (''I64__add'', [I64, I64], [I64]),
     (''I64__sub'', [I64, I64], [I64]),
     (''I64__mul'', [I64, I64], [I64]),
     (''I64__div_s'', [I64, I64], [I64]),
     (''I64__div_u'', [I64, I64], [I64]),
     (''I64__rem_s'', [I64, I64], [I64]),
     (''I64__rem_u'', [I64, I64], [I64]),
     (''I64__and'', [I64, I64], [I64]),
     (''I64__or'', [I64, I64], [I64]),
     (''I64__xor'', [I64, I64], [I64]),
     (''I64__shl'', [I64, I64], [I64]),
     (''I64__shr_s'', [I64, I64], [I64]),
     (''I64__shr_u'', [I64, I64], [I64]),
     (''I64__rotl'', [I64, I64], [I64]),
     (''I64__rotr'', [I64, I64], [I64]),
     (''F32__add'', [F32, F32], [F32]),
     (''F32__sub'', [F32, F32], [F32]),
     (''F32__mul'', [F32, F32], [F32]),
     (''F32__div'', [F32, F32], [F32]),
     (''F32__min'', [F32, F32], [F32]),
     (''F32__max'', [F32, F32], [F32]),
     (''F32__copysign'', [F32, F32], [F32]),
     (''F64__add'', [F64, F64], [F64]),
     (''F64__sub'', [F64, F64], [F64]),
     (''F64__mul'', [F64, F64], [F64]),
     (''F64__div'', [F64, F64], [F64]),
     (''F64__min'', [F64, F64], [F64]),
     (''F64__max'', [F64, F64], [F64]),
     (''F64__copysign'', [F64, F64], [F64]),
     (''V128__const'', [], [V128]),
     (''I8x16__splat'', [I32], [V128]),
     (''I16x8__splat'', [I32], [V128]),
     (''I32x4__splat'', [I32], [V128]),
     (''I64x2__splat'', [I64], [V128]),
     (''F32x4__splat'', [F32], [V128]),
     (''F64x2__splat'', [F64], [V128]),
     (''V128__not'', [V128], [V128]),
     (''I8x16__abs'', [V128], [V128]),
     (''I8x16__neg'', [V128], [V128]),
     (''I8x16__popcnt'', [V128], [V128]),
     (''I16x8__abs'', [V128], [V128]),
     (''I16x8__neg'', [V128], [V128]),
     (''I16x8__extend_low_i8x16_s'', [V128], [V128]),
     (''I16x8__extend_high_i8x16_s'', [V128], [V128]),
     (''I16x8__extend_low_i8x16_u'', [V128], [V128]),
     (''I16x8__extend_high_i8x16_u'', [V128], [V128]),
     (''I16x8__extadd_pairwise_i8x16_s'', [V128], [V128]),
     (''I16x8__extadd_pairwise_i8x16_u'', [V128], [V128]),
     (''I32x4__abs'', [V128], [V128]),
     (''I32x4__neg'', [V128], [V128]),
     (''I32x4__extend_low_i16x8_s'', [V128], [V128]),
     (''I32x4__extend_high_i16x8_s'', [V128], [V128]),
     (''I32x4__extend_low_i16x8_u'', [V128], [V128]),
     (''I32x4__extend_high_i16x8_u'', [V128], [V128]),
     (''I32x4__extadd_pairwise_i16x8_s'', [V128], [V128]),
     (''I32x4__extadd_pairwise_i16x8_u'', [V128], [V128]),
     (''I64x2__abs'', [V128], [V128]),
     (''I64x2__neg'', [V128], [V128]),
     (''I64x2__extend_low_i32x4_s'', [V128], [V128]),
     (''I64x2__extend_high_i32x4_s'', [V128], [V128]),
     (''I64x2__extend_low_i32x4_u'', [V128], [V128]),
     (''I64x2__extend_high_i32x4_u'', [V128], [V128]),
     (''F32x4__abs'', [V128], [V128]),
     (''F32x4__neg'', [V128], [V128]),
     (''F32x4__sqrt'', [V128], [V128]),
     (''F64x2__abs'', [V128], [V128]),
     (''F64x2__neg'', [V128], [V128]),
     (''F64x2__sqrt'', [V128], [V128]),
     (''I32x4__trunc_sat_f32x4_s'', [V128], [V128]),
     (''I32x4__trunc_sat_f32x4_u'', [V128], [V128]),
     (''F32x4__convert_i32x4_s'', [V128], [V128]),
     (''F32x4__convert_i32x4_u'', [V128], [V128]),
     (''I32x4__trunc_sat_f64x2_s_zero'', [V128], [V128]),
     (''I32x4__trunc_sat_f64x2_u_zero'', [V128], [V128]),
     (''F64x2__convert_low_i32x4_s'', [V128], [V128]),
     (''F64x2__convert_low_i32x4_u'', [V128], [V128]),
     (''F32x4__demote_f64x2_zero'', [V128], [V128]),
     (''F64x2__promote_low_f32x4'', [V128], [V128]),
     (''F32x4__ceil'', [V128], [V128]),
     (''F32x4__floor'', [V128], [V128]),
     (''F32x4__trunc'', [V128], [V128]),
     (''F32x4__nearest'', [V128], [V128]),
     (''F64x2__ceil'', [V128], [V128]),
     (''F64x2__floor'', [V128], [V128]),
     (''F64x2__trunc'', [V128], [V128]),
     (''F64x2__nearest'', [V128], [V128]),
     (''I8x16__swizzle'', [V128, V128], [V128]),
     (''I8x16__eq'', [V128, V128], [V128]),
     (''I8x16__ne'', [V128, V128], [V128]),
     (''I8x16__lt_s'', [V128, V128], [V128]),
     (''I8x16__lt_u'', [V128, V128], [V128]),
     (''I8x16__gt_s'', [V128, V128], [V128]),
     (''I8x16__gt_u'', [V128, V128], [V128]),
     (''I8x16__le_s'', [V128, V128], [V128]),
     (''I8x16__le_u'', [V128, V128], [V128]),
     (''I8x16__ge_s'', [V128, V128], [V128]),
     (''I8x16__ge_u'', [V128, V128], [V128]),
     (''I16x8__eq'', [V128, V128], [V128]),
     (''I16x8__ne'', [V128, V128], [V128]),
     (''I16x8__lt_s'', [V128, V128], [V128]),
     (''I16x8__lt_u'', [V128, V128], [V128]),
     (''I16x8__gt_s'', [V128, V128], [V128]),
     (''I16x8__gt_u'', [V128, V128], [V128]),
     (''I16x8__le_s'', [V128, V128], [V128]),
     (''I16x8__le_u'', [V128, V128], [V128]),
     (''I16x8__ge_s'', [V128, V128], [V128]),
     (''I16x8__ge_u'', [V128, V128], [V128]),
     (''I32x4__eq'', [V128, V128], [V128]),
     (''I32x4__ne'', [V128, V128], [V128]),
     (''I32x4__lt_s'', [V128, V128], [V128]),
     (''I32x4__lt_u'', [V128, V128], [V128]),
     (''I32x4__gt_s'', [V128, V128], [V128]),
     (''I32x4__gt_u'', [V128, V128], [V128]),
     (''I32x4__le_s'', [V128, V128], [V128]),
     (''I32x4__le_u'', [V128, V128], [V128]),
     (''I32x4__ge_s'', [V128, V128], [V128]),
     (''I32x4__ge_u'', [V128, V128], [V128]),
     (''I64x2__eq'', [V128, V128], [V128]),
     (''I64x2__ne'', [V128, V128], [V128]),
     (''I64x2__lt_s'', [V128, V128], [V128]),
     (''I64x2__gt_s'', [V128, V128], [V128]),
     (''I64x2__le_s'', [V128, V128], [V128]),
     (''I64x2__ge_s'', [V128, V128], [V128]),
     (''F32x4__eq'', [V128, V128], [V128]),
     (''F32x4__ne'', [V128, V128], [V128]),
     (''F32x4__lt'', [V128, V128], [V128]),
     (''F32x4__gt'', [V128, V128], [V128]),
     (''F32x4__le'', [V128, V128], [V128]),
     (''F32x4__ge'', [V128, V128], [V128]),
     (''F64x2__eq'', [V128, V128], [V128]),
     (''F64x2__ne'', [V128, V128], [V128]),
     (''F64x2__lt'', [V128, V128], [V128]),
     (''F64x2__gt'', [V128, V128], [V128]),
     (''F64x2__le'', [V128, V128], [V128]),
     (''F64x2__ge'', [V128, V128], [V128]),
     (''V128__and'', [V128, V128], [V128]),
     (''V128__andnot'', [V128, V128], [V128]),
     (''V128__or'', [V128, V128], [V128]),
     (''V128__xor'', [V128, V128], [V128]),
     (''I8x16__narrow_i16x8_s'', [V128, V128], [V128]),
     (''I8x16__narrow_i16x8_u'', [V128, V128], [V128]),
     (''I8x16__add'', [V128, V128], [V128]),
     (''I8x16__add_sat_s'', [V128, V128], [V128]),
     (''I8x16__add_sat_u'', [V128, V128], [V128]),
     (''I8x16__sub'', [V128, V128], [V128]),
     (''I8x16__sub_sat_s'', [V128, V128], [V128]),
     (''I8x16__sub_sat_u'', [V128, V128], [V128]),
     (''I8x16__min_s'', [V128, V128], [V128]),
     (''I8x16__min_u'', [V128, V128], [V128]),
     (''I8x16__max_s'', [V128, V128], [V128]),
     (''I8x16__max_u'', [V128, V128], [V128]),
     (''I8x16__avgr_u'', [V128, V128], [V128]),
     (''I16x8__narrow_i32x4_s'', [V128, V128], [V128]),
     (''I16x8__narrow_i32x4_u'', [V128, V128], [V128]),
     (''I16x8__add'', [V128, V128], [V128]),
     (''I16x8__add_sat_s'', [V128, V128], [V128]),
     (''I16x8__add_sat_u'', [V128, V128], [V128]),
     (''I16x8__sub'', [V128, V128], [V128]),
     (''I16x8__sub_sat_s'', [V128, V128], [V128]),
     (''I16x8__sub_sat_u'', [V128, V128], [V128]),
     (''I16x8__mul'', [V128, V128], [V128]),
     (''I16x8__min_s'', [V128, V128], [V128]),
     (''I16x8__min_u'', [V128, V128], [V128]),
     (''I16x8__max_s'', [V128, V128], [V128]),
     (''I16x8__max_u'', [V128, V128], [V128]),
     (''I16x8__avgr_u'', [V128, V128], [V128]),
     (''I16x8__extmul_low_i8x16_s'', [V128, V128], [V128]),
     (''I16x8__extmul_high_i8x16_s'', [V128, V128], [V128]),
     (''I16x8__extmul_low_i8x16_u'', [V128, V128], [V128]),
     (''I16x8__extmul_high_i8x16_u'', [V128, V128], [V128]),
     (''I16x8__q15mulr_sat_s'', [V128, V128], [V128]),
     (''I32x4__add'', [V128, V128], [V128]),
     (''I32x4__sub'', [V128, V128], [V128]),
     (''I32x4__mul'', [V128, V128], [V128]),
     (''I32x4__min_s'', [V128, V128], [V128]),
     (''I32x4__min_u'', [V128, V128], [V128]),
     (''I32x4__max_s'', [V128, V128], [V128]),
     (''I32x4__max_u'', [V128, V128], [V128]),
     (''I32x4__extmul_low_i16x8_s'', [V128, V128], [V128]),
     (''I32x4__extmul_high_i16x8_s'', [V128, V128], [V128]),
     (''I32x4__extmul_low_i16x8_u'', [V128, V128], [V128]),
     (''I32x4__extmul_high_i16x8_u'', [V128, V128], [V128]),
     (''I64x2__add'', [V128, V128], [V128]),
     (''I64x2__sub'', [V128, V128], [V128]),
     (''I64x2__mul'', [V128, V128], [V128]),
     (''I64x2__extmul_low_i32x4_s'', [V128, V128], [V128]),
     (''I64x2__extmul_high_i32x4_s'', [V128, V128], [V128]),
     (''I64x2__extmul_low_i32x4_u'', [V128, V128], [V128]),
     (''I64x2__extmul_high_i32x4_u'', [V128, V128], [V128]),
     (''F32x4__add'', [V128, V128], [V128]),
     (''F32x4__sub'', [V128, V128], [V128]),
     (''F32x4__mul'', [V128, V128], [V128]),
     (''F32x4__div'', [V128, V128], [V128]),
     (''F32x4__min'', [V128, V128], [V128]),
     (''F32x4__max'', [V128, V128], [V128]),
     (''F32x4__pmin'', [V128, V128], [V128]),
     (''F32x4__pmax'', [V128, V128], [V128]),
     (''F64x2__add'', [V128, V128], [V128]),
     (''F64x2__sub'', [V128, V128], [V128]),
     (''F64x2__mul'', [V128, V128], [V128]),
     (''F64x2__div'', [V128, V128], [V128]),
     (''F64x2__min'', [V128, V128], [V128]),
     (''F64x2__max'', [V128, V128], [V128]),
     (''F64x2__pmin'', [V128, V128], [V128]),
     (''F64x2__pmax'', [V128, V128], [V128]),
     (''I32x4__dot_i16x8_s'', [V128, V128], [V128]),
     (''V128__bitselect'', [V128, V128, V128], [V128]),
     (''V128__any_true'', [V128], [I32]),
     (''I8x16__all_true'', [V128], [I32]),
     (''I8x16__bitmask'', [V128], [I32]),
     (''I16x8__all_true'', [V128], [I32]),
     (''I16x8__bitmask'', [V128], [I32]),
     (''I32x4__all_true'', [V128], [I32]),
     (''I32x4__bitmask'', [V128], [I32]),
     (''I64x2__all_true'', [V128], [I32]),
     (''I64x2__bitmask'', [V128], [I32]),
     (''I8x16__shl'', [V128, I32], [V128]),
     (''I8x16__shr_s'', [V128, I32], [V128]),
     (''I8x16__shr_u'', [V128, I32], [V128]),
     (''I16x8__shl'', [V128, I32], [V128]),
     (''I16x8__shr_s'', [V128, I32], [V128]),
     (''I16x8__shr_u'', [V128, I32], [V128]),
     (''I32x4__shl'', [V128, I32], [V128]),
     (''I32x4__shr_s'', [V128, I32], [V128]),
     (''I32x4__shr_u'', [V128, I32], [V128]),
     (''I64x2__shl'', [V128, I32], [V128]),
     (''I64x2__shr_s'', [V128, I32], [V128]),
     (''I64x2__shr_u'', [V128, I32], [V128])]"


definition ShuffleMask :: "128 word" where
  "ShuffleMask = push_bit 64 (0xe0e0e0e0e0e0e0e0 :: 128 word) OR 0xe0e0e0e0e0e0e0e0"

subsection \<open>The dispatch and the driver\<close>

text \<open>An opcode outside the switch reaches \<^verbatim>\<open>assumingUnreachable()\<close>.\<close>

definition checkInstr :: "int \<Rightarrow> Instruction \<Rightarrow> FormChecker \<Rightarrow> InstrResult" where
  "checkInstr pc Instr s =
     (case getOpCode Instr of
        Control Op \<Rightarrow> checkControl Op pc Instr s
      | RefVar Op \<Rightarrow> checkRefVar Op Instr s
      | TableMem Op \<Rightarrow> checkTableMem Op Instr s
      | I8x16__shuffle \<Rightarrow>
          if getNum Instr AND ShuffleMask \<noteq> 0 then Some (Unexpect InvalidLaneIdx, Instr, s)
          else keep Instr (StackTrans [V128, V128] [V128] s)
      | Atomic__fence \<Rightarrow> Some (Ok (), Instr, s)
      | AlignOp Name \<Rightarrow>
          (case map_of alignOps Name of
             None \<Rightarrow> None
           | Some (N, Take, Put, CheckLane) \<Rightarrow>
               keep Instr (checkAlignAndTrans Instr N Take Put CheckLane s))
      | LaneOp Name \<Rightarrow>
          (case map_of laneOps Name of
             None \<Rightarrow> None
           | Some (N, Take, Put) \<Rightarrow> keep Instr (checkLaneAndTrans Instr N Take Put s))
      | TransOp Name \<Rightarrow>
          (case map_of transOps Name of
             None \<Rightarrow> None
           | Some (Take, Put) \<Rightarrow> keep Instr (StackTrans Take Put s)))"

text \<open>
  \<^verbatim>\<open>checkInstrs\<close> walks the view from the address \<open>pc\<close> of its first instruction. Of the
  log lines of the checker only the one of this loop is modelled: the result carries the
  \<^verbatim>\<open>InfoInstruction\<close> values that the loop logs.
\<close>

datatype ErrInfo = InfoInstruction OpCode uint32

fun checkInstrs ::
  "int \<Rightarrow> Instruction list \<Rightarrow> FormChecker \<Rightarrow>
   (unit Expect \<times> ErrInfo list \<times> Instruction list \<times> FormChecker) option" where
  "checkInstrs pc [] s = Some (Ok (), [], [], s)"
| "checkInstrs pc (Instr # Instrs) s =
     (case checkInstr pc Instr s of
        None \<Rightarrow> None
      | Some (Unexpect e, Instr1, s1) \<Rightarrow>
          Some (Unexpect e, [InfoInstruction (getOpCode Instr1) (getOffset Instr1)],
                Instr1 # Instrs, s1)
      | Some (Ok _, Instr1, s1) \<Rightarrow>
          (case checkInstrs (pc + 1) Instrs s1 of
             None \<Rightarrow> None
           | Some (r, Log, Instrs1, s2) \<Rightarrow> Some (r, Log, Instr1 # Instrs1, s2)))"

text \<open>The first instruction of the view of \<^verbatim>\<open>checkExpr\<close> has the address 0.\<close>

definition checkExpr ::
  "Instruction list \<Rightarrow> FormChecker \<Rightarrow>
   (unit Expect \<times> ErrInfo list \<times> Instruction list \<times> FormChecker) option" where
  "checkExpr Instrs s =
     (if length Instrs > 0 then
        checkInstrs 0 Instrs (pushCtrl [] (Returns s) (int (length Instrs) - 1) None s)
      else Some (Ok (), [], Instrs, s))"

text \<open>\<^verbatim>\<open>validate(AST::InstrView, Span<const ValType>)\<close>.\<close>

definition validate ::
  "Instruction list \<Rightarrow> ValType list \<Rightarrow> FormChecker \<Rightarrow>
   (unit Expect \<times> ErrInfo list \<times> Instruction list \<times> FormChecker) option" where
  "validate Instrs RetVals s = checkExpr Instrs (s\<lparr>Returns := Returns s @ RetVals\<rparr>)"

subsection \<open>Sequences of module-level calls\<close>

text \<open>A call of \<^verbatim>\<open>addType\<close> or of \<^verbatim>\<open>addFunc\<close>, and a sequence of such calls in order.\<close>

datatype ModuleCall = AddType FuncType | AddFunc uint32 bool

fun applyCalls :: "ModuleCall list \<Rightarrow> FormChecker \<Rightarrow> FormChecker" where
  "applyCalls [] s = s"
| "applyCalls (AddType F # Cs) s = applyCalls Cs (addType F s)"
| "applyCalls (AddFunc T I # Cs) s = applyCalls Cs (addFunc T I s)"

text \<open>Every element of \<^verbatim>\<open>Funcs\<close> is an index into \<^verbatim>\<open>Types\<close>.\<close>

definition funcsInRange :: "FormChecker \<Rightarrow> bool" where
  "funcsInRange s = list_all (\<lambda>T. unat T < length (Types s)) (Funcs s)"

subsection \<open>Concrete checkers and instructions\<close>

text \<open>A checker as its constructor leaves it, and an instruction with all immediates zero.\<close>

definition initChecker :: FormChecker where
  "initChecker =
     \<lparr>Types = [], Funcs = [], Tables = [], Mems = 0, Globals = [], Datas = [], Elems = [],
      Refs = {}, NumImportFuncs = 0, NumImportGlobals = 0, Locals = [], LocalInits = [],
      Returns = [], ValStack = [], CtrlStack = []\<rparr>"

definition mkInstr :: "OpCode \<Rightarrow> Instruction" where
  "mkInstr Op =
     \<lparr>getOpCode = Op, getOffset = 0, getBlockType = EmptyBT, getJumpEnd = 0, getJumpElse = 0,
      getJump = \<lparr>TargetIndex = 0, StackEraseBegin = 0, StackEraseEnd = 0, PCOffset = 0\<rparr>,
      getLabelList = [], getTargetIndex = 0, getSourceIndex = 0, getValType = I32,
      getValTypeList = [], getStackOffset = 0, getMemoryAlign = 0, getMemoryLane = 0,
      getNum = 0\<rparr>"

text \<open>Two operands on the stack, in a frame whose floor is at 2 or at 1.\<close>

definition exFloor :: "bool \<Rightarrow> FormChecker" where
  "exFloor U = initChecker\<lparr>ValStack := [Some I32, Some I64],
       CtrlStack := [\<lparr>StartTypes = [], EndTypes = [], Jump = 0, Height = 2, InitedLocal = 0,
                      Code = None, IsUnreachable = U\<rparr>]\<rparr>"

definition exAbove :: FormChecker where
  "exAbove = initChecker\<lparr>ValStack := [Some I32, Some I64],
       CtrlStack := [\<lparr>StartTypes = [], EndTypes = [], Jump = 0, Height = 1, InitedLocal = 0,
                      Code = None, IsUnreachable = False\<rparr>]\<rparr>"

text \<open>A checker as a validation of a body with one local and the result \<open>i32\<close> leaves it.\<close>

definition exLeftover :: FormChecker where
  "exLeftover = initChecker\<lparr>Locals := [\<lparr>VType = I32, IsInit = True\<rparr>], LocalInits := [0],
       Returns := [I32], ValStack := [Some I32]\<rparr>"

text \<open>A type table with two equal function types and a third one.\<close>

definition exTypes :: "FuncType list" where
  "exTypes = [([I32], [I64]), ([I32], [I64]), ([I64], [])]"

text \<open>
  A block frame that ends with one \<open>i32\<close> on the stack; inside it the local 1 was
  initialised (the log has one entry above the watermark of the frame).
\<close>

definition exFrame :: FormChecker where
  "exFrame = initChecker\<lparr>
       Locals := [\<lparr>VType = I32, IsInit = True\<rparr>, \<lparr>VType = Ref FuncRef, IsInit = True\<rparr>],
       LocalInits := [0, 1],
       ValStack := [Some I32],
       CtrlStack := [\<lparr>StartTypes = [], EndTypes = [I32], Jump = 4, Height = 0,
                      InitedLocal = 1, Code = Some (Control Block), IsUnreachable = False\<rparr>]\<rparr>"

text \<open>
  An outer frame with the result \<open>i32\<close> anchored at address 9 and a block inside it with
  the floor 1, below the operands \<open>i64\<close>, \<open>f32\<close>, \<open>i32\<close> and, for \<^verbatim>\<open>br_if\<close>, the
  condition.
\<close>

definition exOuter :: CtrlFrame where
  "exOuter = \<lparr>StartTypes = [], EndTypes = [I32], Jump = 9, Height = 0, InitedLocal = 0,
              Code = None, IsUnreachable = False\<rparr>"

definition exInner :: CtrlFrame where
  "exInner = \<lparr>StartTypes = [], EndTypes = [], Jump = 7, Height = 1, InitedLocal = 0,
              Code = Some (Control Block), IsUnreachable = False\<rparr>"

definition exBranch :: "VType list \<Rightarrow> FormChecker" where
  "exBranch Vs = initChecker\<lparr>ValStack := Vs, CtrlStack := [exOuter, exInner]\<rparr>"

definition exBr :: "ControlOp \<Rightarrow> Instruction" where
  "exBr Op = (mkInstr (Control Op))
       \<lparr>getJump := \<lparr>TargetIndex = 1, StackEraseBegin = 0, StackEraseEnd = 0, PCOffset = 0\<rparr>\<rparr>"

definition exJump :: JumpDescriptor where
  "exJump = \<lparr>TargetIndex = 1, StackEraseBegin = 3, StackEraseEnd = 1, PCOffset = 6\<rparr>"

subsection \<open>Type tables that passed the validation of the type section\<close>

text \<open>
  The comment in \<^verbatim>\<open>matchType\<close> relies on the validation of the type section: a function
  type may only name type indices below its own. \<open>typeBound V\<close> is one more than the type
  index in \<open>V\<close>, or 0 when \<open>V\<close> has none.
\<close>

definition typeBound :: "ValType \<Rightarrow> nat" where
  "typeBound V = (case getHeapType V of Some (TypeIndex k) \<Rightarrow> Suc (unat k) | _ \<Rightarrow> 0)"

definition wfTypes :: "FuncType list \<Rightarrow> bool" where
  "wfTypes Ts =
     (\<forall>i < length Ts. \<forall>V \<in> set (fst (Ts ! i)) \<union> set (snd (Ts ! i)). typeBound V \<le> i)"

subsection \<open>Notions of the claims\<close>

text \<open>The byte of lane \<open>k\<close> of a 128-bit immediate, lane 0 being the lowest byte.\<close>

definition laneByte :: "128 word \<Rightarrow> nat \<Rightarrow> 8 word" where
  "laneByte w k = ucast (drop_bit (8 * k) w)"

text \<open>
  A check that turns the instruction \<open>I\<close> into \<open>I1\<close> with the result \<open>r\<close> keeps the
  opcode and the source offset, and keeps the whole instruction when it fails.
\<close>

definition wrote :: "Instruction \<Rightarrow> unit Expect \<Rightarrow> Instruction \<Rightarrow> bool" where
  "wrote I r I1 =
     (getOpCode I1 = getOpCode I \<and> getOffset I1 = getOffset I
      \<and> ((\<exists>e. r = Unexpect e) \<longrightarrow> I1 = I))"

text \<open>One memory, the outer frame of a body and the given operands.\<close>

definition exMem :: "VType list \<Rightarrow> FormChecker" where
  "exMem Vs = initChecker\<lparr>Mems := 1, ValStack := Vs,
       CtrlStack := [\<lparr>StartTypes = [], EndTypes = [], Jump = 3, Height = 0, InitedLocal = 0,
                      Code = None, IsUnreachable = False\<rparr>]\<rparr>"

definition exLoad :: "uint32 \<Rightarrow> Instruction" where
  "exLoad a = (mkInstr (AlignOp ''I32__load''))\<lparr>getMemoryAlign := a\<rparr>"

definition exShuffle :: "128 word \<Rightarrow> Instruction" where
  "exShuffle n = (mkInstr I8x16__shuffle)\<lparr>getNum := n\<rparr>"




section \<open>Properties\<close>

subsection \<open>What the stack operations leave unchanged\<close>

lemma popType0_frame:
  "popType0 s = Some (r, s1) \<Longrightarrow> s1 = s\<lparr>ValStack := ValStack s1\<rparr>"
  by (auto simp: popType0_def split: if_splits)

lemma popType0_err:
  "popType0 s = Some (Unexpect e, s1) \<Longrightarrow> e = TypeCheckFailed \<and> s1 = s"
  by (auto simp: popType0_def split: if_splits)

lemma popType_frame:
  "popType E s = Some (r, s1) \<Longrightarrow> s1 = s\<lparr>ValStack := ValStack s1\<rparr>"
  by (auto simp: popType_def split: option.splits prod.splits Expect.splits bool.splits
           dest: popType0_frame)

lemma popType_err:
  "popType E s = Some (Unexpect e, s1) \<Longrightarrow> e = TypeCheckFailed"
  by (auto simp: popType_def split: option.splits prod.splits Expect.splits bool.splits
           dest: popType0_err)

lemma popTypesLoop_frame:
  "popTypesLoop Ts s = Some (r, s1) \<Longrightarrow> s1 = s\<lparr>ValStack := ValStack s1\<rparr>"
proof (induction Ts arbitrary: s)
  case Nil
  then show ?case by simp
next
  case (Cons T Ts)
  show ?case
  proof (cases "popType T s")
    case None
    with Cons.prems show ?thesis by simp
  next
    case (Some p)
    obtain r0 s0 where p: "p = (r0, s0)" by (cases p)
    have f0: "s0 = s\<lparr>ValStack := ValStack s0\<rparr>"
      using Some p by (auto dest: popType_frame)
    show ?thesis
    proof (cases r0)
      case (Ok v)
      with Cons.prems Some p have "popTypesLoop Ts s0 = Some (r, s1)" by simp
      from Cons.IH [OF this] have "s1 = s0\<lparr>ValStack := ValStack s1\<rparr>" .
      then have "s1 = (s\<lparr>ValStack := ValStack s0\<rparr>)\<lparr>ValStack := ValStack s1\<rparr>"
        using f0 by simp
      then show ?thesis by simp
    next
      case (Unexpect e)
      with Cons.prems Some p f0 show ?thesis by simp
    qed
  qed
qed

lemma popTypesLoop_err:
  "popTypesLoop Ts s = Some (Unexpect e, s1) \<Longrightarrow> e = TypeCheckFailed"
  by (induction Ts arbitrary: s)
     (auto split: option.splits prod.splits Expect.splits dest: popType_err)

lemma popTypes_frame:
  "popTypes Ts s = Some (r, s1) \<Longrightarrow> s1 = s\<lparr>ValStack := ValStack s1\<rparr>"
  unfolding popTypes_def by (rule popTypesLoop_frame)

lemma StackTrans_err:
  "StackTrans Take Put s = Some (Unexpect e, s1) \<Longrightarrow> e = TypeCheckFailed"
  by (auto simp: StackTrans_def popTypes_def split: option.splits prod.splits Expect.splits
           dest: popTypesLoop_err)

text \<open>\<^verbatim>\<open>unreachable()\<close> never fails: it cuts the stack at the floor and marks the frame.\<close>

lemma unreachable_eq:
  "CtrlStack s \<noteq> [] \<Longrightarrow>
   unreachable s =
     Some (Ok (), s\<lparr>ValStack := take (Height (last (CtrlStack s))) (ValStack s),
                     CtrlStack := butlast (CtrlStack s) @
                       [(last (CtrlStack s))\<lparr>IsUnreachable := True\<rparr>]\<rparr>)"
proof (induction s rule: unreachable.induct)
  case (1 s)
  show ?case
  proof (cases "length (ValStack s) > Height (last (CtrlStack s))")
    case False
    with "1.prems" show ?thesis by (subst unreachable.simps) simp
  next
    case True
    let ?s1 = "s\<lparr>ValStack := butlast (ValStack s)\<rparr>"
    from True have ne: "ValStack s \<noteq> []" by auto
    have p: "popType0 s = Some (Ok (last (ValStack s)), ?s1)"
      using True "1.prems" ne by (simp add: popType0_def)
    have ih: "unreachable ?s1 =
                Some (Ok (), ?s1\<lparr>ValStack := take (Height (last (CtrlStack ?s1))) (ValStack ?s1),
                     CtrlStack := butlast (CtrlStack ?s1) @
                       [(last (CtrlStack ?s1))\<lparr>IsUnreachable := True\<rparr>]\<rparr>)"
      using "1.IH" [OF "1.prems" True p refl refl] "1.prems" by simp
    have tk: "take (Height (last (CtrlStack s))) (butlast (ValStack s)) =
              take (Height (last (CtrlStack s))) (ValStack s)"
      using True by (simp add: butlast_conv_take)
    show ?thesis
      using True "1.prems" p ih tk by (subst unreachable.simps) simp
  qed
qed

subsection \<open>The function table stays inside the type table\<close>

lemma funcsInRange_addType: "funcsInRange s \<Longrightarrow> funcsInRange (addType F s)"
  by (auto simp: funcsInRange_def addType_def list_all_iff)

lemma funcsInRange_addFunc: "funcsInRange s \<Longrightarrow> funcsInRange (addFunc T I s)"
  by (auto simp: funcsInRange_def addFunc_def Let_def list_all_iff)

lemma funcsInRange_applyCalls: "funcsInRange s \<Longrightarrow> funcsInRange (applyCalls Cs s)"
  by (induction Cs s rule: applyCalls.induct)
     (simp_all add: funcsInRange_addType funcsInRange_addFunc)

subsection \<open>Unfolding the type matching\<close>

lemma matchLoop_Nil: "matchBoth Ts (Inr ([], Gs)) = Some True"
  by (subst matchBoth.simps) simp

lemma matchLoop_Nil2: "matchBoth Ts (Inr (Es, [])) = Some True"
  by (subst matchBoth.simps) (simp split: list.splits)

lemma matchLoop_Cons:
  "matchBoth Ts (Inr (E # Es, G # Gs)) =
     Option.bind (matchType Ts E G) (\<lambda>M. if M then matchBoth Ts (Inr (Es, Gs)) else Some False)"
  by (subst matchBoth.simps) (simp add: matchType_def)

lemma matchTypes_Nil: "matchTypes Ts [] [] = Some True"
  by (simp add: matchTypes_def matchLoop_Nil)

lemma matchTypes_Cons:
  "length Es = length Gs \<Longrightarrow> matchTypes Ts (E # Es) (G # Gs) =
     Option.bind (matchType Ts E G) (\<lambda>M. if M then matchTypes Ts Es Gs else Some False)"
  by (auto simp: matchTypes_def matchLoop_Cons split: Option.bind_splits)

lemma matchTypes_length: "length Es \<noteq> length Gs \<Longrightarrow> matchTypes Ts Es Gs = Some False"
  by (simp add: matchTypes_def)

lemma matchTypes_True_iff:
  "(matchTypes Ts Es Gs = Some True) =
     (length Es = length Gs \<and> (\<forall>k < length Es. matchType Ts (Es ! k) (Gs ! k) = Some True))"
proof (induction Es arbitrary: Gs)
  case Nil
  show ?case by (cases Gs) (simp_all add: matchTypes_Nil matchTypes_length)
next
  case (Cons E Es)
  show ?case
  proof (cases Gs)
    case Nil
    then show ?thesis by (simp add: matchTypes_length)
  next
    case (Cons G Gs')
    have "(matchTypes Ts (E # Es) (G # Gs') = Some True) =
          (length Es = length Gs' \<and> matchType Ts E G = Some True
           \<and> matchTypes Ts Es Gs' = Some True)"
      by (cases "length Es = length Gs'")
         (auto simp: matchTypes_Cons matchTypes_length split: Option.bind_splits if_splits)
    also have "\<dots> = (matchType Ts E G = Some True \<and> length Es = length Gs' \<and>
                     (\<forall>k < length Es. matchType Ts (Es ! k) (Gs' ! k) = Some True))"
      using Cons.IH [of Gs'] by auto
    also have "\<dots> = (length (E # Es) = length (G # Gs') \<and>
                     (\<forall>k < length (E # Es). matchType Ts ((E # Es) ! k) ((G # Gs') ! k) = Some True))"
      by (auto simp: nth_Cons split: nat.splits)
    finally show ?thesis using Cons by simp
  qed
qed

lemma matchType_unfold:
  "matchType Ts Exp Got =
     (if \<not> isRefType Exp \<and> \<not> isRefType Got \<and> Exp = Got then Some True
      else
        (case (getHeapType Exp, getHeapType Got) of
           (Some he, Some hg) \<Rightarrow>
             if \<not> isNullableRefType Exp \<and> isNullableRefType Got then Some False
             else if sameHeapTypeCode he hg \<and> \<not> isTypeIndex he then Some True
             else if he = FuncRef \<and> isTypeIndex hg then Some True
             else
               (case (he, hg) of
                  (TypeIndex i, TypeIndex j) \<Rightarrow>
                    if unat i < length Ts \<and> unat j < length Ts then
                      Option.bind (matchTypes Ts (fst (Ts ! unat i)) (fst (Ts ! unat j)))
                        (\<lambda>P. if P then matchTypes Ts (snd (Ts ! unat i)) (snd (Ts ! unat j))
                             else Some False)
                    else None
                | _ \<Rightarrow> Some False)
         | _ \<Rightarrow> Some False))"
  unfolding matchType_def matchTypes_def
  by (subst matchBoth.simps) (simp split: option.splits HeapType.splits)

text \<open>On a type table that passed the validation of the type section the matching returns.\<close>

lemma matchTypes_total:
  "(\<And>k. k < length Es \<Longrightarrow> k < length Gs \<Longrightarrow> matchType Ts (Es ! k) (Gs ! k) \<noteq> None) \<Longrightarrow>
   matchTypes Ts Es Gs \<noteq> None"
proof (induction Es arbitrary: Gs)
  case Nil
  show ?case by (cases Gs) (simp_all add: matchTypes_Nil matchTypes_length)
next
  case (Cons E Es)
  show ?case
  proof (cases Gs)
    case Nil
    then show ?thesis by (simp add: matchTypes_length)
  next
    case (Cons G Gs1)
    show ?thesis
    proof (cases "length Es = length Gs1")
      case False
      then show ?thesis using Cons by (simp add: matchTypes_length)
    next
      case True
      have h: "matchType Ts E G \<noteq> None"
        using Cons.prems [of 0] Cons by simp
      have t: "matchTypes Ts Es Gs1 \<noteq> None"
      proof (rule Cons.IH)
        fix k
        assume "k < length Es" "k < length Gs1"
        then show "matchType Ts (Es ! k) (Gs1 ! k) \<noteq> None"
          using Cons.prems [of "Suc k"] Cons by simp
      qed
      show ?thesis
        using h t Cons True by (auto simp: matchTypes_Cons split: Option.bind_splits)
    qed
  qed
qed

lemma matchType_total:
  assumes wf: "wfTypes Ts"
  shows "typeBound E \<le> n \<Longrightarrow> typeBound G \<le> n \<Longrightarrow> n \<le> length Ts \<Longrightarrow>
         matchType Ts E G \<noteq> None"
proof (induction n arbitrary: E G rule: less_induct)
  case (less n)
  have rec: "matchTypes Ts Ps Qs \<noteq> None"
    if "\<forall>V \<in> set Ps. typeBound V \<le> i" "\<forall>V \<in> set Qs. typeBound V \<le> j" "i < n" "j < n"
    for Ps Qs i j
  proof (rule matchTypes_total)
    fix k
    assume k: "k < length Ps" "k < length Qs"
    have "typeBound (Ps ! k) \<le> max i j" "typeBound (Qs ! k) \<le> max i j"
      using that k by (auto simp: le_max_iff_disj)
    moreover have "max i j < n" "max i j \<le> length Ts"
      using that less.prems by auto
    ultimately show "matchType Ts (Ps ! k) (Qs ! k) \<noteq> None"
      using less.IH by blast
  qed
  show ?case
  proof (cases "\<exists>i j. getHeapType E = Some (TypeIndex i) \<and> getHeapType G = Some (TypeIndex j)")
    case False
    then show ?thesis
      by (subst matchType_unfold)
         (auto simp: isTypeIndex_def split: option.splits HeapType.splits)
  next
    case True
    then obtain i j where ij: "getHeapType E = Some (TypeIndex i)"
      "getHeapType G = Some (TypeIndex j)" by blast
    have b: "unat i < n" "unat j < n"
      using less.prems ij by (simp_all add: typeBound_def)
    then have r: "unat i < length Ts" "unat j < length Ts"
      using less.prems by simp_all
    have wi: "\<forall>V \<in> set (fst (Ts ! unat i)). typeBound V \<le> unat i"
             "\<forall>V \<in> set (snd (Ts ! unat i)). typeBound V \<le> unat i"
      using wf r by (auto simp: wfTypes_def)
    have wj: "\<forall>V \<in> set (fst (Ts ! unat j)). typeBound V \<le> unat j"
             "\<forall>V \<in> set (snd (Ts ! unat j)). typeBound V \<le> unat j"
      using wf r by (auto simp: wfTypes_def)
    have p: "matchTypes Ts (fst (Ts ! unat i)) (fst (Ts ! unat j)) \<noteq> None"
      using rec [OF wi(1) wj(1) b] .
    have q: "matchTypes Ts (snd (Ts ! unat i)) (snd (Ts ! unat j)) \<noteq> None"
      using rec [OF wi(2) wj(2) b] .
    show ?thesis
      using ij r p q
      by (subst matchType_unfold)
         (auto simp: isTypeIndex_def sameHeapTypeCode_def split: Option.bind_splits)
  qed
qed

subsection \<open>Popping a control frame\<close>

lemma resetInits_Some:
  "resetInits Is Ls = Some Ls1 \<Longrightarrow>
     (\<forall>i \<in> set Is. unat i < length Ls) \<and> length Ls1 = length Ls \<and>
     (\<forall>k < length Ls. VType (Ls1 ! k) = VType (Ls ! k) \<and>
        IsInit (Ls1 ! k) = (IsInit (Ls ! k) \<and> k \<notin> unat ` set Is))"
proof (induction Is arbitrary: Ls)
  case Nil
  then show ?case by simp
next
  case (Cons I Is)
  from Cons.prems have inr: "unat I < length Ls"
    and rec: "resetInits Is (Ls[unat I := (Ls ! unat I)\<lparr>IsInit := False\<rparr>]) = Some Ls1"
    by (auto split: if_splits)
  from Cons.IH [OF rec] inr show ?case
    by (auto simp: nth_list_update)
qed

lemma resetInits_total:
  "\<forall>i \<in> set Is. unat i < length Ls \<Longrightarrow> resetInits Is Ls \<noteq> None"
  by (induction Is arbitrary: Ls) auto

lemma popTypes_fields:
  assumes "popTypes Ts s = Some (r, s1)"
  shows "CtrlStack s1 = CtrlStack s" "Locals s1 = Locals s" "LocalInits s1 = LocalInits s"
        "Types s1 = Types s" "Returns s1 = Returns s"
proof -
  from popTypes_frame [OF assms] have e: "s1 = s\<lparr>ValStack := ValStack s1\<rparr>" .
  show "CtrlStack s1 = CtrlStack s" by (subst e) simp
  show "Locals s1 = Locals s" by (subst e) simp
  show "LocalInits s1 = LocalInits s" by (subst e) simp
  show "Types s1 = Types s" by (subst e) simp
  show "Returns s1 = Returns s" by (subst e) simp
qed

subsection \<open>Branch targets\<close>

lemma pushTypes_eq: "pushTypes Ts s = s\<lparr>ValStack := ValStack s @ map Some Ts\<rparr>"
  by (induction Ts arbitrary: s) (simp_all add: pushType_def)

lemma pushVTypes_eq: "pushVTypes Vs s = s\<lparr>ValStack := ValStack s @ Vs\<rparr>"
  by (induction Vs arbitrary: s) (simp_all add: pushType_def)

lemma unat_of_nat32: "m < 2 ^ 32 \<Longrightarrow> unat (word_of_nat m :: uint32) = m"
  by (simp add: unat_of_nat)

lemma sint_of_int32:
  "- (2 ^ 31) \<le> x \<Longrightarrow> x < 2 ^ 31 \<Longrightarrow> sint (word_of_int x :: int32) = x"
  by (simp add: signed_of_int signed_take_bit_int_eq_self)

lemma depth_index:
  assumes "unat N < n" "n < 2 ^ 32"
  shows "unat (word_of_nat n - 1 - N :: uint32) = n - 1 - unat N"
proof -
  have "(word_of_nat (n - 1 - unat N) :: uint32) = word_of_nat n - 1 - N"
    using assms by (simp add: of_nat_diff)
  moreover have "unat (word_of_nat (n - 1 - unat N) :: uint32) = n - 1 - unat N"
    using assms by (intro unat_of_nat32) arith
  ultimately show ?thesis by (rule subst)
qed

lemma checkCtrlStackDepth_Ok:
  assumes "unat N < length (CtrlStack s)" "length (CtrlStack s) < 2 ^ 32"
  shows "checkCtrlStackDepth s N = Ok (word_of_nat (length (CtrlStack s)) - 1 - N)"
    and "ctrlAt s (word_of_nat (length (CtrlStack s)) - 1 - N)
           = Some (CtrlStack s ! (length (CtrlStack s) - 1 - unat N))"
proof -
  show "checkCtrlStackDepth s N = Ok (word_of_nat (length (CtrlStack s)) - 1 - N)"
    using assms by (simp add: checkCtrlStackDepth_def)
  show "ctrlAt s (word_of_nat (length (CtrlStack s)) - 1 - N)
           = Some (CtrlStack s ! (length (CtrlStack s) - 1 - unat N))"
    unfolding ctrlAt_def depth_index [OF assms] using assms by simp
qed

lemma ctrlAt_cong: "CtrlStack s1 = CtrlStack s \<Longrightarrow> ctrlAt s1 D = ctrlAt s D"
  by (simp add: ctrlAt_def)

lemma popType_fields:
  assumes "popType E s = Some (r, s1)"
  shows "CtrlStack s1 = CtrlStack s"
proof -
  from popType_frame [OF assms] have e: "s1 = s\<lparr>ValStack := ValStack s1\<rparr>" .
  show "CtrlStack s1 = CtrlStack s" by (subst e) simp
qed

lemma popTypes_CtrlStack:
  assumes "popTypes Ts s = Some (r, s1)"
  shows "CtrlStack s1 = CtrlStack s"
proof -
  from popTypes_frame [OF assms] have e: "s1 = s\<lparr>ValStack := ValStack s1\<rparr>" .
  show "CtrlStack s1 = CtrlStack s" by (subst e) simp
qed

subsection \<open>The table of the aligned memory instructions\<close>

text \<open>No case label occurs twice, so every entry is the one that the dispatch finds.\<close>

lemma alignOps_distinct: "distinct (map fst alignOps)"
  by (simp add: alignOps_def)

lemma alignOps_widths:
  "\<forall>(Name, N, Take, Put, CL) \<in> set alignOps. N \<in> {8, 16, 32, 64, 128}"
  by (simp add: alignOps_def)

lemma checkLaneAndTrans_err:
  "checkLaneAndTrans Instr N Take Put s = Some (Unexpect e, s1) \<Longrightarrow>
     e = InvalidLaneIdx \<or> e = TypeCheckFailed"
  by (auto simp: checkLaneAndTrans_def split: if_splits dest: StackTrans_err)

lemma width_log2:
  assumes "N \<in> {8, 16, 32, 64, 128 :: nat}"
  shows "\<exists>k \<le> 4. N div 8 = 2 ^ k"
proof -
  consider "N = 8" | "N = 16" | "N = 32" | "N = 64" | "N = 128"
    using assms by auto
  then show ?thesis
  proof cases
    case 1
    then show ?thesis by (intro exI [of _ 0]) simp
  next
    case 2
    then show ?thesis by (intro exI [of _ 1]) simp
  next
    case 3
    then show ?thesis by (intro exI [of _ 2]) simp
  next
    case 4
    then show ?thesis by (intro exI [of _ 3]) simp
  next
    case 5
    then show ?thesis by (intro exI [of _ 4]) simp
  qed
qed

subsection \<open>The lane bytes of the shuffle mask\<close>

lemma mask_bits_aux: "\<forall>n \<in> set [0..<128]. bit ShuffleMask n = (5 \<le> n mod 8)"
  by code_simp

lemma mask_bits: "bit ShuffleMask n = (n < 128 \<and> 5 \<le> n mod 8)"
proof (cases "n < 128")
  case True
  then show ?thesis using mask_bits_aux by simp
next
  case False
  then show ?thesis by (auto dest: bit_imp_le_length)
qed

lemma byte_mask_bits: "bit (0xE0 :: 8 word) m = (m < 8 \<and> 5 \<le> m)"
proof (cases "m < 8")
  case True
  have "\<forall>m \<in> set [0..<8]. bit (0xE0 :: 8 word) m = (5 \<le> m)" by code_simp
  then show ?thesis using True by simp
next
  case False
  then show ?thesis by (auto dest: bit_imp_le_length)
qed

lemma byte_ge_32: "(32 \<le> b) = (b AND 0xE0 \<noteq> 0)" for b :: "8 word"
proof -
  have "(b < 2 ^ 5) = (b AND mask 5 = b)"
    by (rule mask_eq_iff_w2p [symmetric]) (simp add: word_size)
  then have "(b < 32) = (take_bit 5 b = b)"
    by (simp add: take_bit_eq_mask)
  also have "\<dots> = (\<forall>m. bit b m \<longrightarrow> m < 5)"
  proof
    assume e: "take_bit 5 b = b"
    show "\<forall>m. bit b m \<longrightarrow> m < 5"
    proof (intro allI impI)
      fix m
      assume "bit b m"
      then have "bit (take_bit 5 b) m" using e by simp
      then show "m < 5" by (simp add: bit_take_bit_iff)
    qed
  next
    assume "\<forall>m. bit b m \<longrightarrow> m < 5"
    then show "take_bit 5 b = b"
      by (intro bit_eqI) (auto simp: bit_take_bit_iff)
  qed
  also have "\<dots> = (b AND 0xE0 = 0)"
  proof -
    have lt8: "m < 8" if "bit b m" for m
      using bit_imp_le_length [OF that] by simp
    have "(b AND 0xE0 = 0) = (\<forall>m. \<not> (bit b m \<and> m < 8 \<and> 5 \<le> m))"
      unfolding bit_eq_iff [of "b AND 0xE0" 0] bit_and_iff byte_mask_bits by simp
    also have "\<dots> = (\<forall>m. bit b m \<longrightarrow> m < 5)"
      using lt8 by (meson not_le)
    finally show ?thesis by simp
  qed
  finally show ?thesis by (auto simp: not_less [symmetric])
qed

lemma bit_laneByte: "bit (laneByte w k) m = (m < 8 \<and> bit w (8 * k + m))"
  by (auto simp: laneByte_def bit_ucast_iff bit_drop_bit_eq)

lemma shuffle_mask_lanes:
  "(w AND ShuffleMask \<noteq> 0) = (\<exists>k < 16. 32 \<le> laneByte w k)"
proof -
  have "(w AND ShuffleMask \<noteq> 0) = (\<exists>n. bit w n \<and> n < 128 \<and> 5 \<le> n mod 8)"
    by (auto simp: bit_eq_iff bit_and_iff mask_bits)
  also have "\<dots> = (\<exists>k < 16. \<exists>m < 8. 5 \<le> m \<and> bit w (8 * k + m))"
  proof
    assume "\<exists>n. bit w n \<and> n < 128 \<and> 5 \<le> n mod 8"
    then obtain n where n: "bit w n" "n < 128" "5 \<le> n mod 8" by blast
    have "n div 8 < 16" using n(2) by simp
    moreover have "n mod 8 < 8" by simp
    moreover have "bit w (8 * (n div 8) + n mod 8)" using n(1) by simp
    ultimately show "\<exists>k < 16. \<exists>m < 8. 5 \<le> m \<and> bit w (8 * k + m)"
      using n(3) by blast
  next
    assume "\<exists>k < 16. \<exists>m < 8. 5 \<le> m \<and> bit w (8 * k + m)"
    then obtain k m where km: "k < 16" "m < 8" "5 \<le> m" "bit w (8 * k + m)" by blast
    have "8 * k + m < 128" using km by simp
    moreover have "(8 * k + m) mod 8 = m" using km by simp
    ultimately show "\<exists>n. bit w n \<and> n < 128 \<and> 5 \<le> n mod 8"
      using km by (intro exI [of _ "8 * k + m"]) simp
  qed
  also have "\<dots> = (\<exists>k < 16. laneByte w k AND 0xE0 \<noteq> 0)"
  proof -
    have "(laneByte w k AND 0xE0 \<noteq> 0) = (\<exists>m < 8. 5 \<le> m \<and> bit w (8 * k + m))" for k
      unfolding bit_eq_iff [of "laneByte w k AND 0xE0" 0] bit_and_iff byte_mask_bits bit_laneByte
      by auto
    then show ?thesis by simp
  qed
  also have "\<dots> = (\<exists>k < 16. 32 \<le> laneByte w k)"
    by (simp add: byte_ge_32)
  finally show ?thesis .
qed

subsection \<open>What a check writes into its instruction\<close>

lemma keep_SomeD: "keep I r = Some (x, I1, s1) \<Longrightarrow> I1 = I \<and> r = Some (x, s1)"
  by (auto simp: keep_def split: option.splits prod.splits)

lemma unreachable_Ok: "unreachable s = Some (r, s1) \<Longrightarrow> r = Ok ()"
proof (cases "CtrlStack s = []")
  case True
  assume "unreachable s = Some (r, s1)"
  with True show ?thesis by (subst (asm) unreachable.simps) simp
next
  case False
  assume "unreachable s = Some (r, s1)"
  with unreachable_eq [OF False] show ?thesis by simp
qed

lemma wrote_refl: "wrote I r I"
  by (simp add: wrote_def)

lemma wrote_keep: "keep I r = Some (x, I1, s1) \<Longrightarrow> wrote I x I1"
  by (auto simp: wrote_def dest: keep_SomeD)

lemma wrote_checkBlock: "checkBlock pc I s = Some (r, I1, s1) \<Longrightarrow> wrote I r I1"
  by (auto simp: checkBlock_def Let_def wrote_def
           split: option.splits prod.splits Expect.splits if_splits)

lemma wrote_checkElse: "checkElse I s = Some (r, I1, s1) \<Longrightarrow> wrote I r I1"
  by (auto simp: checkElse_def wrote_def split: option.splits prod.splits Expect.splits)

lemma wrote_checkEnd: "checkEnd I s = Some (r, I1, s1) \<Longrightarrow> wrote I r I1"
  by (auto simp: checkEnd_def wrote_def split: option.splits prod.splits Expect.splits)

lemma wrote_checkBr: "checkBr pc I s = Some (r, I1, s1) \<Longrightarrow> wrote I r I1"
  by (auto simp: checkBr_def Let_def wrote_def
           split: option.splits prod.splits Expect.splits
           dest!: keep_SomeD dest: unreachable_Ok)

lemma wrote_checkBr_if: "checkBr_if pc I s = Some (r, I1, s1) \<Longrightarrow> wrote I r I1"
  by (auto simp: checkBr_if_def Let_def wrote_def
           split: option.splits prod.splits Expect.splits)

lemma wrote_checkBr_on_null: "checkBr_on_null pc I s = Some (r, I1, s1) \<Longrightarrow> wrote I r I1"
  by (auto simp: checkBr_on_null_def Let_def wrote_def
           split: option.splits prod.splits Expect.splits)

lemma wrote_checkBr_on_non_null:
  "checkBr_on_non_null pc I s = Some (r, I1, s1) \<Longrightarrow> wrote I r I1"
  by (auto simp: checkBr_on_non_null_def Let_def wrote_def
           split: option.splits prod.splits Expect.splits if_splits)


lemma meta_checkBr_table:
  "checkBr_table pc I s = Some (r, I1, s1) \<Longrightarrow>
     getOpCode I1 = getOpCode I \<and> getOffset I1 = getOffset I"
  by (auto simp: checkBr_table_def Let_def
           split: option.splits prod.splits Expect.splits if_splits
           dest!: keep_SomeD)

lemma wrote_checkControl:
  "checkControl Op pc I s = Some (r, I1, s1) \<Longrightarrow> Op \<noteq> Br_table \<Longrightarrow> wrote I r I1"
proof (cases Op)
  case Return
  assume "checkControl Op pc I s = Some (r, I1, s1)"
  with Return show ?thesis
    by (auto simp: checkControl_def wrote_refl
             split: option.splits prod.splits Expect.splits dest: wrote_keep)
next
  case Call
  assume "checkControl Op pc I s = Some (r, I1, s1)"
  with Call show ?thesis
    by (auto simp: checkControl_def Let_def wrote_refl
             split: option.splits prod.splits Expect.splits if_splits dest: wrote_keep)
next
  case Call_indirect
  assume "checkControl Op pc I s = Some (r, I1, s1)"
  with Call_indirect show ?thesis
    by (auto simp: checkControl_def Let_def wrote_refl
             split: option.splits prod.splits Expect.splits if_splits dest: wrote_keep)
next
  case Return_call
  assume "checkControl Op pc I s = Some (r, I1, s1)"
  with Return_call show ?thesis
    by (auto simp: checkControl_def Let_def wrote_refl
             split: option.splits prod.splits Expect.splits if_splits bool.splits
             dest: wrote_keep)
next
  case Return_call_indirect
  assume "checkControl Op pc I s = Some (r, I1, s1)"
  with Return_call_indirect show ?thesis
    by (auto simp: checkControl_def Let_def wrote_refl
             split: option.splits prod.splits Expect.splits if_splits bool.splits
             dest: wrote_keep)
next
  case Call_ref
  assume "checkControl Op pc I s = Some (r, I1, s1)"
  with Call_ref show ?thesis
    by (auto simp: checkControl_def Let_def wrote_refl
             split: option.splits prod.splits Expect.splits if_splits dest: wrote_keep)
next
  case Return_call_ref
  assume "checkControl Op pc I s = Some (r, I1, s1)"
  with Return_call_ref show ?thesis
    by (auto simp: checkControl_def Let_def wrote_refl
             split: option.splits prod.splits Expect.splits if_splits bool.splits
             dest: wrote_keep)
qed (auto simp: checkControl_def wrote_refl
          dest: wrote_keep wrote_checkBlock wrote_checkElse wrote_checkEnd wrote_checkBr
                wrote_checkBr_if wrote_checkBr_on_null wrote_checkBr_on_non_null)

lemma wrote_checkSelect: "checkSelect I s = Some (r, I1, s1) \<Longrightarrow> wrote I r I1"
  by (auto simp: checkSelect_def wrote_def
           split: option.splits prod.splits Expect.splits if_splits)

lemma meta_checkLocal:
  "checkLocal Op I s = Some (r, I1, s1) \<Longrightarrow>
     getOpCode I1 = getOpCode I \<and> getOffset I1 = getOffset I"
  by (auto simp: checkLocal_def Let_def split: if_splits dest!: keep_SomeD)

lemma wrote_checkGlobal: "checkGlobal Op I s = Some (r, I1, s1) \<Longrightarrow> wrote I r I1"
  by (auto simp: checkGlobal_def Let_def wrote_refl split: if_splits dest: wrote_keep)

lemma wrote_checkRefVar:
  "checkRefVar Op I s = Some (r, I1, s1) \<Longrightarrow>
     Op \<notin> {Local__get, Local__set, Local__tee} \<Longrightarrow> wrote I r I1"
proof (cases Op)
  case Ref__null
  assume "checkRefVar Op I s = Some (r, I1, s1)"
  with Ref__null show ?thesis
    by (auto simp: checkRefVar_def wrote_refl split: Expect.splits dest: wrote_keep)
next
  case Ref__is_null
  assume "checkRefVar Op I s = Some (r, I1, s1)"
  with Ref__is_null show ?thesis
    by (auto simp: checkRefVar_def wrote_refl
             split: option.splits prod.splits Expect.splits if_splits dest: wrote_keep)
next
  case Ref__func
  assume "checkRefVar Op I s = Some (r, I1, s1)"
  with Ref__func show ?thesis
    by (auto simp: checkRefVar_def Let_def wrote_refl split: if_splits dest: wrote_keep)
next
  case Ref__as_non_null
  assume "checkRefVar Op I s = Some (r, I1, s1)"
  with Ref__as_non_null show ?thesis
    by (auto simp: checkRefVar_def wrote_refl
             split: option.splits prod.splits Expect.splits dest: wrote_keep)
next
  case Select_t
  assume "checkRefVar Op I s = Some (r, I1, s1)"
  with Select_t show ?thesis
    by (auto simp: checkRefVar_def wrote_refl
             split: option.splits prod.splits Expect.splits list.splits)
qed (auto simp: checkRefVar_def dest: wrote_keep wrote_checkSelect wrote_checkGlobal)

lemma wrote_checkTable: "checkTable Op I s = Some (r, I1, s1) \<Longrightarrow> wrote I r I1"
  by (auto simp: checkTable_def Let_def wrote_refl
           split: if_splits option.splits bool.splits dest: wrote_keep)

lemma wrote_checkTableMem: "checkTableMem Op I s = Some (r, I1, s1) \<Longrightarrow> wrote I r I1"
  by (cases Op)
     (auto simp: checkTableMem_def wrote_refl split: if_splits
           dest: wrote_keep wrote_checkTable)

lemma checkInstr_wrote:
  assumes "checkInstr pc I s = Some (r, I1, s1)"
  shows "getOpCode I1 = getOpCode I \<and> getOffset I1 = getOffset I
         \<and> ((\<exists>e. r = Unexpect e)
              \<and> getOpCode I \<notin> {RefVar Local__get, RefVar Local__set, RefVar Local__tee,
                                 Control Br_table} \<longrightarrow> I1 = I)"
proof (cases "getOpCode I")
  case (Control Op)
  show ?thesis
  proof (cases "Op = Br_table")
    case True
    with assms Control have "checkBr_table pc I s = Some (r, I1, s1)"
      by (auto simp: checkInstr_def checkControl_def)
    from meta_checkBr_table [OF this] True Control show ?thesis by auto
  next
    case False
    with assms Control have "wrote I r I1"
      by (auto simp: checkInstr_def dest: wrote_checkControl)
    then show ?thesis by (auto simp: wrote_def)
  qed
next
  case (RefVar Op)
  show ?thesis
  proof (cases "Op \<in> {Local__get, Local__set, Local__tee}")
    case True
    with assms RefVar have "checkLocal Op I s = Some (r, I1, s1)"
      by (auto simp: checkInstr_def checkRefVar_def)
    from meta_checkLocal [OF this] True RefVar show ?thesis by auto
  next
    case False
    with assms RefVar have "wrote I r I1"
      by (auto simp: checkInstr_def dest: wrote_checkRefVar)
    then show ?thesis by (auto simp: wrote_def)
  qed
next
  case (TableMem Op)
  with assms have "wrote I r I1"
    by (auto simp: checkInstr_def dest: wrote_checkTableMem)
  then show ?thesis by (auto simp: wrote_def)
next
  case I8x16__shuffle
  with assms have "wrote I r I1"
    by (auto simp: checkInstr_def wrote_refl split: if_splits dest: wrote_keep)
  then show ?thesis by (auto simp: wrote_def)
next
  case Atomic__fence
  with assms have "wrote I r I1"
    by (auto simp: checkInstr_def wrote_refl)
  then show ?thesis by (auto simp: wrote_def)
next
  case (AlignOp Name)
  with assms have "wrote I r I1"
    by (auto simp: checkInstr_def split: option.splits dest: wrote_keep)
  then show ?thesis by (auto simp: wrote_def)
next
  case (LaneOp Name)
  with assms have "wrote I r I1"
    by (auto simp: checkInstr_def split: option.splits dest: wrote_keep)
  then show ?thesis by (auto simp: wrote_def)
next
  case (TransOp Name)
  with assms have "wrote I r I1"
    by (auto simp: checkInstr_def split: option.splits dest: wrote_keep)
  then show ?thesis by (auto simp: wrote_def)
qed

subsection \<open>Two bodies checked from start to end\<close>

text \<open>
  The body \<^verbatim>\<open>i32.const; i32.const; i32.add; end\<close> with the result \<open>i32\<close> and the body
  \<^verbatim>\<open>unreachable; i32.const; drop; drop; end\<close> without a result are accepted; the second
  \<^verbatim>\<open>drop\<close> pops from the floor of the unreachable frame.
\<close>

lemma lookup_const: "map_of transOps ''I32__const'' = Some ([], [I32])"
  by (simp add: transOps_def)

lemma lookup_add: "map_of transOps ''I32__add'' = Some ([I32, I32], [I32])"
  by (simp add: transOps_def)

lemma match_I32: "matchType Ts I32 I32 = Some True"
  by (simp add: matchType_unfold isRefType_def)

lemma scenario_i32_add:
  "validate [mkInstr (TransOp ''I32__const''), mkInstr (TransOp ''I32__const''),
             mkInstr (TransOp ''I32__add''), mkInstr (Control End)] [I32] initChecker =
     Some (Ok (), [],
           [mkInstr (TransOp ''I32__const''), mkInstr (TransOp ''I32__const''),
            mkInstr (TransOp ''I32__add''), mkInstr (Control End)],
           initChecker\<lparr>Returns := [I32], ValStack := [Some I32]\<rparr>)"
  by (simp add: validate_def checkExpr_def pushCtrl_def checkInstr_def checkControl_def
                checkEnd_def popCtrl_def keep_def StackTrans_def popTypes_def popType_def
                popType0_def pushType_def lookup_const lookup_add match_I32 mkInstr_def
                initChecker_def)

lemma scenario_unreachable:
  "validate [mkInstr (Control Unreachable), mkInstr (TransOp ''I32__const''),
             mkInstr (RefVar Drop), mkInstr (RefVar Drop), mkInstr (Control End)] []
            initChecker =
     Some (Ok (), [],
           [mkInstr (Control Unreachable), mkInstr (TransOp ''I32__const''),
            mkInstr (RefVar Drop), mkInstr (RefVar Drop), mkInstr (Control End)],
           initChecker)"
  by (simp add: validate_def checkExpr_def pushCtrl_def checkInstr_def checkControl_def
                checkRefVar_def StackPopAny_def unreachable_eq unreachableVType_def
                checkEnd_def popCtrl_def keep_def StackTrans_def popTypes_def popType_def
                popType0_def pushType_def lookup_const mkInstr_def initChecker_def)

text \<open>
  The body \<^verbatim>\<open>local.get 0; end\<close> with one local of type \<open>i32\<close> and the result \<open>i32\<close>,
  validated on a checker that was reset, leaves the checker \<open>exLeftover\<close>.
\<close>

lemma exLeftover_reached:
  "validate [mkInstr (RefVar Local__get), mkInstr (Control End)] [I32]
            (addLocal I32 True (reset False initChecker)) =
     Some (Ok (), [],
           [(mkInstr (RefVar Local__get))\<lparr>getStackOffset := 1\<rparr>, mkInstr (Control End)],
           exLeftover)"
  by (simp add: validate_def checkExpr_def pushCtrl_def checkInstr_def checkControl_def
                checkRefVar_def checkLocal_def Let_def addLocal_def reset_def
                checkEnd_def popCtrl_def keep_def StackTrans_def popTypes_def popType_def
                popType0_def pushType_def match_I32 mkInstr_def exLeftover_def
                initChecker_def)

subsection \<open>The writes of \<^verbatim>\<open>local.get\<close>, \<^verbatim>\<open>local.set\<close>, \<^verbatim>\<open>local.tee\<close> and \<^verbatim>\<open>br_table\<close>\<close>






subsection \<open>\<^verbatim>\<open>checkInstrs\<close> as a chain of \<^verbatim>\<open>checkInstr\<close> steps\<close>

text \<open>
  \<^verbatim>\<open>checkInstrs\<close> succeeds exactly when there is a chain of states, starting with the
  given one, in which instruction \<open>k\<close> is checked with success at address \<open>pc + k\<close> in the
  state \<open>k\<close> and leaves the state \<open>k + 1\<close>. It fails with an error exactly when such a
  chain reaches an instruction \<open>k\<close> whose check returns that error.
\<close>

lemma checkInstrs_Ok_iff:
  "(checkInstrs pc Instrs s = Some (Ok (), Log, Instrs1, s1)) =
   (Log = [] \<and> length Instrs1 = length Instrs
    \<and> (\<exists>ss. length ss = Suc (length Instrs) \<and> ss ! 0 = s \<and> ss ! length Instrs = s1
          \<and> (\<forall>k < length Instrs.
                 checkInstr (pc + int k) (Instrs ! k) (ss ! k)
                   = Some (Ok (), Instrs1 ! k, ss ! Suc k))))"
proof (induction Instrs arbitrary: pc s Instrs1)
  case Nil
  show ?case
  proof
    assume "checkInstrs pc [] s = Some (Ok (), Log, Instrs1, s1)"
    then have "Log = []" "Instrs1 = []" "s1 = s" by auto
    then show "Log = [] \<and> length Instrs1 = length []
      \<and> (\<exists>ss. length ss = Suc (length []) \<and> ss ! 0 = s \<and> ss ! length [] = s1
          \<and> (\<forall>k < length ([] :: Instruction list).
                 checkInstr (pc + int k) ([] ! k) (ss ! k) = Some (Ok (), Instrs1 ! k, ss ! Suc k)))"
      by (auto intro: exI [of _ "[s]"])
  next
    assume "Log = [] \<and> length Instrs1 = length []
      \<and> (\<exists>ss. length ss = Suc (length []) \<and> ss ! 0 = s \<and> ss ! length [] = s1
          \<and> (\<forall>k < length ([] :: Instruction list).
                 checkInstr (pc + int k) ([] ! k) (ss ! k) = Some (Ok (), Instrs1 ! k, ss ! Suc k)))"
    then show "checkInstrs pc [] s = Some (Ok (), Log, Instrs1, s1)" by auto
  qed
next
  case (Cons I Is)
  show ?case
  proof
    assume a: "checkInstrs pc (I # Is) s = Some (Ok (), Log, Instrs1, s1)"
    then obtain I0 s0 Is1 where c: "checkInstr pc I s = Some (Ok (), I0, s0)"
      and rec: "checkInstrs (pc + 1) Is s0 = Some (Ok (), Log, Is1, s1)"
      and i1: "Instrs1 = I0 # Is1"
      by (auto split: option.splits prod.splits Expect.splits)
    from rec Cons.IH [of "pc + 1" s0 Is1] obtain ss where ss: "Log = []" "length Is1 = length Is"
      "length ss = Suc (length Is)" "ss ! 0 = s0" "ss ! length Is = s1"
      "\<forall>k < length Is. checkInstr (pc + 1 + int k) (Is ! k) (ss ! k)
                          = Some (Ok (), Is1 ! k, ss ! Suc k)"
      by auto
    have step: "checkInstr (pc + int k) ((I # Is) ! k) ((s # ss) ! k)
                  = Some (Ok (), Instrs1 ! k, (s # ss) ! Suc k)" if "k < length (I # Is)" for k
    proof (cases k)
      case 0
      then show ?thesis using c i1 ss(4) by simp
    next
      case (Suc j)
      have "pc + int (Suc j) = pc + 1 + int j" by simp
      then show ?thesis using Suc that ss(6) i1 by (simp add: add.assoc)
    qed
    have "length (s # ss) = Suc (length (I # Is)) \<and> (s # ss) ! 0 = s
          \<and> (s # ss) ! length (I # Is) = s1"
      using ss by simp
    then show "Log = [] \<and> length Instrs1 = length (I # Is)
      \<and> (\<exists>ss. length ss = Suc (length (I # Is)) \<and> ss ! 0 = s \<and> ss ! length (I # Is) = s1
          \<and> (\<forall>k < length (I # Is).
                 checkInstr (pc + int k) ((I # Is) ! k) (ss ! k)
                   = Some (Ok (), Instrs1 ! k, ss ! Suc k)))"
      using ss(1,2) i1 step by (intro conjI exI [of _ "s # ss"]) auto
  next
    assume "Log = [] \<and> length Instrs1 = length (I # Is)
      \<and> (\<exists>ss. length ss = Suc (length (I # Is)) \<and> ss ! 0 = s \<and> ss ! length (I # Is) = s1
          \<and> (\<forall>k < length (I # Is).
                 checkInstr (pc + int k) ((I # Is) ! k) (ss ! k)
                   = Some (Ok (), Instrs1 ! k, ss ! Suc k)))"
    then obtain ss where l: "Log = []" "length Instrs1 = length (I # Is)"
      and ss: "length ss = Suc (length (I # Is))" "ss ! 0 = s" "ss ! length (I # Is) = s1"
      and st: "\<forall>k < length (I # Is).
                 checkInstr (pc + int k) ((I # Is) ! k) (ss ! k)
                   = Some (Ok (), Instrs1 ! k, ss ! Suc k)"
      by blast
    from l(2) obtain I0 Is1 where i1: "Instrs1 = I0 # Is1" "length Is1 = length Is"
      by (cases Instrs1) auto
    from ss(1) obtain t ts where t: "ss = t # ts" "length ts = Suc (length Is)"
      by (cases ss) auto
    have c: "checkInstr pc I s = Some (Ok (), I0, ts ! 0)"
      using st [rule_format, of 0] ss(2) i1 t by simp
    have tail: "\<forall>k < length Is. checkInstr (pc + 1 + int k) (Is ! k) (ts ! k)
                                  = Some (Ok (), Is1 ! k, ts ! Suc k)"
    proof (intro allI impI)
      fix k
      assume "k < length Is"
      then have "Suc k < length (I # Is)" by simp
      from st [rule_format, OF this]
      have "checkInstr (pc + int (Suc k)) ((I # Is) ! Suc k) (ss ! Suc k)
                   = Some (Ok (), Instrs1 ! Suc k, ss ! Suc (Suc k))" .
      moreover have "pc + int (Suc k) = pc + 1 + int k" by simp
      ultimately show "checkInstr (pc + 1 + int k) (Is ! k) (ts ! k)
                         = Some (Ok (), Is1 ! k, ts ! Suc k)"
        using i1 t by (simp add: add.assoc)
    qed
    have "ts ! length Is = s1" using ss(3) t by simp
    then have rec: "checkInstrs (pc + 1) Is (ts ! 0) = Some (Ok (), Log, Is1, s1)"
      using Cons.IH [of "pc + 1" "ts ! 0" Is1] l(1) i1(2) t(2) tail by blast
    show "checkInstrs pc (I # Is) s = Some (Ok (), Log, Instrs1, s1)"
      using c rec i1 by simp
  qed
qed

lemma checkInstrs_Err_iff:
  "(checkInstrs pc Instrs s = Some (Unexpect e, Log, Instrs1, s1)) =
   (\<exists>k ss. k < length Instrs \<and> length Instrs1 = length Instrs
      \<and> length ss = Suc k \<and> ss ! 0 = s
      \<and> (\<forall>i < k. checkInstr (pc + int i) (Instrs ! i) (ss ! i)
                     = Some (Ok (), Instrs1 ! i, ss ! Suc i))
      \<and> checkInstr (pc + int k) (Instrs ! k) (ss ! k) = Some (Unexpect e, Instrs1 ! k, s1)
      \<and> Log = [InfoInstruction (getOpCode (Instrs ! k)) (getOffset (Instrs ! k))]
      \<and> drop (Suc k) Instrs1 = drop (Suc k) Instrs)"
  (is "?L pc Instrs s Instrs1 = (\<exists>k ss. ?R pc Instrs s Instrs1 k ss)")
proof (induction Instrs arbitrary: pc s Instrs1)
  case Nil
  show ?case by simp
next
  case (Cons I Is)
  show ?case
  proof
    assume a: "?L pc (I # Is) s Instrs1"
    then obtain r0 I0 s0 where c: "checkInstr pc I s = Some (r0, I0, s0)"
      by (auto split: option.splits)
    note w = checkInstr_wrote [OF c]
    show "\<exists>k ss. ?R pc (I # Is) s Instrs1 k ss"
    proof (cases r0)
      case (Unexpect e0)
      with a c have eq: "e0 = e" "Log = [InfoInstruction (getOpCode I0) (getOffset I0)]"
        "Instrs1 = I0 # Is" "s0 = s1"
        by auto
      have "?R pc (I # Is) s Instrs1 0 [s]"
        using eq c w Unexpect by simp
      then show ?thesis by blast
    next
      case (Ok u)
      with a c obtain Is1 where rec: "?L (pc + 1) Is s0 Is1" and i1: "Instrs1 = I0 # Is1"
        by (auto split: option.splits prod.splits)
      from rec Cons.IH [of "pc + 1" s0 Is1] obtain k ss where k: "?R (pc + 1) Is s0 Is1 k ss"
        by blast
      have pre: "checkInstr (pc + int i) ((I # Is) ! i) ((s # ss) ! i)
                   = Some (Ok (), Instrs1 ! i, (s # ss) ! Suc i)" if "i < Suc k" for i
      proof (cases i)
        case 0
        then show ?thesis using c Ok i1 k by simp
      next
        case (Suc j)
        then show ?thesis using that k i1 by (simp add: add.assoc)
      qed
      have "?R pc (I # Is) s Instrs1 (Suc k) (s # ss)"
        using k i1 pre by (simp add: add.assoc)
      then show ?thesis by blast
    qed
  next
    assume "\<exists>k ss. ?R pc (I # Is) s Instrs1 k ss"
    then obtain k ss where r: "?R pc (I # Is) s Instrs1 k ss" by blast
    from r obtain I0 Is1 where i1: "Instrs1 = I0 # Is1" "length Is1 = length Is"
      by (cases Instrs1) auto
    from r obtain t ts where t: "ss = t # ts" "length ts = k" "t = s"
      by (cases ss) auto
    show "?L pc (I # Is) s Instrs1"
    proof (cases k)
      case 0
      with r i1 t have c: "checkInstr pc I s = Some (Unexpect e, I0, s1)"
        and d: "Is1 = Is"
        and l: "Log = [InfoInstruction (getOpCode I) (getOffset I)]"
        by simp_all
      from checkInstr_wrote [OF c] l
      have "Log = [InfoInstruction (getOpCode I0) (getOffset I0)]" by simp
      then show ?thesis using c d i1 by simp
    next
      case (Suc j)
      have c: "checkInstr pc I s = Some (Ok (), I0, ts ! 0)"
      proof -
        have "0 < k" using Suc by simp
        with r have "checkInstr (pc + int 0) ((I # Is) ! 0) (ss ! 0)
                       = Some (Ok (), Instrs1 ! 0, ss ! Suc 0)"
          by blast
        then show ?thesis using i1 t by simp
      qed
      have tl: "checkInstr (pc + 1 + int i) (Is ! i) (ts ! i)
                  = Some (Ok (), Is1 ! i, ts ! Suc i)" if "i < j" for i
      proof -
        have "Suc i < k" using that Suc by simp
        with r have "checkInstr (pc + int (Suc i)) ((I # Is) ! Suc i) (ss ! Suc i)
                       = Some (Ok (), Instrs1 ! Suc i, ss ! Suc (Suc i))"
          by blast
        then show ?thesis using i1 t by (simp add: add.assoc)
      qed
      have f: "checkInstr (pc + 1 + int j) (Is ! j) (ts ! j) = Some (Unexpect e, Is1 ! j, s1)"
        using r Suc i1 t by (simp add: add.assoc)
      have "?R (pc + 1) Is (ts ! 0) Is1 j ts"
        using r Suc i1 t tl f by simp
      then have "?L (pc + 1) Is (ts ! 0) Is1"
        using Cons.IH [of "pc + 1" "ts ! 0" Is1] by blast
      then show ?thesis using c i1 by simp
    qed
  qed
qed
section \<open>The claims\<close>

text \<open>
  C1 (as stated, refuted): every call of \<^verbatim>\<open>validate\<close> resets the scratch state, so that
  checking starts with an empty operand stack, control stack and locals list and with the
  returns list equal to the passed result types. On a checker that a previous validation
  left with one operand, one local and the result \<open>i32\<close>, \<^verbatim>\<open>validate\<close> of an empty body
  with the result \<open>i64\<close> keeps the operand and the local and ends with the returns list
  \<open>[i32, i64]\<close>.
\<close>

theorem validate_no_reset_counterexample:
  "validate [] [I64] exLeftover = Some (Ok (), [], [], exLeftover\<lparr>Returns := [I32, I64]\<rparr>)
   \<and> ValStack (exLeftover\<lparr>Returns := [I32, I64]\<rparr>) \<noteq> []
   \<and> Locals (exLeftover\<lparr>Returns := [I32, I64]\<rparr>) \<noteq> []
   \<and> Returns (exLeftover\<lparr>Returns := [I32, I64]\<rparr>) \<noteq> [I64]"
  by (simp add: validate_def checkExpr_def exLeftover_def initChecker_def)

text \<open>
  C1 (amended): \<^verbatim>\<open>validate\<close> resets nothing. It appends the passed result types to the
  returns list, leaves the operand stack, the control stack and the locals as they are, and
  checks the body in that state. The scratch state is cleared by \<^verbatim>\<open>reset\<close>: in a
  validation that directly follows a \<^verbatim>\<open>reset\<close>, checking starts with an empty operand
  stack, control stack and locals list, and with the returns list equal to the passed
  result types.
\<close>

theorem validate_after_reset:
  "validate Instrs RetVals s = checkExpr Instrs (s\<lparr>Returns := Returns s @ RetVals\<rparr>)
   \<and> ValStack (s\<lparr>Returns := Returns s @ RetVals\<rparr>) = ValStack s
   \<and> CtrlStack (s\<lparr>Returns := Returns s @ RetVals\<rparr>) = CtrlStack s
   \<and> Locals (s\<lparr>Returns := Returns s @ RetVals\<rparr>) = Locals s
   \<and> validate Instrs RetVals (reset CleanGlobal s) =
       checkExpr Instrs ((reset CleanGlobal s)\<lparr>Returns := RetVals\<rparr>)
   \<and> ValStack ((reset CleanGlobal s)\<lparr>Returns := RetVals\<rparr>) = []
   \<and> CtrlStack ((reset CleanGlobal s)\<lparr>Returns := RetVals\<rparr>) = []
   \<and> Locals ((reset CleanGlobal s)\<lparr>Returns := RetVals\<rparr>) = []
   \<and> Returns ((reset CleanGlobal s)\<lparr>Returns := RetVals\<rparr>) = RetVals"
  by (simp add: validate_def reset_def Let_def)

text \<open>
  C3: with a non-empty control stack, \<^verbatim>\<open>popType()\<close> on an operand stack strictly above the
  height of the current frame removes the top entry and returns it; on an operand stack
  exactly at that height it returns \<open>Unknown\<close> and leaves the state as it is if and only if
  the frame is marked unreachable, and otherwise it fails with \<open>TypeCheckFailed\<close>.
\<close>

theorem popType0_floor:
  assumes "CtrlStack s \<noteq> []"
  shows "(length (ValStack s) > Height (last (CtrlStack s)) \<longrightarrow>
            popType0 s = Some (Ok (last (ValStack s)), s\<lparr>ValStack := butlast (ValStack s)\<rparr>))
       \<and> (length (ValStack s) = Height (last (CtrlStack s)) \<longrightarrow>
            ((popType0 s = Some (Ok unreachableVType, s)) = IsUnreachable (last (CtrlStack s)))
          \<and> (\<not> IsUnreachable (last (CtrlStack s)) \<longrightarrow>
               popType0 s = Some (Unexpect TypeCheckFailed, s)))"
  using assms by (auto simp: popType0_def)

theorem popType0_floor_witness:
  "popType0 exAbove = Some (Ok (Some I64), exAbove\<lparr>ValStack := [Some I32]\<rparr>)
   \<and> popType0 (exFloor True) = Some (Ok unreachableVType, exFloor True)
   \<and> popType0 (exFloor False) = Some (Unexpect TypeCheckFailed, exFloor False)"
  using popType0_floor [of exAbove] popType0_floor [of "exFloor True"]
        popType0_floor [of "exFloor False"]
  by (simp add: exAbove_def exFloor_def initChecker_def)

text \<open>
  C8 (as stated, refuted): the output of the outer frame equals the passed result types.
  On the checker that the validation of a body with the result \<open>i32\<close> has left, a
  validation of \<^verbatim>\<open>nop\<close> with the passed result \<open>i64\<close> opens the outer frame with the
  output \<open>[i32, i64]\<close>.
\<close>

theorem outer_frame_stale_returns_counterexample:
  "validate [mkInstr (Control Nop)] [I64] exLeftover =
     Some (Ok (), [], [mkInstr (Control Nop)],
           exLeftover\<lparr>Returns := [I32, I64],
             CtrlStack := [\<lparr>StartTypes = [], EndTypes = [I32, I64], Jump = 0, Height = 1,
                            InitedLocal = 1, Code = None, IsUnreachable = False\<rparr>]\<rparr>)
   \<and> EndTypes (last (CtrlStack (pushCtrl [] (Returns exLeftover @ [I64])
                     (int (length [mkInstr (Control Nop)]) - 1) None
                     (exLeftover\<lparr>Returns := Returns exLeftover @ [I64]\<rparr>)))) \<noteq> [I64]"
  by (simp add: validate_def checkExpr_def pushCtrl_def checkInstr_def checkControl_def
                mkInstr_def exLeftover_def initChecker_def)

text \<open>
  C8 (amended): \<^verbatim>\<open>validate\<close> of an empty instruction sequence succeeds at once for every
  result signature; it opens no control frame and produces no operand. On a non-empty
  sequence it first pushes an outer control frame with no input, whose output is the
  returns list of the checker after the passed result types were appended to it (exactly
  the passed result types when the list was empty before, as after \<^verbatim>\<open>reset\<close>) and whose
  jump anchor is the last instruction of the sequence. Then it checks the instructions in
  order: instruction \<open>k\<close> is checked at address \<open>k\<close> in the state that instruction
  \<open>k - 1\<close> has left, the first one in the state with the outer frame. The validation
  succeeds exactly when every instruction is checked with success, and it fails with an
  error exactly when the first instruction whose check fails returns that error.
\<close>

theorem validate_empty_and_outer_frame:
  "validate [] RetVals s = Some (Ok (), [], [], s\<lparr>Returns := Returns s @ RetVals\<rparr>)
   \<and> pushCtrl [] (Returns s @ RetVals) (int (length Instrs) - 1) None
        (s\<lparr>Returns := Returns s @ RetVals\<rparr>) =
       s\<lparr>Returns := Returns s @ RetVals,
         CtrlStack := CtrlStack s @
           [\<lparr>StartTypes = [], EndTypes = Returns s @ RetVals,
             Jump = int (length Instrs) - 1,
             Height = length (ValStack s), InitedLocal = length (LocalInits s),
             Code = None, IsUnreachable = False\<rparr>]\<rparr>
   \<and> (Returns s = [] \<longrightarrow>
        EndTypes (last (CtrlStack (pushCtrl [] (Returns s @ RetVals) (int (length Instrs) - 1)
                                     None (s\<lparr>Returns := Returns s @ RetVals\<rparr>)))) = RetVals)
   \<and> (Instrs \<noteq> [] \<longrightarrow>
        ((validate Instrs RetVals s = Some (Ok (), Log, Instrs1, s1)) =
           (Log = [] \<and> length Instrs1 = length Instrs
            \<and> (\<exists>ss. length ss = Suc (length Instrs)
                  \<and> ss ! 0 = pushCtrl [] (Returns s @ RetVals) (int (length Instrs) - 1) None
                               (s\<lparr>Returns := Returns s @ RetVals\<rparr>)
                  \<and> ss ! length Instrs = s1
                  \<and> (\<forall>k < length Instrs.
                        checkInstr (int k) (Instrs ! k) (ss ! k)
                          = Some (Ok (), Instrs1 ! k, ss ! Suc k)))))
        \<and> ((validate Instrs RetVals s = Some (Unexpect e, Log, Instrs1, s1)) =
             (\<exists>k ss. k < length Instrs \<and> length Instrs1 = length Instrs
                \<and> length ss = Suc k
                \<and> ss ! 0 = pushCtrl [] (Returns s @ RetVals) (int (length Instrs) - 1) None
                             (s\<lparr>Returns := Returns s @ RetVals\<rparr>)
                \<and> (\<forall>i < k. checkInstr (int i) (Instrs ! i) (ss ! i)
                               = Some (Ok (), Instrs1 ! i, ss ! Suc i))
                \<and> checkInstr (int k) (Instrs ! k) (ss ! k)
                    = Some (Unexpect e, Instrs1 ! k, s1)
                \<and> Log = [InfoInstruction (getOpCode (Instrs ! k)) (getOffset (Instrs ! k))]
                \<and> drop (Suc k) Instrs1 = drop (Suc k) Instrs)))"
proof -
  let ?s0 = "pushCtrl [] (Returns s @ RetVals) (int (length Instrs) - 1) None
               (s\<lparr>Returns := Returns s @ RetVals\<rparr>)"
  have a: "validate [] RetVals s = Some (Ok (), [], [], s\<lparr>Returns := Returns s @ RetVals\<rparr>)"
    by (simp add: validate_def checkExpr_def)
  have b: "?s0 = s\<lparr>Returns := Returns s @ RetVals,
         CtrlStack := CtrlStack s @
           [\<lparr>StartTypes = [], EndTypes = Returns s @ RetVals,
             Jump = int (length Instrs) - 1,
             Height = length (ValStack s), InitedLocal = length (LocalInits s),
             Code = None, IsUnreachable = False\<rparr>]\<rparr>"
    by (simp add: pushCtrl_def)
  have c: "Returns s = [] \<longrightarrow> EndTypes (last (CtrlStack ?s0)) = RetVals"
    by (simp add: pushCtrl_def)
  have v: "validate Instrs RetVals s = checkInstrs 0 Instrs ?s0" if "Instrs \<noteq> []"
    using that by (simp add: validate_def checkExpr_def)
  have d: "(validate Instrs RetVals s = Some (Ok (), Log, Instrs1, s1)) =
           (Log = [] \<and> length Instrs1 = length Instrs
            \<and> (\<exists>ss. length ss = Suc (length Instrs) \<and> ss ! 0 = ?s0
                  \<and> ss ! length Instrs = s1
                  \<and> (\<forall>k < length Instrs.
                        checkInstr (int k) (Instrs ! k) (ss ! k)
                          = Some (Ok (), Instrs1 ! k, ss ! Suc k))))" if "Instrs \<noteq> []"
    unfolding v [OF that] checkInstrs_Ok_iff by simp
  have f: "(validate Instrs RetVals s = Some (Unexpect e, Log, Instrs1, s1)) =
             (\<exists>k ss. k < length Instrs \<and> length Instrs1 = length Instrs
                \<and> length ss = Suc k \<and> ss ! 0 = ?s0
                \<and> (\<forall>i < k. checkInstr (int i) (Instrs ! i) (ss ! i)
                               = Some (Ok (), Instrs1 ! i, ss ! Suc i))
                \<and> checkInstr (int k) (Instrs ! k) (ss ! k)
                    = Some (Unexpect e, Instrs1 ! k, s1)
                \<and> Log = [InfoInstruction (getOpCode (Instrs ! k)) (getOffset (Instrs ! k))]
                \<and> drop (Suc k) Instrs1 = drop (Suc k) Instrs)" if "Instrs \<noteq> []"
    unfolding v [OF that] checkInstrs_Err_iff by simp
  from d f have g: "Instrs \<noteq> [] \<longrightarrow>
        ((validate Instrs RetVals s = Some (Ok (), Log, Instrs1, s1)) =
           (Log = [] \<and> length Instrs1 = length Instrs
            \<and> (\<exists>ss. length ss = Suc (length Instrs) \<and> ss ! 0 = ?s0
                  \<and> ss ! length Instrs = s1
                  \<and> (\<forall>k < length Instrs.
                        checkInstr (int k) (Instrs ! k) (ss ! k)
                          = Some (Ok (), Instrs1 ! k, ss ! Suc k)))))
        \<and> ((validate Instrs RetVals s = Some (Unexpect e, Log, Instrs1, s1)) =
             (\<exists>k ss. k < length Instrs \<and> length Instrs1 = length Instrs
                \<and> length ss = Suc k \<and> ss ! 0 = ?s0
                \<and> (\<forall>i < k. checkInstr (int i) (Instrs ! i) (ss ! i)
                               = Some (Ok (), Instrs1 ! i, ss ! Suc i))
                \<and> checkInstr (int k) (Instrs ! k) (ss ! k)
                    = Some (Unexpect e, Instrs1 ! k, s1)
                \<and> Log = [InfoInstruction (getOpCode (Instrs ! k)) (getOffset (Instrs ! k))]
                \<and> drop (Suc k) Instrs1 = drop (Suc k) Instrs))"
    by (intro impI conjI)
  show ?thesis
    by (rule conjI [OF a conjI [OF b conjI [OF c g]]])
qed

theorem validate_empty_and_outer_frame_witness:
  "[mkInstr (RefVar Drop)] \<noteq> [] \<and> Returns initChecker = []
   \<and> EndTypes (last (CtrlStack (pushCtrl [] (Returns initChecker @ [I32])
                  (int (length [mkInstr (RefVar Drop)]) - 1) None
                  (initChecker\<lparr>Returns := Returns initChecker @ [I32]\<rparr>)))) = [I32]
   \<and> validate [mkInstr (RefVar Drop)] [I32] initChecker =
       Some (Unexpect TypeCheckFailed, [InfoInstruction (RefVar Drop) 0],
             [mkInstr (RefVar Drop)],
             initChecker\<lparr>Returns := [I32],
               CtrlStack := [\<lparr>StartTypes = [], EndTypes = [I32], Jump = 0, Height = 0,
                              InitedLocal = 0, Code = None, IsUnreachable = False\<rparr>]\<rparr>)
   \<and> validate [mkInstr (TransOp ''I32__const''), mkInstr (Control End)] [I32] initChecker =
       Some (Ok (), [], [mkInstr (TransOp ''I32__const''), mkInstr (Control End)],
             initChecker\<lparr>Returns := [I32], ValStack := [Some I32]\<rparr>)"
proof -
  let ?F = "\<lambda>J. \<lparr>StartTypes = [], EndTypes = [I32], Jump = J, Height = 0,
                  InitedLocal = 0, Code = None, IsUnreachable = False\<rparr>"
  let ?d = "[mkInstr (RefVar Drop)]"
  let ?b = "[mkInstr (TransOp ''I32__const''), mkInstr (Control End)]"
  let ?s0 = "\<lambda>J. initChecker\<lparr>Returns := [I32], CtrlStack := [?F J]\<rparr>"
  have r: "Returns initChecker = []"
    by (simp add: initChecker_def)
  have ne: "?d \<noteq> []" "?b \<noteq> []"
    by simp_all
  have p: "pushCtrl [] (Returns initChecker @ [I32]) (int (length Is) - 1) None
             (initChecker\<lparr>Returns := Returns initChecker @ [I32]\<rparr>) = ?s0 (int (length Is) - 1)"
    for Is :: "Instruction list"
    by (simp add: pushCtrl_def initChecker_def)
  have drop: "checkInstr 0 (mkInstr (RefVar Drop)) (?s0 0) =
                Some (Unexpect TypeCheckFailed, mkInstr (RefVar Drop), ?s0 0)"
    by (simp add: checkInstr_def checkRefVar_def StackPopAny_def popType0_def keep_def
                  mkInstr_def initChecker_def)
  have const: "checkInstr 0 (mkInstr (TransOp ''I32__const'')) (?s0 1) =
                 Some (Ok (), mkInstr (TransOp ''I32__const''), (?s0 1)\<lparr>ValStack := [Some I32]\<rparr>)"
    by (simp add: checkInstr_def StackTrans_def popTypes_def pushType_def keep_def
                  lookup_const mkInstr_def initChecker_def)
  have "end": "checkInstr 1 (mkInstr (Control End)) ((?s0 1)\<lparr>ValStack := [Some I32]\<rparr>) =
                 Some (Ok (), mkInstr (Control End),
                       initChecker\<lparr>Returns := [I32], ValStack := [Some I32]\<rparr>)"
    by (simp add: checkInstr_def checkControl_def checkEnd_def popCtrl_def popTypes_def
                  popType_def popType0_def pushType_def keep_def match_I32 mkInstr_def
                  initChecker_def)
  note D = validate_empty_and_outer_frame
             [where s = initChecker and RetVals = "[I32]" and Instrs = ?d
                and e = TypeCheckFailed and Log = "[InfoInstruction (RefVar Drop) 0]"
                and ?Instrs1.0 = ?d and ?s1.0 = "?s0 0"]
  note B = validate_empty_and_outer_frame
             [where s = initChecker and RetVals = "[I32]" and Instrs = ?b
                and Log = "[]" and ?Instrs1.0 = ?b
                and ?s1.0 = "initChecker\<lparr>Returns := [I32], ValStack := [Some I32]\<rparr>"]
  from D r have out: "EndTypes (last (CtrlStack (pushCtrl [] (Returns initChecker @ [I32])
                  (int (length ?d) - 1) None
                  (initChecker\<lparr>Returns := Returns initChecker @ [I32]\<rparr>)))) = [I32]"
    by blast
  from D ne have De: "(validate ?d [I32] initChecker =
        Some (Unexpect TypeCheckFailed, [InfoInstruction (RefVar Drop) 0], ?d, ?s0 0)) =
      (\<exists>k ss. k < length ?d \<and> length ?d = length ?d
                \<and> length ss = Suc k
                \<and> ss ! 0 = pushCtrl [] (Returns initChecker @ [I32]) (int (length ?d) - 1) None
                             (initChecker\<lparr>Returns := Returns initChecker @ [I32]\<rparr>)
                \<and> (\<forall>i < k. checkInstr (int i) (?d ! i) (ss ! i)
                               = Some (Ok (), ?d ! i, ss ! Suc i))
                \<and> checkInstr (int k) (?d ! k) (ss ! k)
                    = Some (Unexpect TypeCheckFailed, ?d ! k, ?s0 0)
                \<and> [InfoInstruction (RefVar Drop) 0]
                     = [InfoInstruction (getOpCode (?d ! k)) (getOffset (?d ! k))]
                \<and> drop (Suc k) ?d = drop (Suc k) ?d)"
    by blast
  have fails: "validate ?d [I32] initChecker =
        Some (Unexpect TypeCheckFailed, [InfoInstruction (RefVar Drop) 0], ?d, ?s0 0)"
    unfolding De p
    by (rule exI [of _ 0], rule exI [of _ "[?s0 0]"]) (simp add: drop, simp add: mkInstr_def)
  from B ne have Be: "(validate ?b [I32] initChecker =
        Some (Ok (), [], ?b, initChecker\<lparr>Returns := [I32], ValStack := [Some I32]\<rparr>)) =
      ([] = ([] :: ErrInfo list) \<and> length ?b = length ?b
            \<and> (\<exists>ss. length ss = Suc (length ?b)
                  \<and> ss ! 0 = pushCtrl [] (Returns initChecker @ [I32]) (int (length ?b) - 1) None
                               (initChecker\<lparr>Returns := Returns initChecker @ [I32]\<rparr>)
                  \<and> ss ! length ?b = initChecker\<lparr>Returns := [I32], ValStack := [Some I32]\<rparr>
                  \<and> (\<forall>k < length ?b.
                        checkInstr (int k) (?b ! k) (ss ! k)
                          = Some (Ok (), ?b ! k, ss ! Suc k))))"
    by blast
  have chain: "\<forall>k < length ?b. checkInstr (int k) (?b ! k)
                   ([?s0 1, (?s0 1)\<lparr>ValStack := [Some I32]\<rparr>,
                     initChecker\<lparr>Returns := [I32], ValStack := [Some I32]\<rparr>] ! k)
                 = Some (Ok (), ?b ! k,
                     [?s0 1, (?s0 1)\<lparr>ValStack := [Some I32]\<rparr>,
                      initChecker\<lparr>Returns := [I32], ValStack := [Some I32]\<rparr>] ! Suc k)"
  proof (intro allI impI)
    fix k assume "k < length ?b"
    then have "k = 0 \<or> k = 1" by auto
    then show "checkInstr (int k) (?b ! k)
                   ([?s0 1, (?s0 1)\<lparr>ValStack := [Some I32]\<rparr>,
                     initChecker\<lparr>Returns := [I32], ValStack := [Some I32]\<rparr>] ! k)
                 = Some (Ok (), ?b ! k,
                     [?s0 1, (?s0 1)\<lparr>ValStack := [Some I32]\<rparr>,
                      initChecker\<lparr>Returns := [I32], ValStack := [Some I32]\<rparr>] ! Suc k)"
      using const "end" by auto
  qed
  have passes: "validate ?b [I32] initChecker =
        Some (Ok (), [], ?b, initChecker\<lparr>Returns := [I32], ValStack := [Some I32]\<rparr>)"
    unfolding Be p
    apply (intro conjI refl)
    apply (rule exI [of _ "[?s0 1, (?s0 1)\<lparr>ValStack := [Some I32]\<rparr>,
                     initChecker\<lparr>Returns := [I32], ValStack := [Some I32]\<rparr>]"])
    apply (intro conjI)
       apply simp
      apply simp
     apply simp
    apply (rule chain)
    done
  from ne r out fails passes show ?thesis
    by (intro conjI)
qed

text \<open>
  C10: after any sequence of \<^verbatim>\<open>addType\<close> and \<^verbatim>\<open>addFunc\<close> calls on a cleared checker (or
  on any checker whose function table stays inside its type table), every element of
  \<^verbatim>\<open>Funcs\<close> is an index into \<^verbatim>\<open>Types\<close>. \<^verbatim>\<open>addFunc\<close> with a type index that is not below
  the size of \<^verbatim>\<open>Types\<close> appends nothing to \<^verbatim>\<open>Funcs\<close> and still counts an import. Hence
  \<^verbatim>\<open>Types[Funcs[N]]\<close> is in range after the check \<open>N < |Funcs|\<close>, and \<^verbatim>\<open>call\<close> and
  \<^verbatim>\<open>return_call\<close> read the signature of the function from there.
\<close>

theorem funcs_index_types:
  "funcsInRange (reset True s0)
   \<and> (funcsInRange s \<longrightarrow> funcsInRange (applyCalls Cs s))
   \<and> (\<not> unat T < length (Types s) \<longrightarrow>
        Funcs (addFunc T I s) = Funcs s
        \<and> NumImportFuncs (addFunc T I s)
            = (if I then NumImportFuncs s + 1 else NumImportFuncs s))
   \<and> (funcsInRange s \<and> unat N < length (Funcs s) \<longrightarrow>
        unat (Funcs s ! unat N) < length (Types s)
        \<and> funcTypeOf s N = Some (Types s ! unat (Funcs s ! unat N))
        \<and> (getTargetIndex Instr = N \<longrightarrow>
             checkControl Call pc Instr s =
               keep Instr (StackTrans (fst (Types s ! unat (Funcs s ! unat N)))
                             (snd (Types s ! unat (Funcs s ! unat N))) s)
             \<and> checkControl Return_call pc Instr s =
                 (case matchTypes (Types s) (Returns s)
                         (snd (Types s ! unat (Funcs s ! unat N))) of
                    None \<Rightarrow> None
                  | Some False \<Rightarrow> Some (Unexpect TypeCheckFailed, Instr, s)
                  | Some True \<Rightarrow>
                      (case popTypes (fst (Types s ! unat (Funcs s ! unat N))) s of
                         None \<Rightarrow> None
                       | Some (Unexpect e, s1) \<Rightarrow> Some (Unexpect e, Instr, s1)
                       | Some (Ok _, s1) \<Rightarrow> keep Instr (unreachable s1)))))"
proof -
  have a: "funcsInRange (reset True s0)"
    by (simp add: funcsInRange_def reset_def)
  have b: "funcsInRange s \<longrightarrow> funcsInRange (applyCalls Cs s)"
    by (simp add: funcsInRange_applyCalls)
  have c: "\<not> unat T < length (Types s) \<longrightarrow>
        Funcs (addFunc T I s) = Funcs s
        \<and> NumImportFuncs (addFunc T I s)
            = (if I then NumImportFuncs s + 1 else NumImportFuncs s)"
    by (simp add: addFunc_def Let_def)
  have d: "unat (Funcs s ! unat N) < length (Types s)"
    if "funcsInRange s" "unat N < length (Funcs s)"
    using that by (simp add: funcsInRange_def list_all_length)
  have e: "funcTypeOf s N = Some (Types s ! unat (Funcs s ! unat N))"
    if "funcsInRange s" "unat N < length (Funcs s)"
    using that d by (simp add: funcTypeOf_def)
  have f: "checkControl Call pc Instr s =
               keep Instr (StackTrans (fst (Types s ! unat (Funcs s ! unat N)))
                             (snd (Types s ! unat (Funcs s ! unat N))) s)"
    if "funcsInRange s" "unat N < length (Funcs s)" "getTargetIndex Instr = N"
    using that e by (simp add: checkControl_def Let_def)
  have g: "checkControl Return_call pc Instr s =
                 (case matchTypes (Types s) (Returns s)
                         (snd (Types s ! unat (Funcs s ! unat N))) of
                    None \<Rightarrow> None
                  | Some False \<Rightarrow> Some (Unexpect TypeCheckFailed, Instr, s)
                  | Some True \<Rightarrow>
                      (case popTypes (fst (Types s ! unat (Funcs s ! unat N))) s of
                         None \<Rightarrow> None
                       | Some (Unexpect e, s1) \<Rightarrow> Some (Unexpect e, Instr, s1)
                       | Some (Ok _, s1) \<Rightarrow> keep Instr (unreachable s1)))"
    if "funcsInRange s" "unat N < length (Funcs s)" "getTargetIndex Instr = N"
    using that e by (simp add: checkControl_def Let_def)
  show ?thesis using a b c d e f g by blast
qed

theorem funcs_index_types_witness:
  "funcsInRange (applyCalls [AddType ([I32], [I64]), AddFunc 0 False] (reset True initChecker))
   \<and> Funcs (applyCalls [AddFunc 5 True]
        (applyCalls [AddType ([I32], [I64]), AddFunc 0 False] (reset True initChecker))) = [0]
   \<and> NumImportFuncs (addFunc 5 True
        (applyCalls [AddType ([I32], [I64]), AddFunc 0 False] (reset True initChecker))) = 1
   \<and> funcTypeOf (applyCalls [AddType ([I32], [I64]), AddFunc 0 False] (reset True initChecker))
        0 = Some ([I32], [I64])"
  using funcs_index_types [of initChecker
          "applyCalls [AddType ([I32], [I64]), AddFunc 0 False] (reset True initChecker)"
          "[AddFunc 5 True]" 5 True 0 "mkInstr (Control Call)" 0]
  by (simp add: reset_def initChecker_def addType_def addFunc_def funcsInRange_def)

text \<open>
  C2: for every control frame on top of the control stack, \<^verbatim>\<open>popCtrl\<close> first pops the end
  types of the frame from the operand stack (an error of that step is the error of
  \<^verbatim>\<open>popCtrl\<close>), then fails with \<open>TypeCheckFailed\<close> unless the size of the operand stack
  is the height recorded in the frame. On success it returns the frame and removes it,
  cuts the local-init log back to the watermark of the frame, and sets \<open>IsInit\<close> to false
  for exactly the locals whose index is in the log at or beyond the watermark; all other
  locals keep their state and every local keeps its type. Hence every local first
  initialised inside the popped frame is uninitialised again.
\<close>

theorem popCtrl_rules:
  assumes ne: "CtrlStack s \<noteq> []" and wm: "InitedLocal (last (CtrlStack s)) < 2 ^ 32"
  shows
   "(popTypes (EndTypes (last (CtrlStack s))) s = None \<longrightarrow> popCtrl s = None)
    \<and> (\<forall>e s1. popTypes (EndTypes (last (CtrlStack s))) s = Some (Unexpect e, s1) \<longrightarrow>
          popCtrl s = Some (Unexpect e, s1))
    \<and> (\<forall>s1. popTypes (EndTypes (last (CtrlStack s))) s = Some (Ok (), s1) \<longrightarrow>
         (length (ValStack s1) \<noteq> Height (last (CtrlStack s)) \<longrightarrow>
            popCtrl s = Some (Unexpect TypeCheckFailed, s1))
       \<and> (length (ValStack s1) = Height (last (CtrlStack s))
            \<and> InitedLocal (last (CtrlStack s)) \<le> length (LocalInits s)
            \<and> (\<forall>i \<in> set (drop (InitedLocal (last (CtrlStack s))) (LocalInits s)).
                  unat i < length (Locals s)) \<longrightarrow>
            (\<exists>Ls. popCtrl s =
                     Some (Ok (last (CtrlStack s)),
                           s1\<lparr>Locals := Ls,
                              LocalInits := take (InitedLocal (last (CtrlStack s))) (LocalInits s),
                              CtrlStack := butlast (CtrlStack s)\<rparr>)
                 \<and> length Ls = length (Locals s)
                 \<and> (\<forall>k < length (Locals s).
                       VType (Ls ! k) = VType (Locals s ! k)
                       \<and> IsInit (Ls ! k) =
                           (IsInit (Locals s ! k)
                            \<and> k \<notin> unat ` set (drop (InitedLocal (last (CtrlStack s)))
                                                 (LocalInits s))))
                 \<and> (\<forall>i \<in> set (drop (InitedLocal (last (CtrlStack s))) (LocalInits s)).
                       \<not> IsInit (Ls ! unat i)))))"
proof -
  let ?F = "last (CtrlStack s)"
  have u: "unat (word_of_nat (InitedLocal ?F) :: uint32) = InitedLocal ?F"
    using wm by (simp add: unat_of_nat)
  have a: "popTypes (EndTypes ?F) s = None \<longrightarrow> popCtrl s = None"
    using ne by (simp add: popCtrl_def)
  have b: "popCtrl s = Some (Unexpect e, s1)"
    if "popTypes (EndTypes ?F) s = Some (Unexpect e, s1)" for e s1
    using ne that by (simp add: popCtrl_def)
  have c: "popCtrl s = Some (Unexpect TypeCheckFailed, s1)"
    if "popTypes (EndTypes ?F) s = Some (Ok (), s1)" "length (ValStack s1) \<noteq> Height ?F" for s1
    using ne that popTypes_fields(1) [OF that(1)] by (simp add: popCtrl_def)
  have d: "\<exists>Ls. popCtrl s =
                     Some (Ok ?F,
                           s1\<lparr>Locals := Ls,
                              LocalInits := take (InitedLocal ?F) (LocalInits s),
                              CtrlStack := butlast (CtrlStack s)\<rparr>)
                 \<and> length Ls = length (Locals s)
                 \<and> (\<forall>k < length (Locals s).
                       VType (Ls ! k) = VType (Locals s ! k)
                       \<and> IsInit (Ls ! k) =
                           (IsInit (Locals s ! k)
                            \<and> k \<notin> unat ` set (drop (InitedLocal ?F) (LocalInits s))))
                 \<and> (\<forall>i \<in> set (drop (InitedLocal ?F) (LocalInits s)). \<not> IsInit (Ls ! unat i))"
    if p: "popTypes (EndTypes ?F) s = Some (Ok (), s1)"
      and h: "length (ValStack s1) = Height ?F"
      and le: "InitedLocal ?F \<le> length (LocalInits s)"
      and inr: "\<forall>i \<in> set (drop (InitedLocal ?F) (LocalInits s)). unat i < length (Locals s)"
    for s1
  proof -
    note fs = popTypes_fields [OF p]
    from resetInits_total [OF inr]
    obtain Ls where Ls: "resetInits (drop (InitedLocal ?F) (LocalInits s)) (Locals s) = Some Ls"
      by auto
    note props = resetInits_Some [OF Ls]
    have "popCtrl s = Some (Ok ?F, s1\<lparr>Locals := Ls,
                              LocalInits := take (InitedLocal ?F) (LocalInits s),
                              CtrlStack := butlast (CtrlStack s)\<rparr>)"
      using ne p h le Ls fs u by (simp add: popCtrl_def)
    moreover have "\<forall>i \<in> set (drop (InitedLocal ?F) (LocalInits s)). \<not> IsInit (Ls ! unat i)"
      using props inr by auto
    ultimately show ?thesis using props by blast
  qed
  show ?thesis using a b c d by blast
qed

theorem popCtrl_rules_witness:
  "CtrlStack exFrame \<noteq> [] \<and> InitedLocal (last (CtrlStack exFrame)) < 2 ^ 32
   \<and> popTypes (EndTypes (last (CtrlStack exFrame))) exFrame
       = Some (Ok (), exFrame\<lparr>ValStack := []\<rparr>)
   \<and> popCtrl exFrame =
       Some (Ok (last (CtrlStack exFrame)),
             exFrame\<lparr>ValStack := [],
               Locals := [\<lparr>VType = I32, IsInit = True\<rparr>, \<lparr>VType = Ref FuncRef, IsInit = False\<rparr>],
               LocalInits := [0], CtrlStack := []\<rparr>)
   \<and> popCtrl (exFrame\<lparr>ValStack := [Some I32, Some I32]\<rparr>) =
       Some (Unexpect TypeCheckFailed, exFrame\<lparr>ValStack := [Some I32]\<rparr>)"
  using popCtrl_rules [of exFrame] popCtrl_rules [of "exFrame\<lparr>ValStack := [Some I32, Some I32]\<rparr>"]
  by (simp add: exFrame_def initChecker_def popCtrl_def popTypes_def popType_def popType0_def
                matchType_unfold isRefType_def)


text \<open>
  C4: for a \<^verbatim>\<open>br\<close> or \<^verbatim>\<open>br_if\<close> with a label depth \<open>N\<close> below the size of the control
  stack, let \<open>L\<close> be the frame \<open>N\<close> below the top and \<open>T\<close> its label types. When the
  operand checks pass (for \<^verbatim>\<open>br_if\<close> the condition \<open>i32\<close> is popped first, then \<open>T\<close>
  is popped, leaving the state \<open>s1\<close>), the checker writes into the instruction exactly
  \<open>StackEraseBegin = (|stack of s1| - L.Height) + |T|\<close>, \<open>StackEraseEnd = |T|\<close> and
  \<open>PCOffset = L.Jump - &Instr\<close> as a 32-bit value, and changes nothing else in it. After
  that \<^verbatim>\<open>br\<close> cuts the stack to the floor of the current frame and marks that frame
  unreachable, and \<^verbatim>\<open>br_if\<close> pushes \<open>T\<close> back. The 32-bit values are the numbers
  themselves where they fit.
\<close>

theorem br_metadata:
  assumes depth: "unat (TargetIndex (getJump Instr)) < length (CtrlStack s)"
      and size: "length (CtrlStack s) < 2 ^ 32"
      and L: "L = CtrlStack s ! (length (CtrlStack s) - 1 - unat (TargetIndex (getJump Instr)))"
      and T: "T = getLabelTypes L"
      and J: "J = (getJump Instr)
                    \<lparr>StackEraseBegin :=
                       word_of_nat (length (ValStack s1)) - word_of_nat (Height L)
                         + word_of_nat (length T),
                     StackEraseEnd := word_of_nat (length T),
                     PCOffset := word_of_int (Jump L - pc)\<rparr>"
  shows
   "(getOpCode Instr = Control Br \<and> popTypes T s = Some (Ok (), s1) \<longrightarrow>
       checkInstr pc Instr s =
         Some (Ok (), Instr\<lparr>getJump := J\<rparr>,
               s1\<lparr>ValStack := take (Height (last (CtrlStack s))) (ValStack s1),
                  CtrlStack := butlast (CtrlStack s) @
                                 [(last (CtrlStack s))\<lparr>IsUnreachable := True\<rparr>]\<rparr>))
    \<and> (getOpCode Instr = Control Br_if \<and> popType I32 s = Some (Ok v, s0)
         \<and> popTypes T s0 = Some (Ok (), s1) \<longrightarrow>
       checkInstr pc Instr s =
         Some (Ok (), Instr\<lparr>getJump := J\<rparr>, s1\<lparr>ValStack := ValStack s1 @ map Some T\<rparr>))
    \<and> (Height L \<le> length (ValStack s1) \<and> length (ValStack s1) - Height L + length T < 2 ^ 32
         \<longrightarrow> unat (StackEraseBegin J) = (length (ValStack s1) - Height L) + length T
             \<and> unat (StackEraseEnd J) = length T)
    \<and> (- (2 ^ 31) \<le> Jump L - pc \<and> Jump L - pc < 2 ^ 31 \<longrightarrow> sint (PCOffset J) = Jump L - pc)"
proof -
  note d = checkCtrlStackDepth_Ok [OF depth size]
  have ne: "CtrlStack s \<noteq> []" using depth by auto
  have br: "checkInstr pc Instr s =
         Some (Ok (), Instr\<lparr>getJump := J\<rparr>,
               s1\<lparr>ValStack := take (Height (last (CtrlStack s))) (ValStack s1),
                  CtrlStack := butlast (CtrlStack s) @
                                 [(last (CtrlStack s))\<lparr>IsUnreachable := True\<rparr>]\<rparr>)"
    if op: "getOpCode Instr = Control Br" and p: "popTypes T s = Some (Ok (), s1)"
  proof -
    have cs: "CtrlStack s1 = CtrlStack s" using popTypes_CtrlStack [OF p] .
    have c1: "ctrlAt s1 (word_of_nat (length (CtrlStack s)) - 1 - TargetIndex (getJump Instr))
                = Some L"
      using d(2) L ctrlAt_cong [OF cs] by (simp only:)
    have u: "unreachable s1 =
               Some (Ok (), s1\<lparr>ValStack := take (Height (last (CtrlStack s))) (ValStack s1),
                  CtrlStack := butlast (CtrlStack s) @
                                 [(last (CtrlStack s))\<lparr>IsUnreachable := True\<rparr>]\<rparr>)"
      using unreachable_eq [of s1] ne cs by simp
    show ?thesis
      using op p d L T J c1 u
      by (simp add: checkInstr_def checkControl_def checkBr_def Let_def keep_def writeJump_def)
  qed
  have brif: "checkInstr pc Instr s =
         Some (Ok (), Instr\<lparr>getJump := J\<rparr>, s1\<lparr>ValStack := ValStack s1 @ map Some T\<rparr>)"
    if op: "getOpCode Instr = Control Br_if" and p0: "popType I32 s = Some (Ok v, s0)"
      and p: "popTypes T s0 = Some (Ok (), s1)"
  proof -
    have cs0: "CtrlStack s0 = CtrlStack s" using popType_fields [OF p0] .
    have cs: "CtrlStack s1 = CtrlStack s" using popTypes_CtrlStack [OF p] cs0 by simp
    have c0: "ctrlAt s0 (word_of_nat (length (CtrlStack s)) - 1 - TargetIndex (getJump Instr))
                = Some L"
      using d(2) L ctrlAt_cong [OF cs0] by (simp only:)
    have c1: "ctrlAt s1 (word_of_nat (length (CtrlStack s)) - 1 - TargetIndex (getJump Instr))
                = Some L"
      using d(2) L ctrlAt_cong [OF cs] by (simp only:)
    show ?thesis
      using op p0 p d(1) T J c0 c1
      by (simp add: checkInstr_def checkControl_def checkBr_if_def Let_def writeJump_def
                    pushTypes_eq)
  qed
  have ar: "unat (StackEraseBegin J) = (length (ValStack s1) - Height L) + length T
             \<and> unat (StackEraseEnd J) = length T"
    if h: "Height L \<le> length (ValStack s1)"
      and b: "length (ValStack s1) - Height L + length T < 2 ^ 32"
  proof -
    have w: "(word_of_nat (length (ValStack s1)) - word_of_nat (Height L)
               + word_of_nat (length T) :: uint32)
             = word_of_nat (length (ValStack s1) - Height L + length T)"
      using h by (simp add: of_nat_diff)
    have u1: "unat (word_of_nat (length (ValStack s1) - Height L + length T) :: uint32)
                = length (ValStack s1) - Height L + length T"
      using b by (rule unat_of_nat32)
    have sb: "StackEraseBegin J =
        word_of_nat (length (ValStack s1)) - word_of_nat (Height L) + word_of_nat (length T)"
      unfolding J by simp
    have r1: "unat (StackEraseBegin J) = (length (ValStack s1) - Height L) + length T"
      using w u1 sb by (simp only:)
    have u2: "unat (word_of_nat (length T) :: uint32) = length T"
      using b by (intro unat_of_nat32) arith
    have se: "StackEraseEnd J = word_of_nat (length T)"
      unfolding J by simp
    have r2: "unat (StackEraseEnd J) = length T"
      using u2 se by (simp only:)
    show ?thesis using r1 r2 by (rule conjI)
  qed
  have pco: "sint (PCOffset J) = Jump L - pc"
    if "- (2 ^ 31) \<le> Jump L - pc" "Jump L - pc < 2 ^ 31"
  proof -
    have "PCOffset J = word_of_int (Jump L - pc)" unfolding J by simp
    moreover have "sint (word_of_int (Jump L - pc) :: int32) = Jump L - pc"
      using that by (rule sint_of_int32)
    ultimately show ?thesis by (simp only:)
  qed
  show ?thesis using br brif ar pco by blast
qed

theorem br_metadata_witness:
  "unat (TargetIndex (getJump (exBr Br))) < length (CtrlStack (exBranch [Some I64, Some F32, Some I32]))
   \<and> popTypes (getLabelTypes exOuter) (exBranch [Some I64, Some F32, Some I32])
       = Some (Ok (), exBranch [Some I64, Some F32])
   \<and> checkInstr 3 (exBr Br) (exBranch [Some I64, Some F32, Some I32]) =
       Some (Ok (), (exBr Br)\<lparr>getJump := exJump\<rparr>,
             initChecker\<lparr>ValStack := [Some I64],
                          CtrlStack := [exOuter, exInner\<lparr>IsUnreachable := True\<rparr>]\<rparr>)
   \<and> checkInstr 3 (exBr Br_if) (exBranch [Some I64, Some F32, Some I32, Some I32]) =
       Some (Ok (), (exBr Br_if)\<lparr>getJump := exJump\<rparr>, exBranch [Some I64, Some F32, Some I32])
   \<and> unat (StackEraseBegin exJump) = 3 \<and> unat (StackEraseEnd exJump) = 1
   \<and> sint (PCOffset exJump) = 6"
proof -
  let ?s = "exBranch [Some I64, Some F32, Some I32]"
  let ?si = "exBranch [Some I64, Some F32, Some I32, Some I32]"
  let ?s1 = "exBranch [Some I64, Some F32]"
  have m: "matchType [] I32 I32 = Some True"
    by (simp add: matchType_unfold isRefType_def)
  have tgt: "TargetIndex (getJump (exBr Op)) = 1" for Op
    by (simp add: exBr_def)
  have opc: "getOpCode (exBr Op) = Control Op" for Op
    by (simp add: exBr_def mkInstr_def)
  have cs: "CtrlStack (exBranch Vs) = [exOuter, exInner]" for Vs
    by (simp add: exBranch_def)
  have d: "unat (TargetIndex (getJump (exBr Op))) < length (CtrlStack (exBranch Vs))" for Op Vs
    by (simp add: tgt cs)
  have sz: "length (CtrlStack (exBranch Vs)) < 2 ^ 32" for Vs
    by (simp add: cs)
  have L: "exOuter = CtrlStack (exBranch Vs) !
             (length (CtrlStack (exBranch Vs)) - 1 - unat (TargetIndex (getJump (exBr Op))))"
    for Op Vs
    by (simp add: tgt cs)
  have T: "[I32] = getLabelTypes exOuter"
    by (simp add: getLabelTypes_def exOuter_def)
  have J: "exJump = (getJump (exBr Op))
                    \<lparr>StackEraseBegin :=
                       word_of_nat (length (ValStack ?s1)) - word_of_nat (Height exOuter)
                         + word_of_nat (length [I32]),
                     StackEraseEnd := word_of_nat (length [I32]),
                     PCOffset := word_of_int (Jump exOuter - 3)\<rparr>" for Op
    by (simp add: exJump_def exBr_def exBranch_def exOuter_def)
  have pop1: "popType I32 (exBranch (Vs @ [Some I32])) = Some (Ok (Some I32), exBranch Vs)"
    if "Vs \<noteq> []" for Vs
    using that m
    by (simp add: popType_def popType0_def exBranch_def exInner_def initChecker_def)
  have p: "popTypes [I32] ?s = Some (Ok (), ?s1)"
    using pop1 [of "[Some I64, Some F32]"] by (simp add: popTypes_def)
  have pi: "popType I32 ?si = Some (Ok (Some I32), ?s)"
    using pop1 [of "[Some I64, Some F32, Some I32]"] by simp
  note r1 = br_metadata [OF d [where Op = Br and Vs = "[Some I64, Some F32, Some I32]"]
                sz [where Vs = "[Some I64, Some F32, Some I32]"]
                L [where Op = Br and Vs = "[Some I64, Some F32, Some I32]"] T J [where Op = Br],
              where v = None and ?s0.0 = ?s]
  note r2 = br_metadata [OF d [where Op = Br_if and Vs = "[Some I64, Some F32, Some I32, Some I32]"]
                sz [where Vs = "[Some I64, Some F32, Some I32, Some I32]"]
                L [where Op = Br_if and Vs = "[Some I64, Some F32, Some I32, Some I32]"] T
                J [where Op = Br_if],
              where v = "Some I32" and ?s0.0 = ?s]
  have a: "checkInstr 3 (exBr Br) ?s =
       Some (Ok (), (exBr Br)\<lparr>getJump := exJump\<rparr>,
             initChecker\<lparr>ValStack := [Some I64],
                          CtrlStack := [exOuter, exInner\<lparr>IsUnreachable := True\<rparr>]\<rparr>)"
    using r1 [THEN conjunct1] opc [of Br] p
    by (simp add: cs) (simp add: exBranch_def exInner_def)
  have b: "checkInstr 3 (exBr Br_if) ?si =
       Some (Ok (), (exBr Br_if)\<lparr>getJump := exJump\<rparr>, ?s)"
    using r2 [THEN conjunct2, THEN conjunct1] opc [of Br_if] p pi
    by simp (simp add: exBranch_def)
  have c: "unat (StackEraseBegin exJump) = 3 \<and> unat (StackEraseEnd exJump) = 1
           \<and> sint (PCOffset exJump) = 6"
    by (simp add: exJump_def)
  show ?thesis using d [of Br] p a b c T by simp
qed


text \<open>
  C5: on two reference types \<^verbatim>\<open>matchType\<close> returns false whenever the expected type is
  non-nullable and the type got is nullable. Where that test passes, an expected heap type
  \<open>funcref\<close> matches every concrete type index, and two concrete type indices \<open>i\<close> and
  \<open>j\<close> (both in the type table) match exactly when the parameter lists and the result
  lists of the two function types match; lists match when they have the same length and
  match pointwise under this same relation. Two types that are not references match
  exactly when they are the same type code, and a reference never matches a type that is
  not a reference.
\<close>

theorem matchType_rules:
  "(isRefType Exp \<and> isRefType Got \<and> \<not> isNullableRefType Exp \<and> isNullableRefType Got \<longrightarrow>
      matchType Ts Exp Got = Some False)
   \<and> (getHeapType Exp = Some FuncRef \<and> getHeapType Got = Some (TypeIndex j)
        \<and> (isNullableRefType Got \<longrightarrow> isNullableRefType Exp) \<longrightarrow>
      matchType Ts Exp Got = Some True)
   \<and> (getHeapType Exp = Some (TypeIndex i) \<and> getHeapType Got = Some (TypeIndex j)
        \<and> (isNullableRefType Got \<longrightarrow> isNullableRefType Exp)
        \<and> unat i < length Ts \<and> unat j < length Ts \<longrightarrow>
      matchType Ts Exp Got =
        Option.bind (matchTypes Ts (fst (Ts ! unat i)) (fst (Ts ! unat j)))
          (\<lambda>P. if P then matchTypes Ts (snd (Ts ! unat i)) (snd (Ts ! unat j)) else Some False)
      \<and> ((matchType Ts Exp Got = Some True) =
           (matchTypes Ts (fst (Ts ! unat i)) (fst (Ts ! unat j)) = Some True
            \<and> matchTypes Ts (snd (Ts ! unat i)) (snd (Ts ! unat j)) = Some True)))
   \<and> ((matchTypes Ts Es Gs = Some True) =
        (length Es = length Gs
         \<and> (\<forall>k < length Es. matchType Ts (Es ! k) (Gs ! k) = Some True)))
   \<and> (\<not> isRefType Exp \<and> \<not> isRefType Got \<longrightarrow> matchType Ts Exp Got = Some (Exp = Got))
   \<and> (isRefType Exp \<noteq> isRefType Got \<longrightarrow> matchType Ts Exp Got = Some False)"
proof -
  have r: "isRefType V = (getHeapType V \<noteq> None)" for V
    by (cases V) (simp_all add: isRefType_def getHeapType_def)
  have n: "isNullableRefType V \<Longrightarrow> getHeapType V \<noteq> None" for V
    by (cases V) (simp_all add: isNullableRefType_def getHeapType_def)
  have a: "isRefType Exp \<and> isRefType Got \<and> \<not> isNullableRefType Exp \<and> isNullableRefType Got \<longrightarrow>
      matchType Ts Exp Got = Some False"
    by (subst matchType_unfold) (auto simp: r)
  have b: "getHeapType Exp = Some FuncRef \<and> getHeapType Got = Some (TypeIndex j)
        \<and> (isNullableRefType Got \<longrightarrow> isNullableRefType Exp) \<longrightarrow>
      matchType Ts Exp Got = Some True"
    by (subst matchType_unfold) (auto simp: r isTypeIndex_def sameHeapTypeCode_def)
  have c1: "matchType Ts Exp Got =
        Option.bind (matchTypes Ts (fst (Ts ! unat i)) (fst (Ts ! unat j)))
          (\<lambda>P. if P then matchTypes Ts (snd (Ts ! unat i)) (snd (Ts ! unat j)) else Some False)"
    if "getHeapType Exp = Some (TypeIndex i)" "getHeapType Got = Some (TypeIndex j)"
       "isNullableRefType Got \<longrightarrow> isNullableRefType Exp"
       "unat i < length Ts" "unat j < length Ts"
    using that by (subst matchType_unfold) (auto simp: r isTypeIndex_def sameHeapTypeCode_def)
  have c2: "(matchType Ts Exp Got = Some True) =
           (matchTypes Ts (fst (Ts ! unat i)) (fst (Ts ! unat j)) = Some True
            \<and> matchTypes Ts (snd (Ts ! unat i)) (snd (Ts ! unat j)) = Some True)"
    if "getHeapType Exp = Some (TypeIndex i)" "getHeapType Got = Some (TypeIndex j)"
       "isNullableRefType Got \<longrightarrow> isNullableRefType Exp"
       "unat i < length Ts" "unat j < length Ts"
    unfolding c1 [OF that] by (auto split: Option.bind_splits if_splits)
  have d: "\<not> isRefType Exp \<and> \<not> isRefType Got \<longrightarrow> matchType Ts Exp Got = Some (Exp = Got)"
    by (subst matchType_unfold) (auto simp: r)
  have e: "isRefType Exp \<noteq> isRefType Got \<longrightarrow> matchType Ts Exp Got = Some False"
    by (subst matchType_unfold) (auto simp: r)
  show ?thesis using a b c1 c2 d e matchTypes_True_iff [of Ts Es Gs] by blast
qed

theorem matchType_rules_witness:
  "matchType exTypes (Ref FuncRef) (RefNull (TypeIndex 0)) = Some False
   \<and> matchType exTypes (RefNull FuncRef) (Ref (TypeIndex 0)) = Some True
   \<and> matchType exTypes (Ref (TypeIndex 0)) (Ref (TypeIndex 1)) = Some True
   \<and> matchType exTypes (Ref (TypeIndex 0)) (Ref (TypeIndex 2)) = Some False
   \<and> matchTypes exTypes [I32, I64] [I32, I64] = Some True
   \<and> matchType exTypes I32 I64 = Some False
   \<and> matchType exTypes I32 (Ref FuncRef) = Some False"
  using matchType_rules [of "Ref FuncRef" "RefNull (TypeIndex 0)" exTypes 0 0 "[I32, I64]" "[I32, I64]"]
        matchType_rules [of "RefNull FuncRef" "Ref (TypeIndex 0)" exTypes 0 0 "[]" "[]"]
        matchType_rules [of "Ref (TypeIndex 0)" "Ref (TypeIndex 1)" exTypes 1 0 "[]" "[]"]
        matchType_rules [of "Ref (TypeIndex 0)" "Ref (TypeIndex 2)" exTypes 2 0 "[]" "[]"]
        matchType_rules [of I32 I64 exTypes 0 0 "[]" "[]"]
        matchType_rules [of I32 "Ref FuncRef" exTypes 0 0 "[]" "[]"]
  by (simp add: exTypes_def isRefType_def isNullableRefType_def getHeapType_def
                matchTypes_Cons matchTypes_Nil matchType_unfold less_Suc_eq all_conj_distrib)

text \<open>
  C6: for every case label of \<^verbatim>\<open>checkInstr\<close> that calls \<^verbatim>\<open>checkAlignAndTrans\<close> with the
  access width \<open>N\<close> (the plain, SIMD and atomic loads and stores of the table
  \<open>alignOps\<close>) and for a target memory index in range, the check fails with
  \<open>InvalidAlignment\<close> exactly when the alignment exponent \<open>a\<close> does not satisfy
  \<open>a \<le> 31\<close> and \<open>2 ^ a \<le> N div 8\<close>; otherwise the result is that of the lane check or
  the stack transition that follows, which is never \<open>InvalidAlignment\<close>. Every width of
  the table is 8 times a power of two \<open>2 ^ k\<close>; the exponent \<open>k\<close> is accepted and
  \<open>k + 1\<close> is rejected.
\<close>

theorem alignment_check:
  assumes tab: "(Name, N, Take, Put, CheckLane) \<in> set alignOps"
      and op: "getOpCode Instr = AlignOp Name"
      and mem: "getTargetIndex Instr < Mems s"
  shows
   "((\<exists>s1. checkInstr pc Instr s = Some (Unexpect InvalidAlignment, Instr, s1)) =
       (\<not> (unat (getMemoryAlign Instr) \<le> 31 \<and> 2 ^ unat (getMemoryAlign Instr) \<le> N div 8)))
    \<and> (unat (getMemoryAlign Instr) \<le> 31 \<and> 2 ^ unat (getMemoryAlign Instr) \<le> N div 8 \<longrightarrow>
         checkInstr pc Instr s =
           keep Instr (if CheckLane then checkLaneAndTrans Instr (128 div N) Take Put s
                       else StackTrans Take Put s))
    \<and> (\<not> (unat (getMemoryAlign Instr) \<le> 31 \<and> 2 ^ unat (getMemoryAlign Instr) \<le> N div 8) \<longrightarrow>
         checkInstr pc Instr s = Some (Unexpect InvalidAlignment, Instr, s))
    \<and> (\<exists>k \<le> 4. N div 8 = 2 ^ k
          \<and> (unat (getMemoryAlign Instr) = k \<longrightarrow>
                (\<forall>s1. checkInstr pc Instr s \<noteq> Some (Unexpect InvalidAlignment, Instr, s1)))
          \<and> (unat (getMemoryAlign Instr) = k + 1 \<longrightarrow>
                checkInstr pc Instr s = Some (Unexpect InvalidAlignment, Instr, s)))"
proof -
  let ?a = "unat (getMemoryAlign Instr)"
  let ?ok = "?a \<le> 31 \<and> 2 ^ ?a \<le> N div 8"
  have lk: "map_of alignOps Name = Some (N, Take, Put, CheckLane)"
    using alignOps_distinct tab by (rule map_of_is_SomeI)
  have gt: "(getMemoryAlign Instr > 31) = (?a > 31)"
    by (simp add: word_less_nat_alt)
  have ci: "checkInstr pc Instr s = keep Instr (checkAlignAndTrans Instr N Take Put CheckLane s)"
    using op lk by (simp add: checkInstr_def)
  have pass: "checkInstr pc Instr s =
           keep Instr (if CheckLane then checkLaneAndTrans Instr (128 div N) Take Put s
                       else StackTrans Take Put s)" if ?ok
    using that mem gt unfolding ci by (auto simp: checkAlignAndTrans_def not_less [symmetric])
  have rej: "checkInstr pc Instr s = Some (Unexpect InvalidAlignment, Instr, s)" if "\<not> ?ok"
    using that mem gt unfolding ci by (auto simp: checkAlignAndTrans_def keep_def)
  have noal: "checkInstr pc Instr s \<noteq> Some (Unexpect InvalidAlignment, Instr, s1)" if ?ok for s1
    unfolding pass [OF that]
    by (auto simp: keep_def split: option.splits prod.splits if_splits
             dest: StackTrans_err checkLaneAndTrans_err)
  have iff: "(\<exists>s1. checkInstr pc Instr s = Some (Unexpect InvalidAlignment, Instr, s1)) = (\<not> ?ok)"
    using noal rej by blast
  have "N \<in> {8, 16, 32, 64, 128}"
    using alignOps_widths tab by blast
  from width_log2 [OF this] obtain k where k: "k \<le> 4" "N div 8 = 2 ^ k" by blast
  have acc: "?ok" if "?a = k"
    using that k by simp
  have nacc: "\<not> ?ok" if "?a = k + 1"
    using that k by simp
  have boundary: "\<exists>k \<le> 4. N div 8 = 2 ^ k
          \<and> (?a = k \<longrightarrow>
                (\<forall>s1. checkInstr pc Instr s \<noteq> Some (Unexpect InvalidAlignment, Instr, s1)))
          \<and> (?a = k + 1 \<longrightarrow>
                checkInstr pc Instr s = Some (Unexpect InvalidAlignment, Instr, s))"
    using k acc nacc noal rej by blast
  show ?thesis using iff pass rej boundary by blast
qed

theorem alignment_check_witness:
  "(''I32__load'', 32, [I32], [I32], False) \<in> set alignOps
   \<and> getTargetIndex (exLoad 3) < Mems (exMem [Some I32])
   \<and> checkInstr 1 (exLoad 3) (exMem [Some I32])
       = Some (Unexpect InvalidAlignment, exLoad 3, exMem [Some I32])
   \<and> checkInstr 1 (exLoad 2) (exMem [Some I32]) = Some (Ok (), exLoad 2, exMem [Some I32])"
proof -
  have tab: "(''I32__load'', 32, [I32], [I32], False) \<in> set alignOps"
    by (simp add: alignOps_def)
  have op: "getOpCode (exLoad a) = AlignOp ''I32__load''" for a
    by (simp add: exLoad_def mkInstr_def)
  have mem: "getTargetIndex (exLoad a) < Mems (exMem [Some I32])" for a
    by (simp add: exLoad_def mkInstr_def exMem_def initChecker_def)
  have al: "unat (getMemoryAlign (exLoad 3)) = 3" "unat (getMemoryAlign (exLoad 2)) = 2"
    by (simp_all add: exLoad_def)
  have m: "matchType [] I32 I32 = Some True"
    by (simp add: matchType_unfold isRefType_def)
  have st: "StackTrans [I32] [I32] (exMem [Some I32]) = Some (Ok (), exMem [Some I32])"
    using m
    by (simp add: StackTrans_def popTypes_def popType_def popType0_def pushType_def exMem_def
                  initChecker_def)
  note r3 = alignment_check [OF tab op [of 3] mem [of 3], where pc = 1]
  note r2 = alignment_check [OF tab op [of 2] mem [of 2], where pc = 1]
  have a: "checkInstr 1 (exLoad 3) (exMem [Some I32])
             = Some (Unexpect InvalidAlignment, exLoad 3, exMem [Some I32])"
    using r3 [THEN conjunct2, THEN conjunct2, THEN conjunct1] al by simp
  have b: "checkInstr 1 (exLoad 2) (exMem [Some I32]) = Some (Ok (), exLoad 2, exMem [Some I32])"
    using r2 [THEN conjunct2, THEN conjunct1] al st by (simp add: keep_def)
  show ?thesis using tab mem a b by simp
qed




text \<open>
  C9: for every \<^verbatim>\<open>i8x16.shuffle\<close> instruction, validation fails with \<open>InvalidLaneIdx\<close>
  exactly when the bitwise AND of the 128-bit immediate with the mask is not zero. The
  mask has \<open>0xE0\<close> in each of its 16 bytes, so this is exactly when some lane byte of the
  immediate is 32 or more. Otherwise the instruction is checked as the stack transition
  \<open>[v128, v128] \<rightarrow> [v128]\<close>, which never fails with \<open>InvalidLaneIdx\<close>.
\<close>

theorem shuffle_lane_check:
  assumes op: "getOpCode Instr = I8x16__shuffle"
  shows
   "((\<exists>s1. checkInstr pc Instr s = Some (Unexpect InvalidLaneIdx, Instr, s1)) =
       (getNum Instr AND ShuffleMask \<noteq> 0))
    \<and> ((getNum Instr AND ShuffleMask \<noteq> 0) = (\<exists>k < 16. 32 \<le> laneByte (getNum Instr) k))
    \<and> (\<forall>k < 16. laneByte ShuffleMask k = 0xE0)
    \<and> (getNum Instr AND ShuffleMask \<noteq> 0 \<longrightarrow>
         checkInstr pc Instr s = Some (Unexpect InvalidLaneIdx, Instr, s))
    \<and> (getNum Instr AND ShuffleMask = 0 \<longrightarrow>
         checkInstr pc Instr s = keep Instr (StackTrans [V128, V128] [V128] s))"
proof -
  have rej: "checkInstr pc Instr s = Some (Unexpect InvalidLaneIdx, Instr, s)"
    if "getNum Instr AND ShuffleMask \<noteq> 0"
    using that op by (simp add: checkInstr_def)
  have pass: "checkInstr pc Instr s = keep Instr (StackTrans [V128, V128] [V128] s)"
    if "getNum Instr AND ShuffleMask = 0"
    using that op by (simp add: checkInstr_def)
  have nol: "checkInstr pc Instr s \<noteq> Some (Unexpect InvalidLaneIdx, Instr, s1)"
    if "getNum Instr AND ShuffleMask = 0" for s1
    unfolding pass [OF that]
    by (auto simp: keep_def split: option.splits prod.splits dest: StackTrans_err)
  have iff: "(\<exists>s1. checkInstr pc Instr s = Some (Unexpect InvalidLaneIdx, Instr, s1)) =
       (getNum Instr AND ShuffleMask \<noteq> 0)"
    using rej nol by blast
  have "\<forall>k \<in> set [0..<16]. laneByte ShuffleMask k = 0xE0"
    by code_simp
  then have bytes: "\<forall>k < 16. laneByte ShuffleMask k = 0xE0"
    by simp
  show ?thesis
    using iff shuffle_mask_lanes [of "getNum Instr"] bytes rej pass by blast
qed

theorem shuffle_lane_check_witness:
  "getOpCode (exShuffle 0x20) = I8x16__shuffle
   \<and> checkInstr 0 (exShuffle 0x20) (exMem [Some V128, Some V128])
       = Some (Unexpect InvalidLaneIdx, exShuffle 0x20, exMem [Some V128, Some V128])
   \<and> laneByte 0x20 0 = 32
   \<and> checkInstr 0 (exShuffle 0x1F00) (exMem [Some V128, Some V128])
       = Some (Ok (), exShuffle 0x1F00, exMem [Some V128])"
proof -
  have op: "getOpCode (exShuffle n) = I8x16__shuffle" for n
    by (simp add: exShuffle_def mkInstr_def)
  have n1: "getNum (exShuffle 0x20) AND ShuffleMask \<noteq> 0"
    by (simp add: exShuffle_def ShuffleMask_def)
  have n2: "getNum (exShuffle 0x1F00) AND ShuffleMask = 0"
    by (simp add: exShuffle_def ShuffleMask_def)
  have m: "matchType [] V128 V128 = Some True"
    by (simp add: matchType_unfold isRefType_def)
  have st: "StackTrans [V128, V128] [V128] (exMem [Some V128, Some V128])
              = Some (Ok (), exMem [Some V128])"
    using m
    by (simp add: StackTrans_def popTypes_def popType_def popType0_def pushType_def exMem_def
                  initChecker_def)
  note r1 = shuffle_lane_check [OF op [of "0x20"], where pc = 0
              and s = "exMem [Some V128, Some V128]"]
  note r2 = shuffle_lane_check [OF op [of "0x1F00"], where pc = 0
              and s = "exMem [Some V128, Some V128]"]
  have a: "checkInstr 0 (exShuffle 0x20) (exMem [Some V128, Some V128])
       = Some (Unexpect InvalidLaneIdx, exShuffle 0x20, exMem [Some V128, Some V128])"
    using r1 [THEN conjunct2, THEN conjunct2, THEN conjunct2, THEN conjunct1] n1 by blast
  have b: "checkInstr 0 (exShuffle 0x1F00) (exMem [Some V128, Some V128])
       = Some (Ok (), exShuffle 0x1F00, exMem [Some V128])"
    using r2 [THEN conjunct2, THEN conjunct2, THEN conjunct2, THEN conjunct2] n2 st
    by (simp add: keep_def)
  have c: "laneByte 0x20 0 = 32"
    by (simp add: laneByte_def)
  show ?thesis using op a b c by simp
qed

end
